theory Spec2Isabelle
  imports Complex_Main "HOL-Library.Monad_Syntax" "HOL-Library.Sublist"
begin

section \<open>Numbers and their printing\<close>

text \<open>
  The geometry module \<^verbatim>\<open>src/core/squircleMath.ts\<close> computes with JavaScript numbers.
  They are modelled as the reals: every value is finite and arithmetic is exact, so the
  rounding of IEEE doubles is idealised away. What exact arithmetic cannot express is a
  division by zero, which in JavaScript yields \<^verbatim>\<open>NaN\<close> or an infinity and then flows
  on into the path string. Every division of the source by a computed denominator is
  therefore written with \<open>numDiv\<close>, whose \<open>None\<close> stands for "not a finite number";
  a function that meets \<open>None\<close> returns \<open>None\<close>.
\<close>

definition numDiv :: "real \<Rightarrow> real \<Rightarrow> real option" where
  "numDiv x y = (if y = 0 then None else Some (x / y))"

text \<open>\<^verbatim>\<open>Math.min(...xs)\<close>: the least element; of no arguments it is \<^verbatim>\<open>Infinity\<close>.\<close>

fun mathMin :: "real list \<Rightarrow> real option" where
  "mathMin [] = None"
| "mathMin (x # xs) = Some (fold min xs x)"

text \<open>\<^verbatim>\<open>degToRad\<close> (lines 592-594).\<close>

definition degToRad :: "real \<Rightarrow> real" where
  "degToRad degrees = (degrees * pi) / 180"

text \<open>
  Decimal digits of a natural number, and \<^verbatim>\<open>Number.prototype.toFixed\<close> as ECMAScript
  defines it: below \<open>10\<^sup>2\<^sup>1\<close> in magnitude the number is rounded to the nearest multiple
  of \<open>10\<^sup>-\<^sup>f\<close> (of two nearest ones the larger in magnitude), printed with exactly \<open>f\<close>
  digits after the point and with the sign of the unrounded number; from \<open>10\<^sup>2\<^sup>1\<close> on it
  falls back to the default conversion \<^verbatim>\<open>Number::toString\<close>. That default conversion
  (also used by a plain \<^verbatim>\<open>${x}\<close> in a template literal) prints the shortest decimal
  that identifies a double, which no function of a real can reproduce; it is the
  parameter \<open>toStr\<close> of everything that prints.
\<close>

definition digitChar :: "nat \<Rightarrow> char" where
  "digitChar d = ''0123456789'' ! d"

fun digitsOf :: "nat \<Rightarrow> string" where
  "digitsOf n = (if n < 10 then [digitChar n] else digitsOf (n div 10) @ [digitChar (n mod 10)])"

declare digitsOf.simps [simp del]

definition toFixed :: "(real \<Rightarrow> string) \<Rightarrow> nat \<Rightarrow> real \<Rightarrow> string" where
  "toFixed toStr f x =
     (if \<bar>x\<bar> \<ge> 10 ^ 21 then toStr x
      else let n = nat \<lfloor>\<bar>x\<bar> * 10 ^ f + 1 / 2\<rfloor>;
               m = digitsOf n;
               m = replicate (f + 1 - length m) (CHR ''0'') @ m;
               k = length m
           in (if x < 0 then ''-'' else '''') @
              (if f = 0 then m else take (k - f) m @ ''.'' @ drop (k - f) m))"

text \<open>\<^verbatim>\<open>Array.prototype.join\<close>.\<close>

fun joinWith :: "string \<Rightarrow> string list \<Rightarrow> string" where
  "joinWith sep [] = []"
| "joinWith sep [s] = s"
| "joinWith sep (s # t # ss) = s @ sep @ joinWith sep (t # ss)"

text \<open>
  A concrete printer for evaluating the model at given inputs: sign, integer digits and,
  when the number is not an integer, the point and the fractional digits up to the last
  non-zero one (at most 20). At an integer below \<open>10\<^sup>2\<^sup>1\<close> and at a short decimal such
  as \<open>99.996\<close> this is what \<^verbatim>\<open>Number::toString\<close> prints.
\<close>

fun fracDigits :: "nat \<Rightarrow> real \<Rightarrow> string" where
  "fracDigits 0 r = []"
| "fracDigits (Suc k) r =
     (if r = 0 then []
      else let d = nat \<lfloor>r * 10\<rfloor> in digitChar d # fracDigits k (r * 10 - real d))"

definition decimalString :: "real \<Rightarrow> string" where
  "decimalString x =
     (if x < 0 then ''-'' else '''') @ digitsOf (nat \<lfloor>\<bar>x\<bar>\<rfloor>) @
     (if frac \<bar>x\<bar> = 0 then '''' else ''.'' @ fracDigits 20 (frac \<bar>x\<bar>))"

section \<open>Data model (\<^verbatim>\<open>src/core/types.ts\<close>)\<close>

datatype CornerId = topLeft | topRight | bottomLeft | bottomRight

datatype EdgeOrientation = top_edge | bottom_edge | left_edge | right_edge

record CornerProfile =
  radius :: real
  roundingAndSmoothingBudget :: real

type_synonym CornerProfiles = "CornerId \<Rightarrow> CornerProfile"

record BezierPatch =
  patch_a :: real
  patch_b :: real
  patch_c :: real
  patch_d :: real
  patch_p :: real
  patch_cornerRadius :: real
  patch_arcSectionLength :: real

text \<open>Optional fields of \<^verbatim>\<open>SquirclePathInput\<close> are options: \<open>None\<close> is \<^verbatim>\<open>undefined\<close>.\<close>

record SquirclePathInput =
  cornerRadius :: "real option"
  topLeftCornerRadius :: "real option"
  topRightCornerRadius :: "real option"
  bottomRightCornerRadius :: "real option"
  bottomLeftCornerRadius :: "real option"
  cornerSmoothing :: real
  width :: real
  height :: real
  preserveSmoothing :: "bool option"

text \<open>The argument object of \<^verbatim>\<open>joinCornerProfiles\<close> (lines 424-431).\<close>

record PathParamsInput =
  pathWidth :: real
  pathHeight :: real
  topLeftPathParams :: BezierPatch
  topRightPathParams :: BezierPatch
  bottomLeftPathParams :: BezierPatch
  bottomRightPathParams :: BezierPatch

section \<open>The two caches (lines 21-23, 156-205)\<close>

text \<open>
  The module-level maps are the state that every call reads and returns. A JavaScript
  \<^verbatim>\<open>Map\<close> iterates in insertion order, which the eviction of the path cache relies on,
  so \<^verbatim>\<open>PATH_CACHE_MAP\<close> is an association list in insertion order; the corner-profile
  cache is only read and written by key.
\<close>

record Caches =
  PATH_CACHE_MAP :: "(string \<times> string) list"
  CORNER_PROFILE_CACHE :: "string \<rightharpoonup> BezierPatch"

definition PATH_CACHE_LIMIT :: nat where
  "PATH_CACHE_LIMIT = 160"

definition emptyCaches :: Caches where
  "emptyCaches = \<lparr>PATH_CACHE_MAP = [], CORNER_PROFILE_CACHE = Map.empty\<rparr>"

text \<open>\<^verbatim>\<open>Map.prototype.set\<close> keeps the position of a key that is present and appends a new one.\<close>

fun mapSet :: "'k \<Rightarrow> 'v \<Rightarrow> ('k \<times> 'v) list \<Rightarrow> ('k \<times> 'v) list" where
  "mapSet k v [] = [(k, v)]"
| "mapSet k v ((k', v') # m) = (if k' = k then (k, v) # m else (k', v') # mapSet k v m)"

definition mapDelete :: "'k \<Rightarrow> ('k \<times> 'v) list \<Rightarrow> ('k \<times> 'v) list" where
  "mapDelete k m = filter (\<lambda>(k', v'). k' \<noteq> k) m"

definition mapHas :: "'k \<Rightarrow> ('k \<times> 'v) list \<Rightarrow> bool" where
  "mapHas k m = (map_of m k \<noteq> None)"

definition composeCacheKey ::
  "(real \<Rightarrow> string) \<Rightarrow> real \<Rightarrow> real \<Rightarrow> real \<Rightarrow> bool \<Rightarrow> real \<Rightarrow> real \<Rightarrow> real \<Rightarrow> real \<Rightarrow> real \<Rightarrow> string" where
  "composeCacheKey toStr w h smoothing preserve baseRadius rTL rTR rBR rBL =
     joinWith ''|''
       [toFixed toStr 2 w,
        toFixed toStr 2 h,
        toFixed toStr 4 smoothing,
        (if preserve then ''1'' else ''0''),
        toFixed toStr 2 baseRadius,
        toFixed toStr 2 rTL,
        toFixed toStr 2 rTR,
        toFixed toStr 2 rBR,
        toFixed toStr 2 rBL]"

definition readCachedPath :: "string \<Rightarrow> Caches \<Rightarrow> string option" where
  "readCachedPath key caches = map_of (PATH_CACHE_MAP caches) key"

definition storeCachedPath :: "string \<Rightarrow> string \<Rightarrow> Caches \<Rightarrow> Caches" where
  "storeCachedPath key val caches =
     (let m = PATH_CACHE_MAP caches;
          m = (if length m \<ge> PATH_CACHE_LIMIT \<and> \<not> mapHas key m
               then (case m of [] \<Rightarrow> m | (oldest, v) # rest \<Rightarrow> mapDelete oldest m)
               else m)
      in caches\<lparr>PATH_CACHE_MAP := mapSet key val m\<rparr>)"

definition cornerProfileCacheKey :: "(real \<Rightarrow> string) \<Rightarrow> real \<Rightarrow> real \<Rightarrow> bool \<Rightarrow> real \<Rightarrow> string" where
  "cornerProfileCacheKey toStr r smoothing preserve budget =
     joinWith ''|''
       [toFixed toStr 3 r,
        toFixed toStr 4 smoothing,
        (if preserve then ''1'' else ''0''),
        toFixed toStr 3 budget]"

section \<open>Corner-budget normalisation (lines 207-312)\<close>

definition ADJACENT_RELATIONS :: "CornerId \<Rightarrow> (CornerId \<times> EdgeOrientation) list" where
  "ADJACENT_RELATIONS corner =
     (case corner of
        topLeft \<Rightarrow> [(topRight, top_edge), (bottomLeft, left_edge)]
      | topRight \<Rightarrow> [(topLeft, top_edge), (bottomRight, right_edge)]
      | bottomLeft \<Rightarrow> [(bottomRight, bottom_edge), (topLeft, left_edge)]
      | bottomRight \<Rightarrow> [(bottomLeft, bottom_edge), (topRight, right_edge)])"

text \<open>
  The callback of \<^verbatim>\<open>adjacents.map\<close> (lines 272-287): what one adjacent edge contributes
  to the minimum that becomes the corner's budget. \<open>r\<close> is the radius of the sorted
  entry, \<open>radiusMap\<close> and \<open>budgetMap\<close> are the two records as mutated so far.
\<close>

definition adjacentTerm ::
  "real \<Rightarrow> real \<Rightarrow> (CornerId \<Rightarrow> real) \<Rightarrow> (CornerId \<Rightarrow> real) \<Rightarrow> real \<Rightarrow>
     CornerId \<times> EdgeOrientation \<Rightarrow> real option" where
  "adjacentTerm w h radiusMap budgetMap r = (\<lambda>(adjacentCorner, side).
     let adjacentRadius = radiusMap adjacentCorner in
     if r = 0 \<and> adjacentRadius = 0 then Some 0
     else
       let adjacentBudget = budgetMap adjacentCorner;
           sideLength = (if side = top_edge \<or> side = bottom_edge then w else h)
       in if adjacentBudget \<ge> 0 then Some (sideLength - adjacentBudget)
          else do { q \<leftarrow> numDiv r (r + adjacentRadius); Some (q * sideLength) })"

text \<open>The body of the \<^verbatim>\<open>forEach\<close> callback (lines 267-292) as a step on the two maps.\<close>

definition resolveCorner ::
  "real \<Rightarrow> real \<Rightarrow> CornerId \<times> real \<Rightarrow> (CornerId \<Rightarrow> real) \<times> (CornerId \<Rightarrow> real) \<Rightarrow>
     ((CornerId \<Rightarrow> real) \<times> (CornerId \<Rightarrow> real)) option" where
  "resolveCorner w h = (\<lambda>(corner, r) (radiusMap, budgetMap).
     do {
       terms \<leftarrow> those (map (adjacentTerm w h radiusMap budgetMap r) (ADJACENT_RELATIONS corner));
       budget \<leftarrow> mathMin terms;
       Some (radiusMap(corner := min r budget), budgetMap(corner := budget))
     })"

fun forEachM :: "('a \<Rightarrow> 's \<Rightarrow> 's option) \<Rightarrow> 'a list \<Rightarrow> 's \<Rightarrow> 's option" where
  "forEachM f [] s = Some s"
| "forEachM f (x # xs) s = (case f x s of None \<Rightarrow> None | Some s' \<Rightarrow> forEachM f xs s')"

text \<open>
  \<^verbatim>\<open>Object.entries\<close> lists the corners in the order of the object literal (lines
  251-256); the comparator \<^verbatim>\<open>r2 - r1\<close> sorts by descending radius and
  \<^verbatim>\<open>Array.prototype.sort\<close> is stable, as the insertion sort \<open>sort_key\<close> is. The entries
  carry the requested radii: the loop reads \<open>r\<close> from the entry, not from the mutated map.
\<close>

definition sortedEntries :: "real \<Rightarrow> real \<Rightarrow> real \<Rightarrow> real \<Rightarrow> (CornerId \<times> real) list" where
  "sortedEntries rTL rTR rBR rBL =
     sort_key (\<lambda>(corner, r). - r)
       [(topLeft, rTL), (topRight, rTR), (bottomLeft, rBL), (bottomRight, rBR)]"

definition initialRadiusMap :: "real \<Rightarrow> real \<Rightarrow> real \<Rightarrow> real \<Rightarrow> CornerId \<Rightarrow> real" where
  "initialRadiusMap rTL rTR rBR rBL corner =
     (case corner of topLeft \<Rightarrow> rTL | topRight \<Rightarrow> rTR | bottomLeft \<Rightarrow> rBL | bottomRight \<Rightarrow> rBR)"

definition normalizeCorners ::
  "real \<Rightarrow> real \<Rightarrow> real \<Rightarrow> real \<Rightarrow> real \<Rightarrow> real \<Rightarrow> CornerProfiles option" where
  "normalizeCorners rTL rTR rBR rBL w h =
     do {
       (radiusMap, budgetMap) \<leftarrow>
         forEachM (resolveCorner w h) (sortedEntries rTL rTR rBR rBL)
           (initialRadiusMap rTL rTR rBR rBL, \<lambda>corner. - 1);
       Some (\<lambda>corner. \<lparr>radius = radiusMap corner,
                        roundingAndSmoothingBudget = budgetMap corner\<rparr>)
     }"

section \<open>One corner's profile (lines 323-422)\<close>

text \<open>
  Lines 354-360: the initial footprint \<open>p\<close> and, unless smoothing is preserved, the
  smoothing factor and the footprint clamped to the budget. The result is the pair of
  \<^verbatim>\<open>cornerSmoothing\<close> and \<^verbatim>\<open>p\<close> as they stand at line 361.
\<close>

definition clampSmoothing :: "real \<Rightarrow> real \<Rightarrow> bool \<Rightarrow> real \<Rightarrow> (real \<times> real) option" where
  "clampSmoothing r smoothing preserve budget =
     (let p = (1 + smoothing) * r in
      if \<not> preserve then
        do {
          q \<leftarrow> numDiv budget r;
          let maxSmoothing = q - 1;
          Some (min smoothing maxSmoothing, min p budget)
        }
      else Some (smoothing, p))"

text \<open>Line 362, with the smoothing factor of line 361.\<close>

definition arcMeasureOf :: "real \<Rightarrow> real" where
  "arcMeasureOf smoothing = 90 * (1 - smoothing)"

definition zeroProfile :: BezierPatch where
  "zeroProfile = \<lparr>patch_a = 0, patch_b = 0, patch_c = 0, patch_d = 0, patch_p = 0,
                   patch_cornerRadius = 0, patch_arcSectionLength = 0\<rparr>"

text \<open>
  Lines 340-396: what \<^verbatim>\<open>computeCornerProfile\<close> computes when its cache has no entry
  for the key.
\<close>

definition computeCornerProfile_body :: "real \<Rightarrow> real \<Rightarrow> bool \<Rightarrow> real \<Rightarrow> BezierPatch option" where
  "computeCornerProfile_body r smoothing preserve budget =
     (if r \<le> 0 \<or> budget \<le> 0 then Some zeroProfile
      else
        do {
          (smoothing', p) \<leftarrow> clampSmoothing r smoothing preserve budget;
          let arcMeasure = arcMeasureOf smoothing';
              arcSectionLength = sin (degToRad (arcMeasure / 2)) * r * sqrt 2;
              angleAlpha = (90 - arcMeasure) / 2;
              p3ToP4Distance = r * tan (degToRad (angleAlpha / 2));
              angleBeta = 45 * smoothing';
              c = p3ToP4Distance * cos (degToRad angleBeta);
              d = c * tan (degToRad angleBeta);
              b = (p - arcSectionLength - c - d) / 3;
              a = 2 * b
          in
            if preserve \<and> p > budget then
              let p1ToP3MaxDistance = budget - d - arcSectionLength - c;
                  minA = p1ToP3MaxDistance / 6;
                  maxB = p1ToP3MaxDistance - minA;
                  b' = min b maxB;
                  a' = p1ToP3MaxDistance - b';
                  p' = min p budget
              in Some \<lparr>patch_a = a', patch_b = b', patch_c = c, patch_d = d, patch_p = p',
                        patch_cornerRadius = r, patch_arcSectionLength = arcSectionLength\<rparr>
            else
              Some \<lparr>patch_a = a, patch_b = b, patch_c = c, patch_d = d, patch_p = p,
                     patch_cornerRadius = r, patch_arcSectionLength = arcSectionLength\<rparr>
        })"

text \<open>
  Lines 329-338, 350 and 397: the lookup in front of the computation and the store
  behind it. A cached profile is an object, so \<^verbatim>\<open>if (cached)\<close> holds for every hit.
\<close>

definition computeCornerProfile ::
  "(real \<Rightarrow> string) \<Rightarrow> real \<Rightarrow> real \<Rightarrow> bool \<Rightarrow> real \<Rightarrow> Caches \<Rightarrow> (BezierPatch \<times> Caches) option" where
  "computeCornerProfile toStr r smoothing preserve budget caches =
     (let cacheKey = cornerProfileCacheKey toStr r smoothing preserve budget in
      case CORNER_PROFILE_CACHE caches cacheKey of
        Some cached \<Rightarrow> Some (cached, caches)
      | None \<Rightarrow>
          do {
            profile \<leftarrow> computeCornerProfile_body r smoothing preserve budget;
            Some (profile,
                  caches\<lparr>CORNER_PROFILE_CACHE := (CORNER_PROFILE_CACHE caches)(cacheKey \<mapsto> profile)\<rparr>)
          })"

section \<open>Assembling the path (lines 445-611)\<close>

text \<open>
  \<^verbatim>\<open>formatSegment\<close> is a template tag: it receives the literal chunks of the template
  and the interpolated values, and appends to each chunk its value printed with
  \<^verbatim>\<open>toFixed(4)\<close>, as long as there is one.
\<close>

fun formatSegment :: "(real \<Rightarrow> string) \<Rightarrow> string list \<Rightarrow> real list \<Rightarrow> string" where
  "formatSegment toStr [] vs = []"
| "formatSegment toStr (s # ss) [] = s @ formatSegment toStr ss []"
| "formatSegment toStr (s # ss) (v # vs) = s @ toFixed toStr 4 v @ formatSegment toStr ss vs"

text \<open>
  The four corner tracers. The templates of the curved branch run over several source
  lines, so their chunks contain the line feeds and the indentation of the source;
  \<^verbatim>\<open>if (cornerRadius)\<close> holds for every number other than zero.
\<close>

definition traceTopRight :: "(real \<Rightarrow> string) \<Rightarrow> BezierPatch \<Rightarrow> string" where
  "traceTopRight toStr patch =
     (let a = patch_a patch; b = patch_b patch; c = patch_c patch; d = patch_d patch;
          p = patch_p patch; r = patch_cornerRadius patch;
          arcSectionLength = patch_arcSectionLength patch
      in if r \<noteq> 0 then
           formatSegment toStr
             [CHR 0x0A # ''    c '', '' 0 '', '' 0 '', '' '',
              CHR 0x0A # ''    a '', '' '', '' 0 0 1 '', '' '',
              CHR 0x0A # ''    c '', '' '',
              CHR 0x0A # ''        '', '' '',
              CHR 0x0A # ''        '', '' '', []]
             [a, a + b, a + b + c, d,
              r, r, arcSectionLength, arcSectionLength,
              d, c,
              d, b + c,
              d, a + b + c]
         else formatSegment toStr [''l '', '' 0''] [p])"

definition traceBottomRight :: "(real \<Rightarrow> string) \<Rightarrow> BezierPatch \<Rightarrow> string" where
  "traceBottomRight toStr patch =
     (let a = patch_a patch; b = patch_b patch; c = patch_c patch; d = patch_d patch;
          p = patch_p patch; r = patch_cornerRadius patch;
          arcSectionLength = patch_arcSectionLength patch
      in if r \<noteq> 0 then
           formatSegment toStr
             [CHR 0x0A # ''    c 0 '',
              CHR 0x0A # ''      0 '',
              CHR 0x0A # ''      '', '' '',
              CHR 0x0A # ''    a '', '' '', '' 0 0 1 -'', '' '',
              CHR 0x0A # ''    c '', '' '',
              CHR 0x0A # ''      '', '' '',
              CHR 0x0A # ''      '', '' '', []]
             [a,
              a + b,
              - d, a + b + c,
              r, r, arcSectionLength, arcSectionLength,
              - c, d,
              - (b + c), d,
              - (a + b + c), d]
         else formatSegment toStr [''l 0 '', []] [p])"

definition traceBottomLeft :: "(real \<Rightarrow> string) \<Rightarrow> BezierPatch \<Rightarrow> string" where
  "traceBottomLeft toStr patch =
     (let a = patch_a patch; b = patch_b patch; c = patch_c patch; d = patch_d patch;
          p = patch_p patch; r = patch_cornerRadius patch;
          arcSectionLength = patch_arcSectionLength patch
      in if r \<noteq> 0 then
           formatSegment toStr
             [CHR 0x0A # ''    c '',
              '' 0'' @ CHR 0x0A # ''      '',
              '' 0'' @ CHR 0x0A # ''      '', '' '',
              CHR 0x0A # ''    a '', '' '', '' 0 0 1 -'', '' -'',
              CHR 0x0A # ''    c '', '' '',
              CHR 0x0A # ''      '', '' '',
              CHR 0x0A # ''      '', '' '', []]
             [- a,
              - (a + b),
              - (a + b + c), - d,
              r, r, arcSectionLength, arcSectionLength,
              - d, - c,
              - d, - (b + c),
              - d, - (a + b + c)]
         else formatSegment toStr [''l '', '' 0''] [- p])"

definition traceTopLeft :: "(real \<Rightarrow> string) \<Rightarrow> BezierPatch \<Rightarrow> string" where
  "traceTopLeft toStr patch =
     (let a = patch_a patch; b = patch_b patch; c = patch_c patch; d = patch_d patch;
          p = patch_p patch; r = patch_cornerRadius patch;
          arcSectionLength = patch_arcSectionLength patch
      in if r \<noteq> 0 then
           formatSegment toStr
             [CHR 0x0A # ''    c 0 '',
              CHR 0x0A # ''      0 '',
              CHR 0x0A # ''      '', '' '',
              CHR 0x0A # ''    a '', '' '', '' 0 0 1 '', '' -'',
              CHR 0x0A # ''    c '', '' '',
              CHR 0x0A # ''      '', '' '',
              CHR 0x0A # ''      '', '' '', []]
             [- a,
              - (a + b),
              d, - (a + b + c),
              r, r, arcSectionLength, arcSectionLength,
              c, - d,
              b + c, - d,
              a + b + c, - d]
         else formatSegment toStr [''l 0 '', []] [- p])"

text \<open>
  \<^verbatim>\<open>joinCornerProfiles\<close> (lines 445-466). The move and the three lines are plain template
  literals: their numbers are printed by the default conversion \<open>toStr\<close>.
\<close>

definition joinCornerProfiles :: "(real \<Rightarrow> string) \<Rightarrow> PathParamsInput \<Rightarrow> string" where
  "joinCornerProfiles toStr params =
     (let w = pathWidth params; h = pathHeight params in
      joinWith '' ''
        [''M '' @ toStr (w - patch_p (topRightPathParams params)) @ '' 0'',
         traceTopRight toStr (topRightPathParams params),
         ''L '' @ toStr w @ '' '' @ toStr (h - patch_p (bottomRightPathParams params)),
         traceBottomRight toStr (bottomRightPathParams params),
         ''L '' @ toStr (patch_p (bottomLeftPathParams params)) @ '' '' @ toStr h,
         traceBottomLeft toStr (bottomLeftPathParams params),
         ''L 0 '' @ toStr (patch_p (topLeftPathParams params)),
         traceTopLeft toStr (topLeftPathParams params),
         ''Z''])"

section \<open>The entry point (lines 32-140)\<close>

text \<open>
  Lines 77-94: the argument of \<^verbatim>\<open>joinCornerProfiles\<close> when the four radii are equal
  and not zero. \<open>r\<close> is that common radius.
\<close>

definition equalRadiiPathParams ::
  "(real \<Rightarrow> string) \<Rightarrow> real \<Rightarrow> real \<Rightarrow> real \<Rightarrow> real \<Rightarrow> bool \<Rightarrow> Caches \<Rightarrow>
     (PathParamsInput \<times> Caches) option" where
  "equalRadiiPathParams toStr w h r smoothing preserve caches =
     (let budget = min w h / 2;
          r' = min r budget
      in do {
           (pathParams, caches) \<leftarrow> computeCornerProfile toStr r' smoothing preserve budget caches;
           Some (\<lparr>pathWidth = w, pathHeight = h,
                   topLeftPathParams = pathParams, topRightPathParams = pathParams,
                   bottomLeftPathParams = pathParams, bottomRightPathParams = pathParams\<rparr>,
                 caches)
         })"

text \<open>
  Lines 99-136: the argument of \<^verbatim>\<open>joinCornerProfiles\<close> otherwise. The properties of the
  object literal are evaluated in the order written: top-left, top-right, bottom-right,
  bottom-left.
\<close>

definition normalizedPathParams ::
  "(real \<Rightarrow> string) \<Rightarrow> real \<Rightarrow> real \<Rightarrow> real \<Rightarrow> real \<Rightarrow> real \<Rightarrow> real \<Rightarrow> real \<Rightarrow> bool \<Rightarrow> Caches \<Rightarrow>
     (PathParamsInput \<times> Caches) option" where
  "normalizedPathParams toStr w h rTL rTR rBR rBL smoothing preserve caches =
     do {
       corners \<leftarrow> normalizeCorners rTL rTR rBR rBL w h;
       (pTL, caches) \<leftarrow> computeCornerProfile toStr (radius (corners topLeft)) smoothing preserve
                           (roundingAndSmoothingBudget (corners topLeft)) caches;
       (pTR, caches) \<leftarrow> computeCornerProfile toStr (radius (corners topRight)) smoothing preserve
                           (roundingAndSmoothingBudget (corners topRight)) caches;
       (pBR, caches) \<leftarrow> computeCornerProfile toStr (radius (corners bottomRight)) smoothing preserve
                           (roundingAndSmoothingBudget (corners bottomRight)) caches;
       (pBL, caches) \<leftarrow> computeCornerProfile toStr (radius (corners bottomLeft)) smoothing preserve
                           (roundingAndSmoothingBudget (corners bottomLeft)) caches;
       Some (\<lparr>pathWidth = w, pathHeight = h,
               topLeftPathParams = pTL, topRightPathParams = pTR,
               bottomLeftPathParams = pBL, bottomRightPathParams = pBR\<rparr>,
             caches)
     }"

text \<open>
  Lines 33-46: \<^verbatim>\<open>x ?? y\<close> is \<open>y\<close> when \<open>x\<close> is undefined; the defaults of the
  destructuring are 0 for \<^verbatim>\<open>cornerRadius\<close> and false for \<^verbatim>\<open>preserveSmoothing\<close>.
\<close>

definition orElse :: "'a option \<Rightarrow> 'a \<Rightarrow> 'a" where
  "orElse x y = (case x of None \<Rightarrow> y | Some v \<Rightarrow> v)"

definition baseRadiusOf :: "SquirclePathInput \<Rightarrow> real" where
  "baseRadiusOf options = orElse (cornerRadius options) 0"

definition preserveOf :: "SquirclePathInput \<Rightarrow> bool" where
  "preserveOf options = orElse (preserveSmoothing options) False"

definition radiusTL :: "SquirclePathInput \<Rightarrow> real" where
  "radiusTL options = orElse (topLeftCornerRadius options) (baseRadiusOf options)"

definition radiusTR :: "SquirclePathInput \<Rightarrow> real" where
  "radiusTR options = orElse (topRightCornerRadius options) (baseRadiusOf options)"

definition radiusBL :: "SquirclePathInput \<Rightarrow> real" where
  "radiusBL options = orElse (bottomLeftCornerRadius options) (baseRadiusOf options)"

definition radiusBR :: "SquirclePathInput \<Rightarrow> real" where
  "radiusBR options = orElse (bottomRightCornerRadius options) (baseRadiusOf options)"

text \<open>Lines 48-58: the key of a call.\<close>

definition cacheKeyOf :: "(real \<Rightarrow> string) \<Rightarrow> SquirclePathInput \<Rightarrow> string" where
  "cacheKeyOf toStr options =
     composeCacheKey toStr (width options) (height options) (cornerSmoothing options)
       (preserveOf options) (baseRadiusOf options)
       (radiusTL options) (radiusTR options) (radiusBR options) (radiusBL options)"

text \<open>
  \<^verbatim>\<open>buildSquirclePath\<close>. \<^verbatim>\<open>if (cached)\<close> holds for a string that is present and not
  empty.
\<close>

definition buildSquirclePath ::
  "(real \<Rightarrow> string) \<Rightarrow> SquirclePathInput \<Rightarrow> Caches \<Rightarrow> (string \<times> Caches) option" where
  "buildSquirclePath toStr options caches =
     (let preserve = preserveOf options;
          smoothing = cornerSmoothing options;
          w = width options;
          h = height options;
          rTL = radiusTL options;
          rTR = radiusTR options;
          rBL = radiusBL options;
          rBR = radiusBR options;
          cacheKey = cacheKeyOf toStr options;
          cached = readCachedPath cacheKey caches
      in
        if cached \<noteq> None \<and> cached \<noteq> Some [] then Some (the cached, caches)
        else if rTL = rTR \<and> rTR = rBR \<and> rBR = rBL \<and> rBL = rTL then
          if rTL = 0 then
            let path = ''M '' @ toStr w @ '' 0 L '' @ toStr w @ '' '' @ toStr h @
                       '' L 0 '' @ toStr h @ '' L 0 0 Z''
            in Some (path, storeCachedPath cacheKey path caches)
          else
            do {
              (params, caches) \<leftarrow> equalRadiiPathParams toStr w h rTL smoothing preserve caches;
              let path = joinCornerProfiles toStr params;
              Some (path, storeCachedPath cacheKey path caches)
            }
        else
          do {
            (params, caches) \<leftarrow>
              normalizedPathParams toStr w h rTL rTR rBR rBL smoothing preserve caches;
            let path = joinCornerProfiles toStr params;
            Some (path, storeCachedPath cacheKey path caches)
          })"

section \<open>Inputs for evaluating the model\<close>

text \<open>
  A call that passes only the base radius (every corner inherits it), and a call that
  passes the four corner radii; neither passes \<^verbatim>\<open>preserveSmoothing\<close>.
\<close>

definition uniformInput :: "real \<Rightarrow> real \<Rightarrow> real \<Rightarrow> real \<Rightarrow> SquirclePathInput" where
  "uniformInput w h smoothing r =
     \<lparr>cornerRadius = Some r, topLeftCornerRadius = None, topRightCornerRadius = None,
      bottomRightCornerRadius = None, bottomLeftCornerRadius = None,
      cornerSmoothing = smoothing, width = w, height = h, preserveSmoothing = None\<rparr>"

definition cornersInput ::
  "real \<Rightarrow> real \<Rightarrow> real \<Rightarrow> real \<Rightarrow> real \<Rightarrow> real \<Rightarrow> real \<Rightarrow> SquirclePathInput" where
  "cornersInput w h smoothing rTL rTR rBR rBL =
     \<lparr>cornerRadius = None, topLeftCornerRadius = Some rTL, topRightCornerRadius = Some rTR,
      bottomRightCornerRadius = Some rBR, bottomLeftCornerRadius = Some rBL,
      cornerSmoothing = smoothing, width = w, height = h, preserveSmoothing = None\<rparr>"

section \<open>Properties of inputs, profiles and cache states\<close>

text \<open>
  The preconditions of the entry point (spec section 6): a box with non-negative sides,
  resolved corner radii that are not negative, and a smoothing factor in \<open>[0, 1]\<close>.
  Finiteness is in the type.
\<close>

definition validInput :: "SquirclePathInput \<Rightarrow> bool" where
  "validInput options =
     (0 \<le> width options \<and> 0 \<le> height options \<and>
      0 \<le> cornerSmoothing options \<and> cornerSmoothing options \<le> 1 \<and>
      0 \<le> radiusTL options \<and> 0 \<le> radiusTR options \<and>
      0 \<le> radiusBR options \<and> 0 \<le> radiusBL options)"

text \<open>The length of the edge that an entry of \<^verbatim>\<open>ADJACENT_RELATIONS\<close> names (lines 279-280).\<close>

definition sideLength :: "real \<Rightarrow> real \<Rightarrow> EdgeOrientation \<Rightarrow> real" where
  "sideLength w h side = (if side = top_edge \<or> side = bottom_edge then w else h)"

text \<open>
  The loop invariant of the normalizer, for the set of corners resolved so far: a
  resolved corner has a budget between 0 and either side of the box and a radius between
  0 and both its budget and its request; an unresolved corner still has the budget -1
  and its requested radius; the budgets of two resolved corners on one edge fit on it.
\<close>

definition normalizerInv ::
  "real \<Rightarrow> real \<Rightarrow> (CornerId \<Rightarrow> real) \<Rightarrow> CornerId set \<Rightarrow>
     (CornerId \<Rightarrow> real) \<times> (CornerId \<Rightarrow> real) \<Rightarrow> bool" where
  "normalizerInv w h requested resolved = (\<lambda>(radiusMap, budgetMap).
     (\<forall>c. c \<in> resolved \<longrightarrow>
        0 \<le> budgetMap c \<and> budgetMap c \<le> w \<and> budgetMap c \<le> h \<and>
        0 \<le> radiusMap c \<and> radiusMap c \<le> budgetMap c \<and> radiusMap c \<le> requested c) \<and>
     (\<forall>c. c \<notin> resolved \<longrightarrow> budgetMap c = - 1 \<and> radiusMap c = requested c) \<and>
     (topLeft \<in> resolved \<and> topRight \<in> resolved \<longrightarrow> budgetMap topLeft + budgetMap topRight \<le> w) \<and>
     (bottomLeft \<in> resolved \<and> bottomRight \<in> resolved \<longrightarrow>
        budgetMap bottomLeft + budgetMap bottomRight \<le> w) \<and>
     (topLeft \<in> resolved \<and> bottomLeft \<in> resolved \<longrightarrow>
        budgetMap topLeft + budgetMap bottomLeft \<le> h) \<and>
     (topRight \<in> resolved \<and> bottomRight \<in> resolved \<longrightarrow>
        budgetMap topRight + budgetMap bottomRight \<le> h))"

text \<open>
  On each of the four edges, the footprints of the two corners at its ends fit: top and
  bottom edge against the width, left and right edge against the height.
\<close>

definition footprintsFit :: "PathParamsInput \<Rightarrow> bool" where
  "footprintsFit params =
     (patch_p (topLeftPathParams params) + patch_p (topRightPathParams params) \<le> pathWidth params \<and>
      patch_p (bottomLeftPathParams params) + patch_p (bottomRightPathParams params) \<le> pathWidth params \<and>
      patch_p (topLeftPathParams params) + patch_p (bottomLeftPathParams params) \<le> pathHeight params \<and>
      patch_p (topRightPathParams params) + patch_p (bottomRightPathParams params) \<le> pathHeight params)"

text \<open>
  The geometry pipeline with both caches bypassed: lines 65-136 with every
  \<^verbatim>\<open>computeCornerProfile\<close> replaced by its computation, and \<^verbatim>\<open>buildSquirclePath\<close> without
  the lookup and the store of the path cache.
\<close>

definition pathParams_uncached ::
  "real \<Rightarrow> real \<Rightarrow> real \<Rightarrow> real \<Rightarrow> real \<Rightarrow> real \<Rightarrow> real \<Rightarrow> bool \<Rightarrow> PathParamsInput option" where
  "pathParams_uncached w h rTL rTR rBR rBL smoothing preserve =
     (if rTL = rTR \<and> rTR = rBR \<and> rBR = rBL \<and> rBL = rTL then
        let budget = min w h / 2;
            r' = min rTL budget
        in do {
             pathParams \<leftarrow> computeCornerProfile_body r' smoothing preserve budget;
             Some \<lparr>pathWidth = w, pathHeight = h,
                   topLeftPathParams = pathParams, topRightPathParams = pathParams,
                   bottomLeftPathParams = pathParams, bottomRightPathParams = pathParams\<rparr>
           }
      else
        do {
          corners \<leftarrow> normalizeCorners rTL rTR rBR rBL w h;
          pTL \<leftarrow> computeCornerProfile_body (radius (corners topLeft)) smoothing preserve
                   (roundingAndSmoothingBudget (corners topLeft));
          pTR \<leftarrow> computeCornerProfile_body (radius (corners topRight)) smoothing preserve
                   (roundingAndSmoothingBudget (corners topRight));
          pBR \<leftarrow> computeCornerProfile_body (radius (corners bottomRight)) smoothing preserve
                   (roundingAndSmoothingBudget (corners bottomRight));
          pBL \<leftarrow> computeCornerProfile_body (radius (corners bottomLeft)) smoothing preserve
                   (roundingAndSmoothingBudget (corners bottomLeft));
          Some \<lparr>pathWidth = w, pathHeight = h,
                topLeftPathParams = pTL, topRightPathParams = pTR,
                bottomLeftPathParams = pBL, bottomRightPathParams = pBR\<rparr>
        })"

definition buildSquirclePath_uncached :: "(real \<Rightarrow> string) \<Rightarrow> SquirclePathInput \<Rightarrow> string option" where
  "buildSquirclePath_uncached toStr options =
     (let w = width options; h = height options;
          rTL = radiusTL options; rTR = radiusTR options;
          rBL = radiusBL options; rBR = radiusBR options
      in if rTL = rTR \<and> rTR = rBR \<and> rBR = rBL \<and> rBL = rTL \<and> rTL = 0 then
           Some (''M '' @ toStr w @ '' 0 L '' @ toStr w @ '' '' @ toStr h @
                 '' L 0 '' @ toStr h @ '' L 0 0 Z'')
         else
           map_option (joinCornerProfiles toStr)
             (pathParams_uncached w h rTL rTR rBR rBL (cornerSmoothing options) (preserveOf options)))"

text \<open>
  The cache states the module can be in: the empty caches it starts with, and the state
  any call that returns leaves behind.
\<close>

inductive reachable :: "(real \<Rightarrow> string) \<Rightarrow> Caches \<Rightarrow> bool" for toStr :: "real \<Rightarrow> string" where
  reachable_start: "reachable toStr emptyCaches"
| reachable_call:
    "reachable toStr caches \<Longrightarrow> buildSquirclePath toStr options caches = Some (path, caches') \<Longrightarrow>
     reachable toStr caches'"

text \<open>No stored path contains the letter \<open>N\<close>, so none contains \<^verbatim>\<open>NaN\<close>.\<close>

definition cleanPaths :: "Caches \<Rightarrow> bool" where
  "cleanPaths caches = (\<forall>(k, v) \<in> set (PATH_CACHE_MAP caches). CHR ''N'' \<notin> set v)"

section \<open>When the caches cannot change the result\<close>

text \<open>
  The pairs of radius and budget for which a call asks \<^verbatim>\<open>computeCornerProfile\<close>, in the
  order of the requests: none for the rectangle, one pair on the equal-radii path, the
  four corners of the normalizer otherwise.
\<close>

definition profileRequests ::
  "real \<Rightarrow> real \<Rightarrow> real \<Rightarrow> real \<Rightarrow> real \<Rightarrow> real \<Rightarrow> (real \<times> real) list" where
  "profileRequests w h rTL rTR rBR rBL =
     (if rTL = rTR \<and> rTR = rBR \<and> rBR = rBL \<and> rBL = rTL then
        (if rTL = 0 then [] else [(min rTL (min w h / 2), min w h / 2)])
      else
        (case normalizeCorners rTL rTR rBR rBL w h of
           None \<Rightarrow> []
         | Some corners \<Rightarrow>
             map (\<lambda>corner. (radius (corners corner), roundingAndSmoothingBudget (corners corner)))
               [topLeft, topRight, bottomRight, bottomLeft]))"

text \<open>
  A corner-profile cache is exact for a list of requests when every entry it holds under
  the key of a request is the profile computed for that very request, and two requests
  that share a key have the same computed profile. Then neither the cache nor an earlier
  request of the same call can answer a request with the profile of other inputs.
\<close>

definition profileCacheExact ::
  "(real \<Rightarrow> string) \<Rightarrow> real \<Rightarrow> bool \<Rightarrow> (string \<rightharpoonup> BezierPatch) \<Rightarrow> (real \<times> real) list \<Rightarrow> bool" where
  "profileCacheExact toStr smoothing preserve cache requests =
     ((\<forall>(r, b) \<in> set requests. \<forall>prof.
         cache (cornerProfileCacheKey toStr r smoothing preserve b) = Some prof \<longrightarrow>
         computeCornerProfile_body r smoothing preserve b = Some prof) \<and>
      (\<forall>(r, b) \<in> set requests. \<forall>(r', b') \<in> set requests.
         cornerProfileCacheKey toStr r smoothing preserve b =
           cornerProfileCacheKey toStr r' smoothing preserve b' \<longrightarrow>
         computeCornerProfile_body r smoothing preserve b =
           computeCornerProfile_body r' smoothing preserve b'))"


text \<open>
  The requests for a corner profile that a call makes when the path cache does not answer,
  each with the smoothing factor and the flag of the call.
\<close>

definition cornerRequests :: "SquirclePathInput \<Rightarrow> (real \<times> real \<times> bool \<times> real) list" where
  "cornerRequests options =
     map (\<lambda>(r, b). (r, cornerSmoothing options, preserveOf options, b))
       (profileRequests (width options) (height options) (radiusTL options)
          (radiusTR options) (radiusBR options) (radiusBL options))"

text \<open>
  A list of inputs is free of collisions when the rounding of the keys identifies no two
  inputs that differ in their result: two inputs with the same key of the path cache have
  the same uncached path, and two corner requests with the same key of the corner-profile
  cache have the same computed profile. Inputs that are equal, and inputs whose keys
  differ, are free of collisions; an input with radius 0.004 and one with radius 0 on the
  same box are not.
\<close>

definition collisionFree :: "(real \<Rightarrow> string) \<Rightarrow> SquirclePathInput list \<Rightarrow> bool" where
  "collisionFree toStr inputs =
     ((\<forall>inp1 \<in> set inputs. \<forall>inp2 \<in> set inputs.
         cacheKeyOf toStr inp1 = cacheKeyOf toStr inp2 \<longrightarrow>
         buildSquirclePath_uncached toStr inp1 = buildSquirclePath_uncached toStr inp2) \<and>
      (\<forall>(r1, s1, pr1, b1) \<in> set (concat (map cornerRequests inputs)).
       \<forall>(r2, s2, pr2, b2) \<in> set (concat (map cornerRequests inputs)).
         cornerProfileCacheKey toStr r1 s1 pr1 b1 = cornerProfileCacheKey toStr r2 s2 pr2 b2 \<longrightarrow>
         computeCornerProfile_body r1 s1 pr1 b1 = computeCornerProfile_body r2 s2 pr2 b2))"

text \<open>
  The invariant of the two caches over a list of inputs: what either cache holds under
  the key of one of the inputs, or of one of their corner requests, is what the uncached
  computation gives for it.
\<close>

definition cachesExact :: "(real \<Rightarrow> string) \<Rightarrow> SquirclePathInput list \<Rightarrow> Caches \<Rightarrow> bool" where
  "cachesExact toStr inputs caches =
     ((\<forall>inp \<in> set inputs. \<forall>path.
         readCachedPath (cacheKeyOf toStr inp) caches = Some path \<longrightarrow> path \<noteq> [] \<longrightarrow>
         buildSquirclePath_uncached toStr inp = Some path) \<and>
      (\<forall>(r, s, pr, b) \<in> set (concat (map cornerRequests inputs)). \<forall>prof.
         CORNER_PROFILE_CACHE caches (cornerProfileCacheKey toStr r s pr b) = Some prof \<longrightarrow>
         computeCornerProfile_body r s pr b = Some prof))"

text \<open>
  A history of calls: \<^verbatim>\<open>buildSquirclePath\<close> is called with each input of the list in turn,
  every call on the caches the call before it has left.
\<close>

fun runCalls :: "(real \<Rightarrow> string) \<Rightarrow> SquirclePathInput list \<Rightarrow> Caches \<Rightarrow> Caches option" where
  "runCalls toStr [] caches = Some caches"
| "runCalls toStr (options # rest) caches =
     (case buildSquirclePath toStr options caches of
        None \<Rightarrow> None
      | Some (path, caches') \<Rightarrow> runCalls toStr rest caches')"
section \<open>Numbers with a bounded number of decimals\<close>

text \<open>
  \<open>roundedTo n s\<close>: no number written in the string \<open>s\<close> has more than \<open>n\<close> digits after
  its decimal point. The string is read from the left; the state is \<open>Some k\<close> when \<open>k\<close>
  digits have been read since the point of the number being read, and \<open>None\<close> outside the
  fraction of a number. \<open>scanAfter\<close> is the state in which the reading of a string ends.
\<close>

definition isDigit :: "char \<Rightarrow> bool" where
  "isDigit c = (c \<in> set ''0123456789'')"

fun decimalsWithin :: "nat \<Rightarrow> nat option \<Rightarrow> string \<Rightarrow> bool" where
  "decimalsWithin n st [] = True"
| "decimalsWithin n st (c # cs) =
     (if c = CHR ''.'' then decimalsWithin n (Some 0) cs
      else if isDigit c then
        (case st of
           None \<Rightarrow> decimalsWithin n None cs
         | Some k \<Rightarrow> k < n \<and> decimalsWithin n (Some (Suc k)) cs)
      else decimalsWithin n None cs)"

fun scanAfter :: "nat option \<Rightarrow> string \<Rightarrow> nat option" where
  "scanAfter st [] = st"
| "scanAfter st (c # cs) =
     scanAfter (if c = CHR ''.'' then Some 0
                else if isDigit c then map_option Suc st
                else None) cs"



section \<open>Facts about the caches\<close>

lemma map_of_mapSet: "map_of (mapSet k v m) = (map_of m)(k \<mapsto> v)"
  by (induction m) (auto simp: fun_eq_iff)

lemma readCachedPath_store [simp]:
  "readCachedPath k (storeCachedPath k v caches) = Some v"
  by (simp add: readCachedPath_def storeCachedPath_def Let_def map_of_mapSet)

lemma store_keeps_profiles [simp]:
  "CORNER_PROFILE_CACHE (storeCachedPath k v caches) = CORNER_PROFILE_CACHE caches"
  by (simp add: storeCachedPath_def Let_def)

lemma computeCornerProfile_keeps_paths:
  "computeCornerProfile toStr r s pr b caches = Some (prof, caches') \<Longrightarrow>
   PATH_CACHE_MAP caches' = PATH_CACHE_MAP caches"
  by (auto simp: computeCornerProfile_def Let_def split: option.splits Option.bind_splits)

section \<open>Facts about one corner's profile\<close>

lemma clampSmoothing_total:
  "0 < r \<Longrightarrow> \<exists>s' p. clampSmoothing r s pr b = Some (s', p)"
  by (simp add: clampSmoothing_def numDiv_def Let_def)

lemma clampSmoothing_footprint:
  "clampSmoothing r s pr b = Some (s', p) \<Longrightarrow>
   p = (if pr then (1 + s) * r else min ((1 + s) * r) b)"
  by (auto simp: clampSmoothing_def numDiv_def Let_def split: if_splits)

lemma body_total: "\<exists>prof. computeCornerProfile_body r s pr b = Some prof"
proof (cases "r \<le> 0 \<or> b \<le> 0")
  case True
  then show ?thesis by (simp add: computeCornerProfile_body_def)
next
  case False
  then have "0 < r" by simp
  from clampSmoothing_total [OF this] obtain s' p where "clampSmoothing r s pr b = Some (s', p)"
    by blast
  with False show ?thesis
    by (simp add: computeCornerProfile_body_def Let_def)
qed

lemma body_degenerate:
  "r \<le> 0 \<or> b \<le> 0 \<Longrightarrow> computeCornerProfile_body r s pr b = Some zeroProfile"
  by (simp add: computeCornerProfile_body_def)

lemma body_cornerRadius:
  assumes "computeCornerProfile_body r s pr b = Some prof"
  shows "patch_cornerRadius prof = (if r \<le> 0 \<or> b \<le> 0 then 0 else r)"
  using assms
  by (auto simp: computeCornerProfile_body_def zeroProfile_def Let_def
           split: if_splits Option.bind_splits)

lemma body_footprint:
  assumes "computeCornerProfile_body r s pr b = Some prof"
  shows "patch_p prof = (if r \<le> 0 \<or> b \<le> 0 then 0 else min ((1 + s) * r) b)"
proof (cases "r \<le> 0 \<or> b \<le> 0")
  case True
  with assms show ?thesis by (auto simp: body_degenerate zeroProfile_def)
next
  case False
  with assms obtain s' p where cl: "clampSmoothing r s pr b = Some (s', p)"
    by (auto simp: computeCornerProfile_body_def split: Option.bind_splits)
  have p: "p = (if pr then (1 + s) * r else min ((1 + s) * r) b)"
    by (rule clampSmoothing_footprint [OF cl])
  from assms False cl have "patch_p prof = (if pr \<and> p > b then min p b else p)"
    by (auto simp: computeCornerProfile_body_def Let_def split: if_splits)
  with p False show ?thesis by (auto simp: min_def)
qed

section \<open>Facts about the assembled string\<close>

lemma joinCornerProfiles_starts:
  "\<exists>rest. joinCornerProfiles toStr params = ''M '' @ rest"
  by (simp add: joinCornerProfiles_def Let_def)

lemma joinCornerProfiles_not_empty: "joinCornerProfiles toStr params \<noteq> []"
  using joinCornerProfiles_starts [of toStr params] by auto

lemma buildSquirclePath_not_empty:
  assumes "buildSquirclePath toStr options caches = Some (path, caches')"
  shows "path \<noteq> []"
  using assms
  by (auto simp: buildSquirclePath_def Let_def joinCornerProfiles_not_empty
           split: if_splits Option.bind_splits)

lemma buildSquirclePath_stored:
  assumes "buildSquirclePath toStr options caches = Some (path, caches')"
  shows "readCachedPath (cacheKeyOf toStr options) caches' = Some path"
  using assms
  by (auto simp: buildSquirclePath_def Let_def split: if_splits Option.bind_splits)

lemma buildSquirclePath_hit:
  assumes "readCachedPath (cacheKeyOf toStr options) caches = Some path" and "path \<noteq> []"
  shows "buildSquirclePath toStr options caches = Some (path, caches)"
  using assms by (simp add: buildSquirclePath_def Let_def)

lemma second_call_hits:
  assumes "buildSquirclePath toStr options1 caches = Some (path1, caches1)"
    and "cacheKeyOf toStr options2 = cacheKeyOf toStr options1"
  shows "buildSquirclePath toStr options2 caches1 = Some (path1, caches1)"
proof (rule buildSquirclePath_hit)
  show "readCachedPath (cacheKeyOf toStr options2) caches1 = Some path1"
    using buildSquirclePath_stored [OF assms(1)] assms(2) by simp
  show "path1 \<noteq> []"
    by (rule buildSquirclePath_not_empty [OF assms(1)])
qed

section \<open>Evaluating the printers and the example inputs\<close>

lemma uniformInput_sel [simp]:
  "width (uniformInput w h s r) = w" "height (uniformInput w h s r) = h"
  "cornerSmoothing (uniformInput w h s r) = s" "preserveOf (uniformInput w h s r) = False"
  "baseRadiusOf (uniformInput w h s r) = r"
  "radiusTL (uniformInput w h s r) = r" "radiusTR (uniformInput w h s r) = r"
  "radiusBR (uniformInput w h s r) = r" "radiusBL (uniformInput w h s r) = r"
  by (simp_all add: uniformInput_def preserveOf_def baseRadiusOf_def radiusTL_def radiusTR_def
        radiusBR_def radiusBL_def orElse_def)

lemma cornersInput_sel [simp]:
  "width (cornersInput w h s a b c d) = w" "height (cornersInput w h s a b c d) = h"
  "cornerSmoothing (cornersInput w h s a b c d) = s"
  "preserveOf (cornersInput w h s a b c d) = False"
  "baseRadiusOf (cornersInput w h s a b c d) = 0"
  "radiusTL (cornersInput w h s a b c d) = a" "radiusTR (cornersInput w h s a b c d) = b"
  "radiusBR (cornersInput w h s a b c d) = c" "radiusBL (cornersInput w h s a b c d) = d"
  by (simp_all add: cornersInput_def preserveOf_def baseRadiusOf_def radiusTL_def radiusTR_def
        radiusBR_def radiusBL_def orElse_def)

lemma decimalString_100: "decimalString 100 = ''100''"
  unfolding decimalString_def by (simp add: digitsOf.simps digitChar_def)

lemma toFixed2_0: "toFixed toStr 2 0 = ''0.00''"
  unfolding toFixed_def Let_def
  apply (simp del: digitsOf.simps)
  apply (simp add: digitsOf.simps digitChar_def)
  done

lemma toFixed2_small: "toFixed toStr 2 (1 / 250) = ''0.00''"
  unfolding toFixed_def Let_def
  apply (simp del: digitsOf.simps)
  apply (simp add: digitsOf.simps digitChar_def)
  done

lemma toFixed2_100: "toFixed toStr 2 100 = ''100.00''"
  unfolding toFixed_def Let_def
  apply (simp del: digitsOf.simps)
  apply (simp add: digitsOf.simps digitChar_def)
  done

lemma toFixed2_100_004: "toFixed toStr 2 (25001 / 250) = ''100.00''"
  unfolding toFixed_def Let_def
  apply (simp del: digitsOf.simps)
  apply (simp add: digitsOf.simps digitChar_def)
  done

lemma empty_misses [simp]: "readCachedPath k emptyCaches = None"
  by (simp add: readCachedPath_def emptyCaches_def)

lemma empty_profiles [simp]: "CORNER_PROFILE_CACHE emptyCaches = Map.empty"
  by (simp add: emptyCaches_def)

section \<open>The branches of the entry point\<close>

lemma zero_radii_call:
  assumes "radiusTL options = 0" "radiusTR options = 0" "radiusBR options = 0"
    "radiusBL options = 0"
    and "readCachedPath (cacheKeyOf toStr options) caches = None \<or>
         readCachedPath (cacheKeyOf toStr options) caches = Some []"
  shows "buildSquirclePath toStr options caches =
     Some (''M '' @ toStr (width options) @ '' 0 L '' @ toStr (width options) @ '' '' @
             toStr (height options) @ '' L 0 '' @ toStr (height options) @ '' L 0 0 Z'',
           storeCachedPath (cacheKeyOf toStr options)
             (''M '' @ toStr (width options) @ '' 0 L '' @ toStr (width options) @ '' '' @
                toStr (height options) @ '' L 0 '' @ toStr (height options) @ '' L 0 0 Z'')
             caches)"
  using assms by (auto simp: buildSquirclePath_def Let_def)

lemma equal_radii_call:
  assumes "radiusTL options = r" "radiusTR options = r" "radiusBR options = r"
    "radiusBL options = r" "r \<noteq> 0"
    and "readCachedPath (cacheKeyOf toStr options) caches = None \<or>
         readCachedPath (cacheKeyOf toStr options) caches = Some []"
  shows "buildSquirclePath toStr options caches =
     do {
       (profile, caches') \<leftarrow>
         computeCornerProfile toStr (min r (min (width options) (height options) / 2))
           (cornerSmoothing options) (preserveOf options)
           (min (width options) (height options) / 2) caches;
       Some (joinCornerProfiles toStr
               \<lparr>pathWidth = width options, pathHeight = height options,
                topLeftPathParams = profile, topRightPathParams = profile,
                bottomLeftPathParams = profile, bottomRightPathParams = profile\<rparr>,
             storeCachedPath (cacheKeyOf toStr options)
               (joinCornerProfiles toStr
                  \<lparr>pathWidth = width options, pathHeight = height options,
                   topLeftPathParams = profile, topRightPathParams = profile,
                   bottomLeftPathParams = profile, bottomRightPathParams = profile\<rparr>)
               caches')
     }"
  using assms
  by (auto simp: buildSquirclePath_def equalRadiiPathParams_def Let_def
           split: Option.bind_splits)

lemma computeCornerProfile_miss:
  assumes "CORNER_PROFILE_CACHE caches (cornerProfileCacheKey toStr r s pr b) = None"
  shows "\<exists>prof. computeCornerProfile_body r s pr b = Some prof \<and>
           computeCornerProfile toStr r s pr b caches =
             Some (prof, caches\<lparr>CORNER_PROFILE_CACHE :=
                     (CORNER_PROFILE_CACHE caches)(cornerProfileCacheKey toStr r s pr b \<mapsto> prof)\<rparr>)"
  using assms body_total [of r s pr b]
  by (auto simp: computeCornerProfile_def Let_def)

lemma curved_corner_has_c:
  assumes "patch_cornerRadius (topRightPathParams params) \<noteq> 0"
  shows "CHR ''c'' \<in> set (joinCornerProfiles toStr params)"
  using assms by (simp add: joinCornerProfiles_def traceTopRight_def Let_def)

lemma same_key_small_radius:
  "cacheKeyOf toStr (uniformInput 100 100 0 0) = cacheKeyOf toStr (uniformInput 100 100 0 (4 / 1000))"
  by (simp add: cacheKeyOf_def composeCacheKey_def toFixed2_0 toFixed2_small)

lemma stale_curved_path:
  "\<exists>pathA cachesA.
     buildSquirclePath decimalString (uniformInput 100 100 0 (4 / 1000)) emptyCaches =
       Some (pathA, cachesA) \<and>
     CHR ''c'' \<in> set pathA \<and>
     buildSquirclePath decimalString (uniformInput 100 100 0 0) cachesA = Some (pathA, cachesA)"
proof -
  let ?A = "uniformInput 100 100 0 (4 / 1000)"
  obtain prof where body: "computeCornerProfile_body (4 / 1000) 0 False 50 = Some prof"
    and comp: "computeCornerProfile decimalString (4 / 1000) 0 False 50 emptyCaches =
      Some (prof, emptyCaches\<lparr>CORNER_PROFILE_CACHE :=
         (CORNER_PROFILE_CACHE emptyCaches)(cornerProfileCacheKey decimalString (4 / 1000) 0 False 50 \<mapsto> prof)\<rparr>)"
    using computeCornerProfile_miss [of emptyCaches decimalString "4 / 1000" 0 False 50] by auto
  have rad: "patch_cornerRadius prof = 4 / 1000"
    using body_cornerRadius [OF body] by simp
  have "\<exists>cachesA. buildSquirclePath decimalString ?A emptyCaches =
      Some (joinCornerProfiles decimalString
              \<lparr>pathWidth = 100, pathHeight = 100,
               topLeftPathParams = prof, topRightPathParams = prof,
               bottomLeftPathParams = prof, bottomRightPathParams = prof\<rparr>, cachesA)"
    using equal_radii_call [of ?A "4 / 1000" decimalString emptyCaches] comp by simp
  then obtain cachesA where first: "buildSquirclePath decimalString ?A emptyCaches =
      Some (joinCornerProfiles decimalString
              \<lparr>pathWidth = 100, pathHeight = 100,
               topLeftPathParams = prof, topRightPathParams = prof,
               bottomLeftPathParams = prof, bottomRightPathParams = prof\<rparr>, cachesA)"
    by blast
  have c: "CHR ''c'' \<in> set (joinCornerProfiles decimalString
              \<lparr>pathWidth = 100, pathHeight = 100,
               topLeftPathParams = prof, topRightPathParams = prof,
               bottomLeftPathParams = prof, bottomRightPathParams = prof\<rparr>)"
    by (rule curved_corner_has_c) (simp add: rad)
  from second_call_hits [OF first same_key_small_radius] first c show ?thesis by blast
qed

lemma toFixed3_0: "toFixed toStr 3 0 = ''0.000''"
  unfolding toFixed_def Let_def
  apply (simp del: digitsOf.simps)
  apply (simp add: digitsOf.simps digitChar_def)
  apply (simp add: eval_nat_numeral)
  done

lemma toFixed3_tiny: "toFixed toStr 3 (1 / 2500) = ''0.000''"
  unfolding toFixed_def Let_def
  apply (simp del: digitsOf.simps)
  apply (simp add: digitsOf.simps digitChar_def)
  apply (simp add: eval_nat_numeral)
  done

lemma toFixed4_0: "toFixed toStr 4 0 = ''0.0000''"
  unfolding toFixed_def Let_def
  apply (simp del: digitsOf.simps)
  apply (simp add: digitsOf.simps digitChar_def)
  apply (simp add: eval_nat_numeral)
  done

lemma computeCornerProfile_hit:
  assumes "CORNER_PROFILE_CACHE caches (cornerProfileCacheKey toStr r s pr b) = Some prof"
  shows "computeCornerProfile toStr r s pr b caches = Some (prof, caches)"
  using assms by (simp add: computeCornerProfile_def Let_def)

section \<open>The normalizer keeps its invariant\<close>

lemma adjacentTerm_bounds:
  assumes inv: "normalizerInv w h req P (rm, bm)"
    and c: "c \<notin> P" and w: "0 \<le> w" and h: "0 \<le> h" and req: "\<And>c. 0 \<le> req c"
  shows "\<exists>t. adjacentTerm w h rm bm (req c) (a, side) = Some t \<and> 0 \<le> t \<and>
             t \<le> sideLength w h side \<and> (a \<in> P \<longrightarrow> t + bm a \<le> sideLength w h side)"
proof -
  let ?L = "sideLength w h side"
  have L: "0 \<le> ?L" using w h by (simp add: sideLength_def)
  have inP: "a \<in> P \<Longrightarrow> 0 \<le> bm a \<and> bm a \<le> ?L"
    using inv by (auto simp: normalizerInv_def sideLength_def)
  have notP: "a \<notin> P \<Longrightarrow> bm a = - 1 \<and> rm a = req a"
    using inv by (auto simp: normalizerInv_def)
  show ?thesis
  proof (cases "req c = 0 \<and> rm a = 0")
    case True
    then have "adjacentTerm w h rm bm (req c) (a, side) = Some 0"
      by (simp add: adjacentTerm_def)
    with L inP show ?thesis by auto
  next
    case both: False
    show ?thesis
    proof (cases "a \<in> P")
      case True
      with inP have b: "0 \<le> bm a" "bm a \<le> ?L" by auto
      with both have "adjacentTerm w h rm bm (req c) (a, side) = Some (?L - bm a)"
        by (auto simp: adjacentTerm_def Let_def sideLength_def)
      with b show ?thesis by auto
    next
      case False
      with notP have n: "bm a = - 1" "rm a = req a" by auto
      from both n req [of c] req [of a] have pos: "0 < req c + req a"
        by (metis add_nonneg_eq_0_iff less_eq_real_def add_nonneg_nonneg)
      then have t: "adjacentTerm w h rm bm (req c) (a, side) = Some (req c / (req c + req a) * ?L)"
        using both n by (auto simp: adjacentTerm_def Let_def sideLength_def numDiv_def)
      have q0: "0 \<le> req c / (req c + req a)" using req [of c] pos by simp
      have q1: "req c / (req c + req a) \<le> 1" using req [of a] pos by simp
      have "0 \<le> req c / (req c + req a) * ?L" by (rule mult_nonneg_nonneg [OF q0 L])
      moreover have "req c / (req c + req a) * ?L \<le> ?L"
        by (rule mult_left_le_one_le [OF L q0 q1])
      ultimately show ?thesis using t False by simp
    qed
  qed
qed

lemma normalizerInv_insert:
  assumes inv: "normalizerInv w h req P (rm, bm)" and c: "c \<notin> P"
    and b: "0 \<le> b" "b \<le> w" "b \<le> h" and r: "0 \<le> r'" "r' \<le> b" "r' \<le> req c"
    and pairs:
      "\<And>a side. (a, side) \<in> set (ADJACENT_RELATIONS c) \<Longrightarrow> a \<in> P \<Longrightarrow>
         b + bm a \<le> sideLength w h side"
  shows "normalizerInv w h req (insert c P) (rm(c := r'), bm(c := b))"
proof -
  have old: "\<And>x. x \<in> P \<Longrightarrow> x \<noteq> c" using c by auto
  have p1: "topLeft \<in> insert c P \<and> topRight \<in> insert c P \<longrightarrow>
            (bm(c := b)) topLeft + (bm(c := b)) topRight \<le> w"
    using inv c pairs [of topRight top_edge] pairs [of topLeft top_edge]
    by (cases c) (auto simp: normalizerInv_def ADJACENT_RELATIONS_def sideLength_def)
  have p2: "bottomLeft \<in> insert c P \<and> bottomRight \<in> insert c P \<longrightarrow>
            (bm(c := b)) bottomLeft + (bm(c := b)) bottomRight \<le> w"
    using inv c pairs [of bottomRight bottom_edge] pairs [of bottomLeft bottom_edge]
    by (cases c) (auto simp: normalizerInv_def ADJACENT_RELATIONS_def sideLength_def)
  have p3: "topLeft \<in> insert c P \<and> bottomLeft \<in> insert c P \<longrightarrow>
            (bm(c := b)) topLeft + (bm(c := b)) bottomLeft \<le> h"
    using inv c pairs [of bottomLeft left_edge] pairs [of topLeft left_edge]
    by (cases c) (auto simp: normalizerInv_def ADJACENT_RELATIONS_def sideLength_def)
  have p4: "topRight \<in> insert c P \<and> bottomRight \<in> insert c P \<longrightarrow>
            (bm(c := b)) topRight + (bm(c := b)) bottomRight \<le> h"
    using inv c pairs [of bottomRight right_edge] pairs [of topRight right_edge]
    by (cases c) (auto simp: normalizerInv_def ADJACENT_RELATIONS_def sideLength_def)
  have q1: "\<forall>x. x \<in> insert c P \<longrightarrow>
        0 \<le> (bm(c := b)) x \<and> (bm(c := b)) x \<le> w \<and> (bm(c := b)) x \<le> h \<and>
        0 \<le> (rm(c := r')) x \<and> (rm(c := r')) x \<le> (bm(c := b)) x \<and> (rm(c := r')) x \<le> req x"
    using inv b r by (auto simp: normalizerInv_def)
  have q2: "\<forall>x. x \<notin> insert c P \<longrightarrow> (bm(c := b)) x = - 1 \<and> (rm(c := r')) x = req x"
    using inv by (auto simp: normalizerInv_def)
  show ?thesis
    unfolding normalizerInv_def using p1 p2 p3 p4 q1 q2 by simp
qed

lemma resolveCorner_step:
  assumes inv: "normalizerInv w h req P (rm, bm)"
    and c: "c \<notin> P" and w: "0 \<le> w" and h: "0 \<le> h" and req: "\<And>c. 0 \<le> req c"
  shows "\<exists>st'. resolveCorner w h (c, req c) (rm, bm) = Some st' \<and>
               normalizerInv w h req (insert c P) st'"
proof -
  obtain a1 s1 a2 s2 where adj: "ADJACENT_RELATIONS c = [(a1, s1), (a2, s2)]"
    and sides: "sideLength w h s1 = w" "sideLength w h s2 = h"
    by (cases c) (simp_all add: ADJACENT_RELATIONS_def sideLength_def)
  from adjacentTerm_bounds [OF inv c w h req, of a1 s1] obtain t1 where
    t1: "adjacentTerm w h rm bm (req c) (a1, s1) = Some t1" "0 \<le> t1"
      "t1 \<le> sideLength w h s1" "a1 \<in> P \<longrightarrow> t1 + bm a1 \<le> sideLength w h s1"
    by blast
  from adjacentTerm_bounds [OF inv c w h req, of a2 s2] obtain t2 where
    t2: "adjacentTerm w h rm bm (req c) (a2, s2) = Some t2" "0 \<le> t2"
      "t2 \<le> sideLength w h s2" "a2 \<in> P \<longrightarrow> t2 + bm a2 \<le> sideLength w h s2"
    by blast
  let ?b = "min t2 t1"
  have res: "resolveCorner w h (c, req c) (rm, bm) =
               Some (rm(c := min (req c) ?b), bm(c := ?b))"
    using adj t1(1) t2(1) by (simp add: resolveCorner_def)
  have "normalizerInv w h req (insert c P) (rm(c := min (req c) ?b), bm(c := ?b))"
  proof (rule normalizerInv_insert [OF inv c])
    show "0 \<le> ?b" using t1(2) t2(2) by simp
    show "?b \<le> w" using t1(3) sides(1) by simp
    show "?b \<le> h" using t2(3) sides(2) by simp
    show "0 \<le> min (req c) ?b" using t1(2) t2(2) req [of c] by simp
    show "min (req c) ?b \<le> ?b" by (rule min.cobounded2)
    show "min (req c) ?b \<le> req c" by (rule min.cobounded1)
    fix a side
    assume "(a, side) \<in> set (ADJACENT_RELATIONS c)" and "a \<in> P"
    then show "?b + bm a \<le> sideLength w h side"
      using adj t1(4) t2(4) by auto
  qed
  with res show ?thesis by blast
qed

lemma forEachM_resolve:
  assumes "normalizerInv w h req P st"
    and "distinct (map fst xs)" and "\<And>c r. (c, r) \<in> set xs \<Longrightarrow> c \<notin> P \<and> r = req c"
    and w: "0 \<le> w" and h: "0 \<le> h" and req: "\<And>c. 0 \<le> req c"
  shows "\<exists>st'. forEachM (resolveCorner w h) xs st = Some st' \<and>
               normalizerInv w h req (P \<union> fst ` set xs) st'"
  using assms(1-3)
proof (induction xs arbitrary: P st)
  case Nil
  then show ?case by simp
next
  case (Cons x xs)
  obtain c r where x: "x = (c, r)" by (cases x)
  obtain rm bm where st: "st = (rm, bm)" by (cases st)
  from Cons.prems(3) [of c r] x have c: "c \<notin> P" and r: "r = req c" by auto
  from resolveCorner_step [OF Cons.prems(1) [unfolded st] c w h req]
  obtain st' where step: "resolveCorner w h (c, req c) (rm, bm) = Some st'"
    and inv': "normalizerInv w h req (insert c P) st'"
    by blast
  have d: "distinct (map fst xs)" using Cons.prems(2) by simp
  have rest: "\<And>c' r'. (c', r') \<in> set xs \<Longrightarrow> c' \<notin> insert c P \<and> r' = req c'"
  proof -
    fix c' r' assume m: "(c', r') \<in> set xs"
    then have "c' \<in> fst ` set xs" by force
    with Cons.prems(2) x have "c' \<noteq> c" by auto
    with Cons.prems(3) [of c' r'] m show "c' \<notin> insert c P \<and> r' = req c'" by auto
  qed
  from Cons.IH [OF inv' d rest] obtain st'' where
    "forEachM (resolveCorner w h) xs st' = Some st''"
    "normalizerInv w h req (insert c P \<union> fst ` set xs) st''"
    by blast
  with step x r st show ?case by auto
qed

lemma sortedEntries_set:
  "set (sortedEntries rTL rTR rBR rBL) =
     {(topLeft, rTL), (topRight, rTR), (bottomLeft, rBL), (bottomRight, rBR)}"
  unfolding sortedEntries_def by (subst set_sort) simp

lemma sortedEntries_distinct: "distinct (map fst (sortedEntries rTL rTR rBR rBL))"
  unfolding sortedEntries_def distinct_map distinct_sort set_sort
  by (auto simp: inj_on_def)

lemma CornerId_UNIV: "(UNIV :: CornerId set) = {topLeft, topRight, bottomLeft, bottomRight}"
  by (auto intro: CornerId.exhaust)

lemma normalizeCorners_valid:
  assumes "0 \<le> w" "0 \<le> h" "0 \<le> rTL" "0 \<le> rTR" "0 \<le> rBR" "0 \<le> rBL"
  shows "\<exists>corners. normalizeCorners rTL rTR rBR rBL w h = Some corners \<and>
           (\<forall>c. 0 \<le> roundingAndSmoothingBudget (corners c) \<and>
                0 \<le> radius (corners c) \<and>
                radius (corners c) \<le> roundingAndSmoothingBudget (corners c) \<and>
                radius (corners c) \<le> initialRadiusMap rTL rTR rBR rBL c) \<and>
           roundingAndSmoothingBudget (corners topLeft) +
             roundingAndSmoothingBudget (corners topRight) \<le> w \<and>
           roundingAndSmoothingBudget (corners bottomLeft) +
             roundingAndSmoothingBudget (corners bottomRight) \<le> w \<and>
           roundingAndSmoothingBudget (corners topLeft) +
             roundingAndSmoothingBudget (corners bottomLeft) \<le> h \<and>
           roundingAndSmoothingBudget (corners topRight) +
             roundingAndSmoothingBudget (corners bottomRight) \<le> h"
proof -
  let ?req = "initialRadiusMap rTL rTR rBR rBL"
  have req: "\<And>c. 0 \<le> ?req c"
    using assms by (simp add: initialRadiusMap_def split: CornerId.split)
  have inv0: "normalizerInv w h ?req {} (?req, \<lambda>corner. - 1)"
    by (simp add: normalizerInv_def)
  have mem: "\<And>c r. (c, r) \<in> set (sortedEntries rTL rTR rBR rBL) \<Longrightarrow> c \<notin> {} \<and> r = ?req c"
    by (auto simp: sortedEntries_set initialRadiusMap_def)
  from forEachM_resolve [OF inv0 sortedEntries_distinct mem assms(1,2) req]
  obtain st' where run: "forEachM (resolveCorner w h) (sortedEntries rTL rTR rBR rBL)
                           (?req, \<lambda>corner. - 1) = Some st'"
    and inv: "normalizerInv w h ?req ({} \<union> fst ` set (sortedEntries rTL rTR rBR rBL)) st'"
    by blast
  have all: "{} \<union> fst ` set (sortedEntries rTL rTR rBR rBL) = UNIV"
    by (simp add: sortedEntries_set CornerId_UNIV insert_commute)
  obtain rm bm where st': "st' = (rm, bm)" by (cases st')
  from inv have inv': "normalizerInv w h ?req UNIV (rm, bm)" by (simp only: all st')
  have "normalizeCorners rTL rTR rBR rBL w h =
          Some (\<lambda>corner. \<lparr>radius = rm corner, roundingAndSmoothingBudget = bm corner\<rparr>)"
    using run st' by (simp add: normalizeCorners_def)
  with inv' show ?thesis by (simp add: normalizerInv_def)
qed

section \<open>Footprints of the uncached pipeline\<close>

lemma body_footprint_le:
  assumes "computeCornerProfile_body r s pr b = Some prof" and "0 \<le> b"
  shows "patch_p prof \<le> b"
  using body_footprint [OF assms(1)] assms(2) by (auto split: if_splits)

lemma uncached_footprints:
  assumes "0 \<le> w" "0 \<le> h" "0 \<le> rTL" "0 \<le> rTR" "0 \<le> rBR" "0 \<le> rBL"
  shows "\<exists>params. pathParams_uncached w h rTL rTR rBR rBL s pr = Some params \<and>
                  footprintsFit params"
proof (cases "rTL = rTR \<and> rTR = rBR \<and> rBR = rBL \<and> rBL = rTL")
  case True
  let ?b = "min w h / 2"
  obtain prof where body: "computeCornerProfile_body (min rTL ?b) s pr ?b = Some prof"
    using body_total by blast
  have b: "0 \<le> ?b" using assms(1,2) by simp
  have "patch_p prof \<le> ?b" by (rule body_footprint_le [OF body b])
  then have m: "patch_p prof + patch_p prof \<le> min w h" by linarith
  have "patch_p prof + patch_p prof \<le> w"
    by (rule order_trans [OF m min.cobounded1])
  moreover have "patch_p prof + patch_p prof \<le> h"
    by (rule order_trans [OF m min.cobounded2])
  ultimately have "footprintsFit \<lparr>pathWidth = w, pathHeight = h,
                   topLeftPathParams = prof, topRightPathParams = prof,
                   bottomLeftPathParams = prof, bottomRightPathParams = prof\<rparr>"
    by (simp add: footprintsFit_def)
  moreover have "pathParams_uncached w h rTL rTR rBR rBL s pr =
      Some \<lparr>pathWidth = w, pathHeight = h,
                   topLeftPathParams = prof, topRightPathParams = prof,
                   bottomLeftPathParams = prof, bottomRightPathParams = prof\<rparr>"
  proof -
    from True have e: "rTR = rTL" "rBR = rTL" "rBL = rTL" by metis+
    show ?thesis using body by (simp add: pathParams_uncached_def Let_def e)
  qed
  ultimately show ?thesis by blast
next
  case False
  from normalizeCorners_valid [OF assms] obtain corners where
    n: "normalizeCorners rTL rTR rBR rBL w h = Some corners"
    and nonneg: "\<And>c. 0 \<le> roundingAndSmoothingBudget (corners c)"
    and top: "roundingAndSmoothingBudget (corners topLeft) +
             roundingAndSmoothingBudget (corners topRight) \<le> w"
    and bottom: "roundingAndSmoothingBudget (corners bottomLeft) +
             roundingAndSmoothingBudget (corners bottomRight) \<le> w"
    and left: "roundingAndSmoothingBudget (corners topLeft) +
             roundingAndSmoothingBudget (corners bottomLeft) \<le> h"
    and right: "roundingAndSmoothingBudget (corners topRight) +
             roundingAndSmoothingBudget (corners bottomRight) \<le> h"
    by blast
  have ex: "\<And>c. \<exists>prof. computeCornerProfile_body (radius (corners c)) s pr
                      (roundingAndSmoothingBudget (corners c)) = Some prof \<and>
                    patch_p prof \<le> roundingAndSmoothingBudget (corners c)"
    using body_total body_footprint_le nonneg by meson
  obtain pTL where pTL: "computeCornerProfile_body (radius (corners topLeft)) s pr
        (roundingAndSmoothingBudget (corners topLeft)) = Some pTL"
      "patch_p pTL \<le> roundingAndSmoothingBudget (corners topLeft)"
    using ex [of topLeft] by blast
  obtain pTR where pTR: "computeCornerProfile_body (radius (corners topRight)) s pr
        (roundingAndSmoothingBudget (corners topRight)) = Some pTR"
      "patch_p pTR \<le> roundingAndSmoothingBudget (corners topRight)"
    using ex [of topRight] by blast
  obtain pBR where pBR: "computeCornerProfile_body (radius (corners bottomRight)) s pr
        (roundingAndSmoothingBudget (corners bottomRight)) = Some pBR"
      "patch_p pBR \<le> roundingAndSmoothingBudget (corners bottomRight)"
    using ex [of bottomRight] by blast
  obtain pBL where pBL: "computeCornerProfile_body (radius (corners bottomLeft)) s pr
        (roundingAndSmoothingBudget (corners bottomLeft)) = Some pBL"
      "patch_p pBL \<le> roundingAndSmoothingBudget (corners bottomLeft)"
    using ex [of bottomLeft] by blast
  have "pathParams_uncached w h rTL rTR rBR rBL s pr =
          Some \<lparr>pathWidth = w, pathHeight = h,
                topLeftPathParams = pTL, topRightPathParams = pTR,
                bottomLeftPathParams = pBL, bottomRightPathParams = pBR\<rparr>"
    unfolding pathParams_uncached_def
    by (simp only: False if_False) (simp add: n pTL(1) pTR(1) pBR(1) pBL(1))
  moreover have "footprintsFit \<lparr>pathWidth = w, pathHeight = h,
                topLeftPathParams = pTL, topRightPathParams = pTR,
                bottomLeftPathParams = pBL, bottomRightPathParams = pBR\<rparr>"
    using pTL(2) pTR(2) pBR(2) pBL(2) top bottom left right
    by (simp add: footprintsFit_def)
  ultimately show ?thesis by blast
qed

lemma normalize_example:
  "\<exists>corners. normalizeCorners (100004 / 10000) (99996 / 10000) 0 0 20 100 = Some corners \<and>
     radius (corners topLeft) = 100004 / 10000 \<and>
     roundingAndSmoothingBudget (corners topLeft) = 100004 / 10000 \<and>
     radius (corners topRight) = 99996 / 10000 \<and>
     roundingAndSmoothingBudget (corners topRight) = 99996 / 10000 \<and>
     radius (corners bottomRight) = 0 \<and>
     roundingAndSmoothingBudget (corners bottomRight) = 0 \<and>
     radius (corners bottomLeft) = 0 \<and>
     roundingAndSmoothingBudget (corners bottomLeft) = 0"
  by (simp add: normalizeCorners_def sortedEntries_def initialRadiusMap_def resolveCorner_def
        ADJACENT_RELATIONS_def adjacentTerm_def numDiv_def Let_def)

section \<open>Characters of the path and totality of the pipeline\<close>

lemma digitChar_digit: "d < 10 \<Longrightarrow> digitChar d \<in> set ''0123456789''"
proof -
  assume "d < 10"
  then have "d \<in> {0, 1, 2, 3, 4, 5, 6, 7, 8, 9}" by auto
  then show ?thesis by (auto simp: digitChar_def)
qed

lemma digitsOf_chars: "set (digitsOf n) \<subseteq> set ''0123456789''"
proof (induction n rule: digitsOf.induct)
  case (1 n)
  show ?case
  proof (cases "n < 10")
    case True
    then show ?thesis using digitChar_digit [of n] by (subst digitsOf.simps) simp
  next
    case False
    have "n mod 10 < 10" by simp
    from digitChar_digit [OF this] "1.IH" [OF False] False show ?thesis
      by (subst digitsOf.simps) simp
  qed
qed

lemma toFixed_chars:
  "set (toFixed toStr f x) \<subseteq> set (toStr x) \<union> set ''0123456789'' \<union> {CHR ''-'', CHR ''.''}"
proof (cases "\<bar>x\<bar> \<ge> 10 ^ 21")
  case True
  then have "toFixed toStr f x = toStr x" by (simp add: toFixed_def)
  then show ?thesis by (simp only: Un_assoc Un_upper1)
next
  case False
  define m where "m = digitsOf (nat \<lfloor>\<bar>x\<bar> * 10 ^ f + 1 / 2\<rfloor>)"
  define m' where "m' = replicate (f + 1 - length m) (CHR ''0'') @ m"
  have eq: "toFixed toStr f x =
      (if x < 0 then ''-'' else []) @
      (if f = 0 then m' else take (length m' - f) m' @ ''.'' @ drop (length m' - f) m')"
    using False by (simp add: toFixed_def Let_def m_def m'_def)
  have "set m \<subseteq> set ''0123456789''"
    unfolding m_def by (rule digitsOf_chars)
  moreover have "set m' \<subseteq> insert (CHR ''0'') (set m)"
    by (auto simp: m'_def)
  moreover have "CHR ''0'' \<in> set ''0123456789''" by simp
  ultimately have m': "set m' \<subseteq> set ''0123456789''" by blast
  have "c = CHR ''-'' \<or> c = CHR ''.'' \<or> c \<in> set m'" if "c \<in> set (toFixed toStr f x)" for c
    using that unfolding eq
    by (auto split: if_splits dest: in_set_takeD in_set_dropD)
  with m' show ?thesis by blast
qed

lemma toFixed_no_N:
  assumes "\<And>x. CHR ''N'' \<notin> set (toStr x)"
  shows "CHR ''N'' \<notin> set (toFixed toStr f x)"
proof -
  have "CHR ''N'' \<notin> set ''0123456789''" by simp
  moreover have "CHR ''N'' \<notin> {CHR ''-'', CHR ''.''}" by simp
  ultimately show ?thesis
    using toFixed_chars [of toStr f x] assms [of x] by blast
qed

lemma formatSegment_no_N:
  assumes "\<And>x. CHR ''N'' \<notin> set (toStr x)" and "\<forall>s \<in> set ss. CHR ''N'' \<notin> set s"
  shows "CHR ''N'' \<notin> set (formatSegment toStr ss vs)"
  using assms(2)
proof (induction ss arbitrary: vs)
  case Nil
  then show ?case by simp
next
  case (Cons s ss)
  then show ?case by (cases vs) (auto simp: toFixed_no_N [OF assms(1)])
qed

lemma trace_no_N:
  assumes "\<And>x. CHR ''N'' \<notin> set (toStr x)"
  shows "CHR ''N'' \<notin> set (traceTopRight toStr patch)"
    and "CHR ''N'' \<notin> set (traceBottomRight toStr patch)"
    and "CHR ''N'' \<notin> set (traceBottomLeft toStr patch)"
    and "CHR ''N'' \<notin> set (traceTopLeft toStr patch)"
  unfolding traceTopRight_def traceBottomRight_def traceBottomLeft_def traceTopLeft_def Let_def
  by (auto simp: toFixed_no_N [OF assms])

lemma joinCornerProfiles_no_N:
  assumes "\<And>x. CHR ''N'' \<notin> set (toStr x)"
  shows "CHR ''N'' \<notin> set (joinCornerProfiles toStr params)"
  using assms trace_no_N [OF assms]
  by (simp add: joinCornerProfiles_def Let_def)


lemma sublist_NaN_has_N: "sublist ''NaN'' path \<Longrightarrow> CHR ''N'' \<in> set path"
  by (auto simp: sublist_def)

lemma computeCornerProfile_total:
  "\<exists>prof caches'. computeCornerProfile toStr r s pr b caches = Some (prof, caches') \<and>
     PATH_CACHE_MAP caches' = PATH_CACHE_MAP caches"
proof (cases "CORNER_PROFILE_CACHE caches (cornerProfileCacheKey toStr r s pr b)")
  case None
  from computeCornerProfile_miss [OF this] show ?thesis by auto
next
  case (Some prof)
  from computeCornerProfile_hit [OF this] show ?thesis by auto
qed

lemma equalRadiiPathParams_total:
  "\<exists>params caches'. equalRadiiPathParams toStr w h r s pr caches = Some (params, caches') \<and>
     PATH_CACHE_MAP caches' = PATH_CACHE_MAP caches"
proof -
  obtain prof caches' where
    "computeCornerProfile toStr (min r (min w h / 2)) s pr (min w h / 2) caches = Some (prof, caches')"
    "PATH_CACHE_MAP caches' = PATH_CACHE_MAP caches"
    using computeCornerProfile_total by blast
  then show ?thesis by (simp add: equalRadiiPathParams_def Let_def)
qed

lemma normalizedPathParams_total:
  assumes "0 \<le> w" "0 \<le> h" "0 \<le> rTL" "0 \<le> rTR" "0 \<le> rBR" "0 \<le> rBL"
  shows "\<exists>params caches'.
     normalizedPathParams toStr w h rTL rTR rBR rBL s pr caches = Some (params, caches') \<and>
     PATH_CACHE_MAP caches' = PATH_CACHE_MAP caches"
proof -
  from normalizeCorners_valid [OF assms] obtain corners where
    n: "normalizeCorners rTL rTR rBR rBL w h = Some corners" by blast
  obtain p1 c1 where 1: "computeCornerProfile toStr (radius (corners topLeft)) s pr
      (roundingAndSmoothingBudget (corners topLeft)) caches = Some (p1, c1)"
    "PATH_CACHE_MAP c1 = PATH_CACHE_MAP caches"
    using computeCornerProfile_total by blast
  obtain p2 c2 where 2: "computeCornerProfile toStr (radius (corners topRight)) s pr
      (roundingAndSmoothingBudget (corners topRight)) c1 = Some (p2, c2)"
    "PATH_CACHE_MAP c2 = PATH_CACHE_MAP c1"
    using computeCornerProfile_total by blast
  obtain p3 c3 where 3: "computeCornerProfile toStr (radius (corners bottomRight)) s pr
      (roundingAndSmoothingBudget (corners bottomRight)) c2 = Some (p3, c3)"
    "PATH_CACHE_MAP c3 = PATH_CACHE_MAP c2"
    using computeCornerProfile_total by blast
  obtain p4 c4 where 4: "computeCornerProfile toStr (radius (corners bottomLeft)) s pr
      (roundingAndSmoothingBudget (corners bottomLeft)) c3 = Some (p4, c4)"
    "PATH_CACHE_MAP c4 = PATH_CACHE_MAP c3"
    using computeCornerProfile_total by blast
  show ?thesis
    using n 1 2 3 4 by (simp add: normalizedPathParams_def)
qed

lemma normalizedPathParams_keeps_paths:
  assumes "normalizedPathParams toStr w h rTL rTR rBR rBL s pr caches = Some (params, caches')"
  shows "PATH_CACHE_MAP caches' = PATH_CACHE_MAP caches"
  using assms
  by (auto simp: normalizedPathParams_def split: Option.bind_splits
           dest!: computeCornerProfile_keeps_paths)

lemma equalRadiiPathParams_keeps_paths:
  assumes "equalRadiiPathParams toStr w h r s pr caches = Some (params, caches')"
  shows "PATH_CACHE_MAP caches' = PATH_CACHE_MAP caches"
  using assms
  by (auto simp: equalRadiiPathParams_def Let_def split: Option.bind_splits
           dest!: computeCornerProfile_keeps_paths)

lemma mapSet_set: "set (mapSet k v m) \<subseteq> insert (k, v) (set m)"
  by (induction m) (auto split: if_splits)

lemma store_clean:
  assumes "cleanPaths caches" and "CHR ''N'' \<notin> set path"
    and "PATH_CACHE_MAP caches' = PATH_CACHE_MAP caches"
  shows "cleanPaths (storeCachedPath key path caches')"
proof -
  define m where "m = PATH_CACHE_MAP caches'"
  define m2 where "m2 =
    (if length m \<ge> PATH_CACHE_LIMIT \<and> \<not> mapHas key m
     then (case m of [] \<Rightarrow> m | (oldest, v) # rest \<Rightarrow> mapDelete oldest m)
     else m)"
  have sub: "set m2 \<subseteq> set m"
    by (auto simp: m2_def mapDelete_def split: list.splits)
  have "PATH_CACHE_MAP (storeCachedPath key path caches') = mapSet key path m2"
    unfolding storeCachedPath_def Let_def m_def m2_def by simp
  then have "set (PATH_CACHE_MAP (storeCachedPath key path caches')) \<subseteq>
          insert (key, path) (set m2)"
    by (simp only: mapSet_set)
  with sub have "set (PATH_CACHE_MAP (storeCachedPath key path caches')) \<subseteq>
          insert (key, path) (set (PATH_CACHE_MAP caches))"
    unfolding m_def assms(3) by blast
  with assms(1,2) show ?thesis unfolding cleanPaths_def by blast
qed

section \<open>Every reachable path cache is free of NaN\<close>

lemma buildSquirclePath_cases:
  assumes "buildSquirclePath toStr options caches = Some (path, caches')"
  obtains
    (hit) "readCachedPath (cacheKeyOf toStr options) caches = Some path" "path \<noteq> []"
      "caches' = caches"
  | (rectangle)
      "path = ''M '' @ toStr (width options) @ '' 0 L '' @ toStr (width options) @ '' '' @
              toStr (height options) @ '' L 0 '' @ toStr (height options) @ '' L 0 0 Z''"
      "caches' = storeCachedPath (cacheKeyOf toStr options) path caches"
  | (computed) params caches'' where
      "path = joinCornerProfiles toStr params"
      "caches' = storeCachedPath (cacheKeyOf toStr options) path caches''"
      "PATH_CACHE_MAP caches'' = PATH_CACHE_MAP caches"
  using assms
  by (auto simp: buildSquirclePath_def Let_def
           split: if_splits Option.bind_splits
           dest: equalRadiiPathParams_keeps_paths normalizedPathParams_keeps_paths)

lemma buildSquirclePath_clean:
  assumes toStr: "\<And>x. CHR ''N'' \<notin> set (toStr x)"
    and clean: "cleanPaths caches"
    and call: "buildSquirclePath toStr options caches = Some (path, caches')"
  shows "CHR ''N'' \<notin> set path \<and> cleanPaths caches'"
  using call
proof (cases rule: buildSquirclePath_cases)
  case hit
  then have "(cacheKeyOf toStr options, path) \<in> set (PATH_CACHE_MAP caches)"
    by (simp add: readCachedPath_def map_of_SomeD)
  with clean hit(3) show ?thesis by (auto simp: cleanPaths_def)
next
  case rectangle
  have "CHR ''N'' \<notin> set path"
    unfolding rectangle(1) using toStr by simp
  with clean rectangle(2) show ?thesis by (simp add: store_clean)
next
  case (computed params caches'')
  have "CHR ''N'' \<notin> set path"
    unfolding computed(1) by (rule joinCornerProfiles_no_N [OF toStr])
  with clean computed(2,3) show ?thesis by (simp add: store_clean)
qed

lemma reachable_clean:
  assumes "\<And>x. CHR ''N'' \<notin> set (toStr x)" and "reachable toStr caches"
  shows "cleanPaths caches"
  using assms(2)
proof (induction rule: reachable.induct)
  case reachable_start
  show ?case by (simp add: cleanPaths_def emptyCaches_def)
next
  case (reachable_call caches options path caches')
  from buildSquirclePath_clean [OF assms(1) reachable_call.IH reachable_call.hyps(2)]
  show ?case by simp
qed

lemma buildSquirclePath_total:
  assumes "validInput options"
  shows "\<exists>path caches'. buildSquirclePath toStr options caches = Some (path, caches')"
proof (cases "readCachedPath (cacheKeyOf toStr options) caches \<noteq> None \<and>
              readCachedPath (cacheKeyOf toStr options) caches \<noteq> Some []")
  case True
  then show ?thesis by (simp add: buildSquirclePath_def Let_def)
next
  case miss: False
  from assms have v: "0 \<le> width options" "0 \<le> height options"
    "0 \<le> radiusTL options" "0 \<le> radiusTR options" "0 \<le> radiusBR options"
    "0 \<le> radiusBL options"
    by (simp_all add: validInput_def)
  obtain p1 c1 where eq:
    "equalRadiiPathParams toStr (width options) (height options) (radiusTL options)
       (cornerSmoothing options) (preserveOf options) caches = Some (p1, c1)"
    using equalRadiiPathParams_total by blast
  obtain p2 c2 where norm:
    "normalizedPathParams toStr (width options) (height options) (radiusTL options)
       (radiusTR options) (radiusBR options) (radiusBL options)
       (cornerSmoothing options) (preserveOf options) caches = Some (p2, c2)"
    using normalizedPathParams_total [OF v] by blast
  show ?thesis
  proof (cases "radiusTL options = radiusTR options \<and> radiusTR options = radiusBR options \<and>
                radiusBR options = radiusBL options \<and> radiusBL options = radiusTL options")
    case equal: True
    show ?thesis
    proof (cases "radiusTL options = 0")
      case True
      show ?thesis
        unfolding buildSquirclePath_def Let_def
        by (simp only: miss equal [THEN eqTrueI] True [THEN eqTrueI] if_True if_False) blast
    next
      case False
      show ?thesis
        unfolding buildSquirclePath_def Let_def
        by (simp only: miss equal [THEN eqTrueI] False if_True if_False eq) simp
    qed
  next
    case False
    show ?thesis
      unfolding buildSquirclePath_def Let_def
      by (simp only: miss False if_False norm) simp
  qed
qed

lemma fracDigits_chars:
  "0 \<le> r \<Longrightarrow> r < 1 \<Longrightarrow> set (fracDigits k r) \<subseteq> set ''0123456789''"
proof (induction k arbitrary: r)
  case 0
  then show ?case by simp
next
  case (Suc k)
  define d where "d = nat \<lfloor>r * 10\<rfloor>"
  have "\<lfloor>r * 10\<rfloor> < 10" using Suc.prems by (simp add: floor_less_iff)
  moreover have "0 \<le> \<lfloor>r * 10\<rfloor>" using Suc.prems by simp
  ultimately have d: "d < 10" and rd: "real d = of_int \<lfloor>r * 10\<rfloor>"
    unfolding d_def by linarith+
  have lo: "0 \<le> r * 10 - real d" unfolding rd by linarith
  have hi: "r * 10 - real d < 1" unfolding rd by linarith
  from Suc.IH [OF lo hi] digitChar_digit [OF d] show ?case
    by (simp add: Let_def d_def [symmetric])
qed

lemma decimalString_no_N: "CHR ''N'' \<notin> set (decimalString x)"
proof -
  have f: "set (fracDigits 20 (frac \<bar>x\<bar>)) \<subseteq> set ''0123456789''"
    by (rule fracDigits_chars) (simp_all add: frac_lt_1)
  have d: "set (digitsOf (nat \<lfloor>\<bar>x\<bar>\<rfloor>)) \<subseteq> set ''0123456789''"
    by (rule digitsOf_chars)
  have n: "CHR ''N'' \<notin> set ''0123456789''" by simp
  have "set (decimalString x) \<subseteq>
          {CHR ''-'', CHR ''.''} \<union> set (digitsOf (nat \<lfloor>\<bar>x\<bar>\<rfloor>)) \<union>
          set (fracDigits 20 (frac \<bar>x\<bar>))"
    unfolding decimalString_def by (auto split: if_splits)
  with f d n show ?thesis by blast
qed

section \<open>Two corners under one key of the corner-profile cache\<close>

lemma toFixed3_10a: "toFixed toStr 3 (25001 / 2500) = ''10.000''"
  unfolding toFixed_def Let_def
  apply (simp del: digitsOf.simps)
  apply (simp add: digitsOf.simps digitChar_def)
  apply (simp add: eval_nat_numeral)?
  done

lemma toFixed3_10b: "toFixed toStr 3 (24999 / 2500) = ''10.000''"
  unfolding toFixed_def Let_def
  apply (simp del: digitsOf.simps)
  apply (simp add: digitsOf.simps digitChar_def)
  apply (simp add: eval_nat_numeral)?
  done

lemma aliased_corner_profiles:
  "\<exists>prof pBR pBL caches'.
     normalizedPathParams decimalString 20 100 (100004 / 10000) (99996 / 10000) 0 0 0 False
       emptyCaches =
       Some (\<lparr>pathWidth = 20, pathHeight = 100,
              topLeftPathParams = prof, topRightPathParams = prof,
              bottomLeftPathParams = pBL, bottomRightPathParams = pBR\<rparr>, caches') \<and>
     patch_p prof = 100004 / 10000"
proof -
  obtain corners where n: "normalizeCorners (100004 / 10000) (99996 / 10000) 0 0 20 100 = Some corners"
    and tl: "radius (corners topLeft) = 100004 / 10000"
      "roundingAndSmoothingBudget (corners topLeft) = 100004 / 10000"
    and tr: "radius (corners topRight) = 99996 / 10000"
       "roundingAndSmoothingBudget (corners topRight) = 99996 / 10000"
    using normalize_example by blast
  let ?key = "cornerProfileCacheKey decimalString (100004 / 10000) 0 False (100004 / 10000)"
  obtain prof where body: "computeCornerProfile_body (100004 / 10000) 0 False (100004 / 10000) = Some prof"
    and c1: "computeCornerProfile decimalString (100004 / 10000) 0 False (100004 / 10000) emptyCaches =
      Some (prof, emptyCaches\<lparr>CORNER_PROFILE_CACHE := (CORNER_PROFILE_CACHE emptyCaches)(?key \<mapsto> prof)\<rparr>)"
    using computeCornerProfile_miss [of emptyCaches decimalString "100004 / 10000" 0 False "100004 / 10000"]
    by auto
  let ?c1 = "emptyCaches\<lparr>CORNER_PROFILE_CACHE := (CORNER_PROFILE_CACHE emptyCaches)(?key \<mapsto> prof)\<rparr>"
  have p: "patch_p prof = 100004 / 10000"
    using body_footprint [OF body] by simp
  have key: "cornerProfileCacheKey decimalString (99996 / 10000) 0 False (99996 / 10000) = ?key"
    by (simp add: cornerProfileCacheKey_def toFixed3_10a toFixed3_10b)
  have c2: "computeCornerProfile decimalString (99996 / 10000) 0 False (99996 / 10000) ?c1 =
      Some (prof, ?c1)"
    by (rule computeCornerProfile_hit) (simp only: key, simp)
  obtain pBR c3 where c3: "computeCornerProfile decimalString (radius (corners bottomRight)) 0 False
      (roundingAndSmoothingBudget (corners bottomRight)) ?c1 = Some (pBR, c3)"
    using computeCornerProfile_total by blast
  obtain pBL c4 where c4: "computeCornerProfile decimalString (radius (corners bottomLeft)) 0 False
      (roundingAndSmoothingBudget (corners bottomLeft)) c3 = Some (pBL, c4)"
    using computeCornerProfile_total by blast
  have "normalizedPathParams decimalString 20 100 (100004 / 10000) (99996 / 10000) 0 0 0 False
       emptyCaches =
       Some (\<lparr>pathWidth = 20, pathHeight = 100,
              topLeftPathParams = prof, topRightPathParams = prof,
              bottomLeftPathParams = pBL, bottomRightPathParams = pBR\<rparr>, c4)"
    unfolding normalizedPathParams_def
    by (simp only: n tl tr c1 c2 c3 c4 Option.bind.simps prod.case)
  with p show ?thesis by blast
qed

lemma pathParams_uncached_size:
  assumes "pathParams_uncached w h rTL rTR rBR rBL s pr = Some params"
  shows "pathWidth params = w \<and> pathHeight params = h"
proof (cases "rTL = rTR \<and> rTR = rBR \<and> rBR = rBL \<and> rBL = rTL")
  case True
  from assms show ?thesis
    unfolding pathParams_uncached_def Let_def
    by (simp only: True [THEN eqTrueI] if_True) (auto split: Option.bind_splits)
next
  case False
  from assms show ?thesis
    unfolding pathParams_uncached_def
    by (simp only: False if_False) (auto split: Option.bind_splits)
qed

lemma normalized_call:
  assumes "\<not> (radiusTL options = radiusTR options \<and> radiusTR options = radiusBR options \<and>
              radiusBR options = radiusBL options \<and> radiusBL options = radiusTL options)"
    and "readCachedPath (cacheKeyOf toStr options) caches = None \<or>
         readCachedPath (cacheKeyOf toStr options) caches = Some []"
  shows "buildSquirclePath toStr options caches =
     do {
       (params, caches') \<leftarrow>
         normalizedPathParams toStr (width options) (height options) (radiusTL options)
           (radiusTR options) (radiusBR options) (radiusBL options)
           (cornerSmoothing options) (preserveOf options) caches;
       Some (joinCornerProfiles toStr params,
             storeCachedPath (cacheKeyOf toStr options) (joinCornerProfiles toStr params) caches')
     }"
proof -
  have miss: "\<not> (readCachedPath (cacheKeyOf toStr options) caches \<noteq> None \<and>
                 readCachedPath (cacheKeyOf toStr options) caches \<noteq> Some [])"
    using assms(2) by auto
  show ?thesis
    unfolding buildSquirclePath_def Let_def
    by (simp only: miss assms(1) if_False)
qed

section \<open>An exact corner-profile cache is transparent\<close>

lemma exact_step:
  assumes "profileCacheExact toStr s pr (CORNER_PROFILE_CACHE caches) ((r, b) # rest)"
  shows "\<exists>prof caches'.
           computeCornerProfile_body r s pr b = Some prof \<and>
           computeCornerProfile toStr r s pr b caches = Some (prof, caches') \<and>
           profileCacheExact toStr s pr (CORNER_PROFILE_CACHE caches') rest"
proof -
  let ?key = "cornerProfileCacheKey toStr r s pr b"
  obtain prof where body: "computeCornerProfile_body r s pr b = Some prof"
    using body_total by blast
  from assms have hit: "\<And>q. CORNER_PROFILE_CACHE caches ?key = Some q \<Longrightarrow> q = prof"
    using body by (auto simp: profileCacheExact_def)
  from assms have old: "\<And>r' b' q. (r', b') \<in> set rest \<Longrightarrow>
      CORNER_PROFILE_CACHE caches (cornerProfileCacheKey toStr r' s pr b') = Some q \<Longrightarrow>
      computeCornerProfile_body r' s pr b' = Some q"
    by (auto simp: profileCacheExact_def)
  from assms have same: "\<And>r' b'. (r', b') \<in> set rest \<Longrightarrow>
      cornerProfileCacheKey toStr r' s pr b' = ?key \<Longrightarrow>
      computeCornerProfile_body r' s pr b' = Some prof"
    using body by (fastforce simp: profileCacheExact_def)
  from assms have sep: "\<forall>(r, b) \<in> set rest. \<forall>(r', b') \<in> set rest.
         cornerProfileCacheKey toStr r s pr b = cornerProfileCacheKey toStr r' s pr b' \<longrightarrow>
         computeCornerProfile_body r s pr b = computeCornerProfile_body r' s pr b'"
    by (auto simp: profileCacheExact_def)
  show ?thesis
  proof (cases "CORNER_PROFILE_CACHE caches ?key")
    case None
    then have run: "computeCornerProfile toStr r s pr b caches =
        Some (prof, caches\<lparr>CORNER_PROFILE_CACHE := (CORNER_PROFILE_CACHE caches)(?key \<mapsto> prof)\<rparr>)"
      using body by (simp add: computeCornerProfile_def Let_def)
    have "profileCacheExact toStr s pr ((CORNER_PROFILE_CACHE caches)(?key \<mapsto> prof)) rest"
      unfolding profileCacheExact_def using old same sep by (auto split: if_splits)
    with body run show ?thesis by auto
  next
    case (Some q)
    with hit have q: "q = prof" by simp
    from Some have run: "computeCornerProfile toStr r s pr b caches = Some (q, caches)"
      by (rule computeCornerProfile_hit)
    have "profileCacheExact toStr s pr (CORNER_PROFILE_CACHE caches) rest"
      unfolding profileCacheExact_def using old sep by auto
    with body run q show ?thesis by auto
  qed
qed

lemma exact_equal_radii:
  assumes "profileCacheExact toStr s pr (CORNER_PROFILE_CACHE caches)
             [(min r (min w h / 2), min w h / 2)]"
  shows "\<exists>prof caches'.
     computeCornerProfile_body (min r (min w h / 2)) s pr (min w h / 2) = Some prof \<and>
     equalRadiiPathParams toStr w h r s pr caches =
       Some (\<lparr>pathWidth = w, pathHeight = h,
              topLeftPathParams = prof, topRightPathParams = prof,
              bottomLeftPathParams = prof, bottomRightPathParams = prof\<rparr>, caches')"
proof -
  from exact_step [OF assms] obtain prof caches' where
    "computeCornerProfile_body (min r (min w h / 2)) s pr (min w h / 2) = Some prof"
    "computeCornerProfile toStr (min r (min w h / 2)) s pr (min w h / 2) caches = Some (prof, caches')"
    by blast
  then show ?thesis by (simp add: equalRadiiPathParams_def Let_def)
qed

lemma exact_normalized:
  assumes n: "normalizeCorners rTL rTR rBR rBL w h = Some corners"
    and ex: "profileCacheExact toStr s pr (CORNER_PROFILE_CACHE caches)
       (map (\<lambda>corner. (radius (corners corner), roundingAndSmoothingBudget (corners corner)))
          [topLeft, topRight, bottomRight, bottomLeft])"
  shows "\<exists>pTL pTR pBR pBL caches'.
     computeCornerProfile_body (radius (corners topLeft)) s pr
       (roundingAndSmoothingBudget (corners topLeft)) = Some pTL \<and>
     computeCornerProfile_body (radius (corners topRight)) s pr
       (roundingAndSmoothingBudget (corners topRight)) = Some pTR \<and>
     computeCornerProfile_body (radius (corners bottomRight)) s pr
       (roundingAndSmoothingBudget (corners bottomRight)) = Some pBR \<and>
     computeCornerProfile_body (radius (corners bottomLeft)) s pr
       (roundingAndSmoothingBudget (corners bottomLeft)) = Some pBL \<and>
     normalizedPathParams toStr w h rTL rTR rBR rBL s pr caches =
       Some (\<lparr>pathWidth = w, pathHeight = h,
              topLeftPathParams = pTL, topRightPathParams = pTR,
              bottomLeftPathParams = pBL, bottomRightPathParams = pBR\<rparr>, caches')"
proof -
  from ex have e0: "profileCacheExact toStr s pr (CORNER_PROFILE_CACHE caches)
      ((radius (corners topLeft), roundingAndSmoothingBudget (corners topLeft)) #
       [(radius (corners topRight), roundingAndSmoothingBudget (corners topRight)),
        (radius (corners bottomRight), roundingAndSmoothingBudget (corners bottomRight)),
        (radius (corners bottomLeft), roundingAndSmoothingBudget (corners bottomLeft))])"
    by simp
  from exact_step [OF e0] obtain pTL c1 where
    b1: "computeCornerProfile_body (radius (corners topLeft)) s pr
       (roundingAndSmoothingBudget (corners topLeft)) = Some pTL"
    and r1: "computeCornerProfile toStr (radius (corners topLeft)) s pr
       (roundingAndSmoothingBudget (corners topLeft)) caches = Some (pTL, c1)"
    and e1: "profileCacheExact toStr s pr (CORNER_PROFILE_CACHE c1)
      ((radius (corners topRight), roundingAndSmoothingBudget (corners topRight)) #
       [(radius (corners bottomRight), roundingAndSmoothingBudget (corners bottomRight)),
        (radius (corners bottomLeft), roundingAndSmoothingBudget (corners bottomLeft))])"
    by blast
  from exact_step [OF e1] obtain pTR c2 where
    b2: "computeCornerProfile_body (radius (corners topRight)) s pr
       (roundingAndSmoothingBudget (corners topRight)) = Some pTR"
    and r2: "computeCornerProfile toStr (radius (corners topRight)) s pr
       (roundingAndSmoothingBudget (corners topRight)) c1 = Some (pTR, c2)"
    and e2: "profileCacheExact toStr s pr (CORNER_PROFILE_CACHE c2)
      ((radius (corners bottomRight), roundingAndSmoothingBudget (corners bottomRight)) #
       [(radius (corners bottomLeft), roundingAndSmoothingBudget (corners bottomLeft))])"
    by blast
  from exact_step [OF e2] obtain pBR c3 where
    b3: "computeCornerProfile_body (radius (corners bottomRight)) s pr
       (roundingAndSmoothingBudget (corners bottomRight)) = Some pBR"
    and r3: "computeCornerProfile toStr (radius (corners bottomRight)) s pr
       (roundingAndSmoothingBudget (corners bottomRight)) c2 = Some (pBR, c3)"
    and e3: "profileCacheExact toStr s pr (CORNER_PROFILE_CACHE c3)
      ((radius (corners bottomLeft), roundingAndSmoothingBudget (corners bottomLeft)) # [])"
    by blast
  from exact_step [OF e3] obtain pBL c4 where
    b4: "computeCornerProfile_body (radius (corners bottomLeft)) s pr
       (roundingAndSmoothingBudget (corners bottomLeft)) = Some pBL"
    and r4: "computeCornerProfile toStr (radius (corners bottomLeft)) s pr
       (roundingAndSmoothingBudget (corners bottomLeft)) c3 = Some (pBL, c4)"
    by blast
  have "normalizedPathParams toStr w h rTL rTR rBR rBL s pr caches =
       Some (\<lparr>pathWidth = w, pathHeight = h,
              topLeftPathParams = pTL, topRightPathParams = pTR,
              bottomLeftPathParams = pBL, bottomRightPathParams = pBR\<rparr>, c4)"
    unfolding normalizedPathParams_def
    by (simp only: n r1 r2 r3 r4 Option.bind.simps prod.case)
  with b1 b2 b3 b4 show ?thesis by blast
qed

lemma exact_pipeline:
  assumes miss: "readCachedPath (cacheKeyOf toStr options) caches = None \<or>
                 readCachedPath (cacheKeyOf toStr options) caches = Some []"
    and ex: "profileCacheExact toStr (cornerSmoothing options) (preserveOf options)
               (CORNER_PROFILE_CACHE caches)
               (profileRequests (width options) (height options) (radiusTL options)
                  (radiusTR options) (radiusBR options) (radiusBL options))"
  shows "map_option fst (buildSquirclePath toStr options caches) =
           buildSquirclePath_uncached toStr options"
proof (cases "radiusTL options = radiusTR options \<and> radiusTR options = radiusBR options \<and>
              radiusBR options = radiusBL options \<and> radiusBL options = radiusTL options")
  case equal: True
  then have e: "radiusTR options = radiusTL options" "radiusBR options = radiusTL options"
    "radiusBL options = radiusTL options" by metis+
  show ?thesis
  proof (cases "radiusTL options = 0")
    case True
    have "buildSquirclePath_uncached toStr options =
        Some (''M '' @ toStr (width options) @ '' 0 L '' @ toStr (width options) @ '' '' @
              toStr (height options) @ '' L 0 '' @ toStr (height options) @ '' L 0 0 Z'')"
      by (simp add: buildSquirclePath_uncached_def Let_def e True)
    moreover have "map_option fst (buildSquirclePath toStr options caches) =
        Some (''M '' @ toStr (width options) @ '' 0 L '' @ toStr (width options) @ '' '' @
              toStr (height options) @ '' L 0 '' @ toStr (height options) @ '' L 0 0 Z'')"
      using zero_radii_call [of options toStr caches] miss by (simp add: e True)
    ultimately show ?thesis by simp
  next
    case False
    from ex have ex': "profileCacheExact toStr (cornerSmoothing options) (preserveOf options)
        (CORNER_PROFILE_CACHE caches)
        [(min (radiusTL options) (min (width options) (height options) / 2),
          min (width options) (height options) / 2)]"
      by (simp add: profileRequests_def e False)
    from exact_step [OF ex'] obtain prof caches' where
      body: "computeCornerProfile_body
         (min (radiusTL options) (min (width options) (height options) / 2))
         (cornerSmoothing options) (preserveOf options)
         (min (width options) (height options) / 2) = Some prof"
      and run: "computeCornerProfile toStr
         (min (radiusTL options) (min (width options) (height options) / 2))
         (cornerSmoothing options) (preserveOf options)
         (min (width options) (height options) / 2) caches = Some (prof, caches')"
      by blast
    have "buildSquirclePath_uncached toStr options =
        Some (joinCornerProfiles toStr
                \<lparr>pathWidth = width options, pathHeight = height options,
                 topLeftPathParams = prof, topRightPathParams = prof,
                 bottomLeftPathParams = prof, bottomRightPathParams = prof\<rparr>)"
      by (simp add: buildSquirclePath_uncached_def pathParams_uncached_def Let_def e False body)
    moreover have "map_option fst (buildSquirclePath toStr options caches) =
        Some (joinCornerProfiles toStr
                \<lparr>pathWidth = width options, pathHeight = height options,
                 topLeftPathParams = prof, topRightPathParams = prof,
                 bottomLeftPathParams = prof, bottomRightPathParams = prof\<rparr>)"
      using equal_radii_call [of options "radiusTL options" toStr caches] miss False run
      by (simp add: e)
    ultimately show ?thesis by simp
  qed
next
  case different: False
  have call: "buildSquirclePath toStr options caches =
     do {
       (params, caches') \<leftarrow>
         normalizedPathParams toStr (width options) (height options) (radiusTL options)
           (radiusTR options) (radiusBR options) (radiusBL options)
           (cornerSmoothing options) (preserveOf options) caches;
       Some (joinCornerProfiles toStr params,
             storeCachedPath (cacheKeyOf toStr options) (joinCornerProfiles toStr params) caches')
     }"
    by (rule normalized_call [OF different miss])
  have un: "buildSquirclePath_uncached toStr options =
      map_option (joinCornerProfiles toStr)
        (pathParams_uncached (width options) (height options) (radiusTL options)
           (radiusTR options) (radiusBR options) (radiusBL options)
           (cornerSmoothing options) (preserveOf options))"
  proof -
    have nz: "\<not> (radiusTL options = radiusTR options \<and> radiusTR options = radiusBR options \<and>
              radiusBR options = radiusBL options \<and> radiusBL options = radiusTL options \<and>
              radiusTL options = 0)"
      using different by blast
    show ?thesis
      unfolding buildSquirclePath_uncached_def Let_def by (simp only: nz if_False)
  qed
  show ?thesis
  proof (cases "normalizeCorners (radiusTL options) (radiusTR options) (radiusBR options)
                  (radiusBL options) (width options) (height options)")
    case None
    have "normalizedPathParams toStr (width options) (height options) (radiusTL options)
           (radiusTR options) (radiusBR options) (radiusBL options)
           (cornerSmoothing options) (preserveOf options) caches = None"
      by (simp add: normalizedPathParams_def None)
    moreover have "pathParams_uncached (width options) (height options) (radiusTL options)
           (radiusTR options) (radiusBR options) (radiusBL options)
           (cornerSmoothing options) (preserveOf options) = None"
      unfolding pathParams_uncached_def by (simp only: different if_False None) simp
    ultimately show ?thesis by (simp add: call un)
  next
    case (Some corners)
    from ex have ex': "profileCacheExact toStr (cornerSmoothing options) (preserveOf options)
        (CORNER_PROFILE_CACHE caches)
        (map (\<lambda>corner. (radius (corners corner), roundingAndSmoothingBudget (corners corner)))
          [topLeft, topRight, bottomRight, bottomLeft])"
      unfolding profileRequests_def by (simp only: different if_False Some option.case)
    from exact_normalized [OF Some ex'] obtain pTL pTR pBR pBL caches' where
      b: "computeCornerProfile_body (radius (corners topLeft)) (cornerSmoothing options)
            (preserveOf options) (roundingAndSmoothingBudget (corners topLeft)) = Some pTL"
         "computeCornerProfile_body (radius (corners topRight)) (cornerSmoothing options)
            (preserveOf options) (roundingAndSmoothingBudget (corners topRight)) = Some pTR"
         "computeCornerProfile_body (radius (corners bottomRight)) (cornerSmoothing options)
            (preserveOf options) (roundingAndSmoothingBudget (corners bottomRight)) = Some pBR"
         "computeCornerProfile_body (radius (corners bottomLeft)) (cornerSmoothing options)
            (preserveOf options) (roundingAndSmoothingBudget (corners bottomLeft)) = Some pBL"
      and run: "normalizedPathParams toStr (width options) (height options) (radiusTL options)
           (radiusTR options) (radiusBR options) (radiusBL options)
           (cornerSmoothing options) (preserveOf options) caches =
         Some (\<lparr>pathWidth = width options, pathHeight = height options,
                topLeftPathParams = pTL, topRightPathParams = pTR,
                bottomLeftPathParams = pBL, bottomRightPathParams = pBR\<rparr>, caches')"
      by blast
    have "pathParams_uncached (width options) (height options) (radiusTL options)
           (radiusTR options) (radiusBR options) (radiusBL options)
           (cornerSmoothing options) (preserveOf options) =
         Some \<lparr>pathWidth = width options, pathHeight = height options,
                topLeftPathParams = pTL, topRightPathParams = pTR,
                bottomLeftPathParams = pBL, bottomRightPathParams = pBR\<rparr>"
      unfolding pathParams_uncached_def
      by (simp only: different if_False Some b Option.bind.simps)
    with run show ?thesis by (simp add: call un)
  qed
qed

section \<open>Decimals of the printed numbers\<close>

lemma decimalsWithin_append:
  "decimalsWithin n st (xs @ ys) =
     (decimalsWithin n st xs \<and> decimalsWithin n (scanAfter st xs) ys)"
  by (induction xs arbitrary: st) (auto split: option.splits)

lemma scanAfter_append: "scanAfter st (xs @ ys) = scanAfter (scanAfter st xs) ys"
  by (induction xs arbitrary: st) auto

lemma digits_scan_None:
  assumes "set ds \<subseteq> set ''0123456789''"
  shows "decimalsWithin n None ds \<and> scanAfter None ds = None"
  using assms
proof (induction ds)
  case Nil
  show ?case by simp
next
  case (Cons c ds)
  then have d: "isDigit c" and nd: "c \<noteq> CHR ''.''" by (auto simp: isDigit_def)
  with Cons show ?case by simp
qed

lemma digits_scan_Some:
  assumes "set ds \<subseteq> set ''0123456789''"
  shows "decimalsWithin n (Some k) ds = (ds = [] \<or> k + length ds \<le> n) \<and>
         scanAfter (Some k) ds = Some (k + length ds)"
  using assms
proof (induction ds arbitrary: k)
  case Nil
  show ?case by simp
next
  case (Cons c ds)
  then have d: "isDigit c" and nd: "c \<noteq> CHR ''.''" by (auto simp: isDigit_def)
  from Cons.prems have "set ds \<subseteq> set ''0123456789''" by simp
  from Cons.IH [OF this, of "Suc k"] d nd show ?case by (cases ds) auto
qed

lemma toFixed_shape:
  assumes "\<bar>x\<bar> < 10 ^ 21" and "0 < f"
  shows "\<exists>ip fp. toFixed toStr f x = (if x < 0 then ''-'' else []) @ ip @ ''.'' @ fp \<and>
           set ip \<subseteq> set ''0123456789'' \<and> set fp \<subseteq> set ''0123456789'' \<and> length fp = f"
proof -
  define m where "m = digitsOf (nat \<lfloor>\<bar>x\<bar> * 10 ^ f + 1 / 2\<rfloor>)"
  define m' where "m' = replicate (f + 1 - length m) (CHR ''0'') @ m"
  have eq: "toFixed toStr f x =
      (if x < 0 then ''-'' else []) @ take (length m' - f) m' @ ''.'' @ drop (length m' - f) m'"
    using assms by (simp add: toFixed_def Let_def m_def m'_def)
  have "set m \<subseteq> set ''0123456789''"
    unfolding m_def by (rule digitsOf_chars)
  moreover have "set m' \<subseteq> insert (CHR ''0'') (set m)"
    by (auto simp: m'_def)
  moreover have "CHR ''0'' \<in> set ''0123456789''" by simp
  ultimately have m': "set m' \<subseteq> set ''0123456789''" by blast
  have len: "f \<le> length m'" by (simp add: m'_def)
  have "set (take (length m' - f) m') \<subseteq> set ''0123456789''"
    using m' set_take_subset by fast
  moreover have "set (drop (length m' - f) m') \<subseteq> set ''0123456789''"
    using m' set_drop_subset by fast
  moreover have "length (drop (length m' - f) m') = f" using len by simp
  ultimately show ?thesis using eq by blast
qed

lemma toFixed4_scan:
  assumes "\<bar>x\<bar> < 10 ^ 21"
  shows "decimalsWithin 4 None (toFixed toStr 4 x)"
    and "scanAfter None (toFixed toStr 4 x) = Some 4"
proof -
  from toFixed_shape [OF assms, of 4 toStr] obtain ip fp where
    eq: "toFixed toStr 4 x = (if x < 0 then ''-'' else []) @ ip @ ''.'' @ fp"
    and ip: "set ip \<subseteq> set ''0123456789''" and fp: "set fp \<subseteq> set ''0123456789''"
    and len: "length fp = 4"
    by auto
  have sign: "decimalsWithin 4 None (if x < 0 then ''-'' else [])"
    "scanAfter None (if x < 0 then ''-'' else []) = None"
    by (simp_all add: isDigit_def)
  have dot: "decimalsWithin 4 None ''.''" "scanAfter None ''.'' = Some 0" by simp_all
  note i = digits_scan_None [OF ip, of 4]
  note f = digits_scan_Some [OF fp, of 4 0]
  show "decimalsWithin 4 None (toFixed toStr 4 x)"
    unfolding eq using sign i f len
    by (simp only: decimalsWithin_append scanAfter_append dot) simp
  show "scanAfter None (toFixed toStr 4 x) = Some 4"
    unfolding eq using sign i f len
    by (simp only: scanAfter_append dot) simp
qed

lemma scan_value [simp]:
  assumes "\<bar>x\<bar> < 10 ^ 21"
  shows "decimalsWithin 4 None (toFixed toStr 4 x @ rest) = decimalsWithin 4 (Some 4) rest"
  using toFixed4_scan [OF assms, of toStr] by (simp add: decimalsWithin_append)


lemma scan_last [simp]:
  assumes "\<bar>x\<bar> < 10 ^ 21"
  shows "decimalsWithin 4 None (toFixed toStr 4 x)"
  using toFixed4_scan [OF assms, of toStr] by simp







lemma fracDigits_numeral:
  "fracDigits (numeral k) r =
     (if r = 0 then []
      else digitChar (nat \<lfloor>r * 10\<rfloor>) # fracDigits (pred_numeral k) (r * 10 - real (nat \<lfloor>r * 10\<rfloor>)))"
  by (simp add: numeral_eq_Suc Let_def)


lemma joinCornerProfiles_move:
  "\<exists>rest. joinCornerProfiles toStr params =
     ''M '' @ toStr (pathWidth params - patch_p (topRightPathParams params)) @ '' 0 '' @ rest"
  by (simp add: joinCornerProfiles_def Let_def)

section \<open>Histories of calls without collisions\<close>

lemma map_of_mapDelete:
  "map_of (mapDelete x m) k = (if k = x then None else map_of m k)"
  unfolding mapDelete_def by (induction m) auto

lemma read_store_other:
  assumes "k \<noteq> k'" and "readCachedPath k (storeCachedPath k' v caches) = Some p"
  shows "readCachedPath k caches = Some p"
  using assms
  by (auto simp: readCachedPath_def storeCachedPath_def Let_def map_of_mapSet map_of_mapDelete
           split: if_splits list.splits)

lemma computeCornerProfile_entries:
  assumes "computeCornerProfile toStr r s pr b caches = Some (prof, caches')"
    and "CORNER_PROFILE_CACHE caches' k = Some q"
  shows "CORNER_PROFILE_CACHE caches k = Some q \<or>
         (k = cornerProfileCacheKey toStr r s pr b \<and> computeCornerProfile_body r s pr b = Some q)"
  using assms
  by (auto simp: computeCornerProfile_def Let_def split: option.splits Option.bind_splits if_splits)

lemma equalRadiiPathParams_entries:
  assumes "equalRadiiPathParams toStr w h r s pr caches = Some (params, caches')"
    and "CORNER_PROFILE_CACHE caches' k = Some q"
  shows "CORNER_PROFILE_CACHE caches k = Some q \<or>
         (k = cornerProfileCacheKey toStr (min r (min w h / 2)) s pr (min w h / 2) \<and>
          computeCornerProfile_body (min r (min w h / 2)) s pr (min w h / 2) = Some q)"
  using assms
  by (auto simp: equalRadiiPathParams_def Let_def split: Option.bind_splits
           dest: computeCornerProfile_entries)

lemma normalizedPathParams_entries:
  assumes "normalizedPathParams toStr w h rTL rTR rBR rBL s pr caches = Some (params, caches')"
    and "CORNER_PROFILE_CACHE caches' k = Some q"
  shows "CORNER_PROFILE_CACHE caches k = Some q \<or>
         (\<exists>corners corner. normalizeCorners rTL rTR rBR rBL w h = Some corners \<and>
            k = cornerProfileCacheKey toStr (radius (corners corner)) s pr
                  (roundingAndSmoothingBudget (corners corner)) \<and>
            computeCornerProfile_body (radius (corners corner)) s pr
                  (roundingAndSmoothingBudget (corners corner)) = Some q)"
proof -
  from assms(1) obtain corners pTL c1 pTR c2 pBR c3 pBL where
    n: "normalizeCorners rTL rTR rBR rBL w h = Some corners"
    and r1: "computeCornerProfile toStr (radius (corners topLeft)) s pr
       (roundingAndSmoothingBudget (corners topLeft)) caches = Some (pTL, c1)"
    and r2: "computeCornerProfile toStr (radius (corners topRight)) s pr
       (roundingAndSmoothingBudget (corners topRight)) c1 = Some (pTR, c2)"
    and r3: "computeCornerProfile toStr (radius (corners bottomRight)) s pr
       (roundingAndSmoothingBudget (corners bottomRight)) c2 = Some (pBR, c3)"
    and r4: "computeCornerProfile toStr (radius (corners bottomLeft)) s pr
       (roundingAndSmoothingBudget (corners bottomLeft)) c3 = Some (pBL, caches')"
    by (auto simp: normalizedPathParams_def split: Option.bind_splits)
  from computeCornerProfile_entries [OF r4 assms(2)]
    computeCornerProfile_entries [OF r3] computeCornerProfile_entries [OF r2]
    computeCornerProfile_entries [OF r1] n
  show ?thesis by metis
qed


lemma call_path_entries:
  assumes "buildSquirclePath toStr options caches = Some (path, caches')"
    and "readCachedPath k caches' = Some p"
  shows "(k = cacheKeyOf toStr options \<and> p = path) \<or> readCachedPath k caches = Some p"
  using assms(1)
proof (cases rule: buildSquirclePath_cases)
  case hit
  with assms(2) show ?thesis by simp
next
  case rectangle
  show ?thesis
  proof (cases "k = cacheKeyOf toStr options")
    case True
    with assms(2) rectangle(2) show ?thesis by simp
  next
    case False
    from read_store_other [OF False] assms(2) rectangle(2) show ?thesis by blast
  qed
next
  case (computed params caches'')
  show ?thesis
  proof (cases "k = cacheKeyOf toStr options")
    case True
    with assms(2) computed(2) show ?thesis by simp
  next
    case False
    from read_store_other [OF False] assms(2) computed(2)
    have "readCachedPath k caches'' = Some p" by blast
    with computed(3) show ?thesis by (simp add: readCachedPath_def)
  qed
qed

lemma call_profile_entries:
  assumes call: "buildSquirclePath toStr options caches = Some (path, caches')"
    and entry: "CORNER_PROFILE_CACHE caches' k = Some q"
  shows "CORNER_PROFILE_CACHE caches k = Some q \<or>
         (\<exists>(r, s, pr, b) \<in> set (cornerRequests options).
            k = cornerProfileCacheKey toStr r s pr b \<and>
            computeCornerProfile_body r s pr b = Some q)"
proof (cases "readCachedPath (cacheKeyOf toStr options) caches \<noteq> None \<and>
              readCachedPath (cacheKeyOf toStr options) caches \<noteq> Some []")
  case True
  then have "buildSquirclePath toStr options caches =
      Some (the (readCachedPath (cacheKeyOf toStr options) caches), caches)"
    by (simp add: buildSquirclePath_def Let_def)
  with call entry show ?thesis by simp
next
  case False
  then have miss: "readCachedPath (cacheKeyOf toStr options) caches = None \<or>
                   readCachedPath (cacheKeyOf toStr options) caches = Some []"
    by blast
  show ?thesis
  proof (cases "radiusTL options = radiusTR options \<and> radiusTR options = radiusBR options \<and>
                radiusBR options = radiusBL options \<and> radiusBL options = radiusTL options")
    case equal: True
    then have e: "radiusTR options = radiusTL options" "radiusBR options = radiusTL options"
      "radiusBL options = radiusTL options" by metis+
    show ?thesis
    proof (cases "radiusTL options = 0")
      case True
      from zero_radii_call [of options toStr caches] miss call e True
      have "CORNER_PROFILE_CACHE caches' = CORNER_PROFILE_CACHE caches" by auto
      with entry show ?thesis by simp
    next
      case False
      from equal_radii_call [of options "radiusTL options" toStr caches] e False miss call
      obtain prof c1 where
        run: "computeCornerProfile toStr
           (min (radiusTL options) (min (width options) (height options) / 2))
           (cornerSmoothing options) (preserveOf options)
           (min (width options) (height options) / 2) caches = Some (prof, c1)"
        and c: "CORNER_PROFILE_CACHE caches' = CORNER_PROFILE_CACHE c1"
        by (auto split: Option.bind_splits)
      have req: "cornerRequests options =
          [(min (radiusTL options) (min (width options) (height options) / 2),
            cornerSmoothing options, preserveOf options,
            min (width options) (height options) / 2)]"
        by (simp add: cornerRequests_def profileRequests_def e False)
      from computeCornerProfile_entries [OF run entry [unfolded c]] show ?thesis
        unfolding req by auto
    qed
  next
    case different: False
    from normalized_call [OF different miss] call obtain params c1 where
      run: "normalizedPathParams toStr (width options) (height options) (radiusTL options)
           (radiusTR options) (radiusBR options) (radiusBL options)
           (cornerSmoothing options) (preserveOf options) caches = Some (params, c1)"
      and c: "CORNER_PROFILE_CACHE caches' = CORNER_PROFILE_CACHE c1"
      by (auto split: Option.bind_splits)
    from normalizedPathParams_entries [OF run entry [unfolded c]]
    consider "CORNER_PROFILE_CACHE caches k = Some q"
      | corners corner where
        "normalizeCorners (radiusTL options) (radiusTR options) (radiusBR options)
           (radiusBL options) (width options) (height options) = Some corners"
        "k = cornerProfileCacheKey toStr (radius (corners corner)) (cornerSmoothing options)
               (preserveOf options) (roundingAndSmoothingBudget (corners corner))"
        "computeCornerProfile_body (radius (corners corner)) (cornerSmoothing options)
               (preserveOf options) (roundingAndSmoothingBudget (corners corner)) = Some q"
      by blast
    then show ?thesis
    proof cases
      case 1
      then show ?thesis by simp
    next
      case (2 corners corner)
      have req: "profileRequests (width options) (height options) (radiusTL options)
          (radiusTR options) (radiusBR options) (radiusBL options) =
          map (\<lambda>corner. (radius (corners corner), roundingAndSmoothingBudget (corners corner)))
            [topLeft, topRight, bottomRight, bottomLeft]"
        unfolding profileRequests_def by (simp only: different if_False 2(1) option.case)
      have "corner \<in> set [topLeft, topRight, bottomRight, bottomLeft]"
        by (cases corner) simp_all
      then have "(radius (corners corner), cornerSmoothing options, preserveOf options,
                  roundingAndSmoothingBudget (corners corner)) \<in> set (cornerRequests options)"
        unfolding cornerRequests_def req by (auto simp: image_iff)
      with 2(2,3) show ?thesis by blast
    qed
  qed
qed

lemma exact_for_call:
  assumes free: "collisionFree toStr inputs"
    and exact: "cachesExact toStr inputs caches"
    and mem: "options \<in> set inputs"
  shows "profileCacheExact toStr (cornerSmoothing options) (preserveOf options)
           (CORNER_PROFILE_CACHE caches)
           (profileRequests (width options) (height options) (radiusTL options)
              (radiusTR options) (radiusBR options) (radiusBL options))"
proof -
  let ?reqs = "profileRequests (width options) (height options) (radiusTL options)
              (radiusTR options) (radiusBR options) (radiusBL options)"
  have sub: "\<And>r b. (r, b) \<in> set ?reqs \<Longrightarrow>
      (r, cornerSmoothing options, preserveOf options, b) \<in> set (concat (map cornerRequests inputs))"
    using mem by (force simp: cornerRequests_def)
  show ?thesis
    unfolding profileCacheExact_def
  proof (intro conjI ballI allI impI; clarify)
    fix r b prof
    assume "(r, b) \<in> set ?reqs"
      and "CORNER_PROFILE_CACHE caches
             (cornerProfileCacheKey toStr r (cornerSmoothing options) (preserveOf options) b) = Some prof"
    with sub exact show "computeCornerProfile_body r (cornerSmoothing options) (preserveOf options) b = Some prof"
      unfolding cachesExact_def by fast
  next
    fix r b r' b'
    assume "(r, b) \<in> set ?reqs" "(r', b') \<in> set ?reqs"
      and "cornerProfileCacheKey toStr r (cornerSmoothing options) (preserveOf options) b =
           cornerProfileCacheKey toStr r' (cornerSmoothing options) (preserveOf options) b'"
    with sub free show "computeCornerProfile_body r (cornerSmoothing options) (preserveOf options) b =
           computeCornerProfile_body r' (cornerSmoothing options) (preserveOf options) b'"
      unfolding collisionFree_def by fast
  qed
qed

lemma exact_call_result:
  assumes free: "collisionFree toStr inputs"
    and exact: "cachesExact toStr inputs caches"
    and mem: "options \<in> set inputs"
    and call: "buildSquirclePath toStr options caches = Some (path, caches')"
  shows "buildSquirclePath_uncached toStr options = Some path"
proof (cases "readCachedPath (cacheKeyOf toStr options) caches \<noteq> None \<and>
              readCachedPath (cacheKeyOf toStr options) caches \<noteq> Some []")
  case True
  then obtain stored where s: "readCachedPath (cacheKeyOf toStr options) caches = Some stored"
    "stored \<noteq> []" by auto
  from buildSquirclePath_hit [OF s] call have "stored = path" by simp
  with s exact mem show ?thesis unfolding cachesExact_def by fast
next
  case False
  then have miss: "readCachedPath (cacheKeyOf toStr options) caches = None \<or>
                   readCachedPath (cacheKeyOf toStr options) caches = Some []"
    by blast
  from exact_pipeline [OF miss exact_for_call [OF free exact mem]] call
  show ?thesis by simp
qed

lemma exact_call_caches:
  assumes free: "collisionFree toStr inputs"
    and exact: "cachesExact toStr inputs caches"
    and mem: "options \<in> set inputs"
    and call: "buildSquirclePath toStr options caches = Some (path, caches')"
  shows "cachesExact toStr inputs caches'"
proof -
  have res: "buildSquirclePath_uncached toStr options = Some path"
    by (rule exact_call_result [OF free exact mem call])
  have paths: "buildSquirclePath_uncached toStr inp = Some p"
    if "inp \<in> set inputs" "readCachedPath (cacheKeyOf toStr inp) caches' = Some p" "p \<noteq> []"
    for inp p
  proof -
    from call_path_entries [OF call that(2)]
    consider "cacheKeyOf toStr inp = cacheKeyOf toStr options" "p = path"
      | "readCachedPath (cacheKeyOf toStr inp) caches = Some p" by blast
    then show ?thesis
    proof cases
      case 1
      from free that(1) mem 1(1)
      have "buildSquirclePath_uncached toStr inp = buildSquirclePath_uncached toStr options"
        unfolding collisionFree_def by fast
      with res 1(2) show ?thesis by simp
    next
      case 2
      with exact that(1,3) show ?thesis unfolding cachesExact_def by fast
    qed
  qed
  have profs: "computeCornerProfile_body r s pr b = Some prof"
    if "(r, s, pr, b) \<in> set (concat (map cornerRequests inputs))"
      "CORNER_PROFILE_CACHE caches' (cornerProfileCacheKey toStr r s pr b) = Some prof"
    for r s pr b prof
  proof -
    from call_profile_entries [OF call that(2)]
    consider "CORNER_PROFILE_CACHE caches (cornerProfileCacheKey toStr r s pr b) = Some prof"
      | r' s' pr' b' where "(r', s', pr', b') \<in> set (cornerRequests options)"
        "cornerProfileCacheKey toStr r s pr b = cornerProfileCacheKey toStr r' s' pr' b'"
        "computeCornerProfile_body r' s' pr' b' = Some prof"
      by blast
    then show ?thesis
    proof cases
      case 1
      with exact that(1) show ?thesis unfolding cachesExact_def by fast
    next
      case (2 r' s' pr' b')
      from 2(1) mem have "(r', s', pr', b') \<in> set (concat (map cornerRequests inputs))"
        by auto
      with free that(1) 2(2)
      have "computeCornerProfile_body r s pr b = computeCornerProfile_body r' s' pr' b'"
        unfolding collisionFree_def by fast
      with 2(3) show ?thesis by simp
    qed
  qed
  show ?thesis
    unfolding cachesExact_def using paths profs by blast
qed

lemma cachesExact_empty: "cachesExact toStr inputs emptyCaches"
  by (simp add: cachesExact_def)

lemma runCalls_exact:
  assumes "collisionFree toStr inputs"
  shows "set history \<subseteq> set inputs \<Longrightarrow> cachesExact toStr inputs caches \<Longrightarrow>
         runCalls toStr history caches = Some caches' \<Longrightarrow> cachesExact toStr inputs caches'"
proof (induction history arbitrary: caches)
  case Nil
  then show ?case by simp
next
  case (Cons options rest)
  from Cons.prems(3) obtain path c1 where
    call: "buildSquirclePath toStr options caches = Some (path, c1)"
    and rest: "runCalls toStr rest c1 = Some caches'"
    by (auto split: option.splits)
  from Cons.prems(1) have mem: "options \<in> set inputs" and sub: "set rest \<subseteq> set inputs"
    by simp_all
  from exact_call_caches [OF assms Cons.prems(2) mem call]
  have "cachesExact toStr inputs c1" .
  from Cons.IH [OF sub this rest] show ?case .
qed

lemma runCalls_total:
  "\<forall>inp \<in> set history. validInput inp \<Longrightarrow> \<exists>caches'. runCalls toStr history caches = Some caches'"
proof (induction history arbitrary: caches)
  case Nil
  then show ?case by simp
next
  case (Cons options rest)
  then have "validInput options" by simp
  from buildSquirclePath_total [OF this] obtain path c1 where
    "buildSquirclePath toStr options caches = Some (path, c1)" by blast
  moreover from Cons have "\<exists>caches'. runCalls toStr rest c1 = Some caches'" by simp
  ultimately show ?case by simp
qed

lemma toFixed2_200: "toFixed toStr 2 200 = ''200.00''"
  unfolding toFixed_def Let_def
  apply (simp del: digitsOf.simps)
  apply (simp add: digitsOf.simps digitChar_def)
  done

lemma keys_differ_by_height:
  "cacheKeyOf toStr (uniformInput 100 100 s r) \<noteq> cacheKeyOf toStr (uniformInput 100 200 s r)"
  by (simp add: cacheKeyOf_def composeCacheKey_def toFixed2_100 toFixed2_200)

lemma two_boxes_collisionFree:
  "collisionFree toStr
     [uniformInput 100 100 (3 / 5) 60, uniformInput 100 200 (3 / 5) 60,
      uniformInput 100 100 (3 / 5) 60]"
proof -
  have k: "cacheKeyOf toStr (uniformInput 100 100 (3 / 5) 60) \<noteq>
           cacheKeyOf toStr (uniformInput 100 200 (3 / 5) 60)"
    by (rule keys_differ_by_height)
  have rA: "cornerRequests (uniformInput 100 100 (3 / 5) 60) = [(50, 3 / 5, False, 50)]"
    by (simp add: cornerRequests_def profileRequests_def)
  have rB: "cornerRequests (uniformInput 100 200 (3 / 5) 60) = [(50, 3 / 5, False, 50)]"
    by (simp add: cornerRequests_def profileRequests_def)
  show ?thesis
    unfolding collisionFree_def using k by (simp add: rA rB)
qed
section \<open>Profiles stored under the key of other inputs\<close>

lemma toFixed2_20: "toFixed toStr 2 20 = ''20.00''"
  unfolding toFixed_def Let_def
  apply (simp del: digitsOf.simps)
  apply (simp add: digitsOf.simps digitChar_def)
  done

lemma toFixed2_20_0008: "toFixed toStr 2 (25001 / 1250) = ''20.00''"
  unfolding toFixed_def Let_def
  apply (simp del: digitsOf.simps)
  apply (simp add: digitsOf.simps digitChar_def)
  done

lemma toFixed2_50: "toFixed toStr 2 50 = ''50.00''"
  unfolding toFixed_def Let_def
  apply (simp del: digitsOf.simps)
  apply (simp add: digitsOf.simps digitChar_def)
  done

lemma toFixed3_10: "toFixed toStr 3 10 = ''10.000''"
  unfolding toFixed_def Let_def
  apply (simp del: digitsOf.simps)
  apply (simp add: digitsOf.simps digitChar_def)
  apply (simp add: eval_nat_numeral)?
  done

lemma toFixed3_10c: "toFixed toStr 3 (200009 / 20000) = ''10.000''"
  unfolding toFixed_def Let_def
  apply (simp del: digitsOf.simps)
  apply (simp add: digitsOf.simps digitChar_def)
  apply (simp add: eval_nat_numeral)?
  done

lemma toFixed4_half: "toFixed toStr 4 (1 / 2) = ''0.5000''"
  unfolding toFixed_def Let_def
  apply (simp del: digitsOf.simps)
  apply (simp add: digitsOf.simps digitChar_def)
  apply (simp add: eval_nat_numeral)?
  done

lemma toFixed4_50006: "toFixed toStr 4 (25003 / 50000) = ''0.5001''"
  unfolding toFixed_def Let_def
  apply (simp del: digitsOf.simps)
  apply (simp add: digitsOf.simps digitChar_def)
  apply (simp add: eval_nat_numeral)?
  done

lemma decimalString_10: "decimalString 10 = ''10''"
  unfolding decimalString_def by (simp add: digitsOf.simps digitChar_def)

lemma decimalString_9_9996: "decimalString (24999 / 2500) = ''9.9996''"
proof -
  have a: "\<bar>24999 / 2500 :: real\<bar> = 24999 / 2500" by simp
  have fl: "\<lfloor>24999 / 2500 :: real\<rfloor> = 9" by simp
  have fr: "frac (24999 / 2500 :: real) = 2499 / 2500" by (simp add: frac_def)
  have d: "digitsOf 9 = ''9''" by (simp add: digitsOf.simps digitChar_def)
  have f: "fracDigits 20 (2499 / 2500) = ''9996''"
    by (simp add: fracDigits_numeral digitChar_def)
  show ?thesis
    unfolding decimalString_def a fl fr by (simp add: d f)
qed


lemma body_arcSection:
  assumes "computeCornerProfile_body r s False b = Some prof" "0 < r" "0 < b"
    and "clampSmoothing r s False b = Some (s', p)"
  shows "patch_arcSectionLength prof = sin (degToRad (arcMeasureOf s' / 2)) * r * sqrt 2"
  using assms by (auto simp: computeCornerProfile_body_def Let_def)

lemma stale_profile_above_budget:
  "\<exists>pathF cachesF prof caches'.
     buildSquirclePath decimalString (uniformInput (25001 / 1250) 50 0 60) emptyCaches =
       Some (pathF, cachesF) \<and>
     buildSquirclePath decimalString (uniformInput 20 20 0 60) cachesF =
       Some (joinCornerProfiles decimalString
               \<lparr>pathWidth = 20, pathHeight = 20,
                topLeftPathParams = prof, topRightPathParams = prof,
                bottomLeftPathParams = prof, bottomRightPathParams = prof\<rparr>, caches') \<and>
     patch_cornerRadius prof = 25001 / 2500 \<and> patch_p prof = 25001 / 2500"
proof -
  let ?F = "uniformInput (25001 / 1250) 50 0 60" and ?G = "uniformInput 20 20 0 60"
  let ?key = "cornerProfileCacheKey decimalString (25001 / 2500) 0 False (25001 / 2500)"
  obtain prof where body: "computeCornerProfile_body (25001 / 2500) 0 False (25001 / 2500) = Some prof"
    and comp: "computeCornerProfile decimalString (25001 / 2500) 0 False (25001 / 2500) emptyCaches =
      Some (prof, emptyCaches\<lparr>CORNER_PROFILE_CACHE := (CORNER_PROFILE_CACHE emptyCaches)(?key \<mapsto> prof)\<rparr>)"
    using computeCornerProfile_miss [of emptyCaches decimalString "25001 / 2500" 0 False "25001 / 2500"]
    by auto
  let ?c1 = "emptyCaches\<lparr>CORNER_PROFILE_CACHE := (CORNER_PROFILE_CACHE emptyCaches)(?key \<mapsto> prof)\<rparr>"
  let ?pathF = "joinCornerProfiles decimalString
              \<lparr>pathWidth = 25001 / 1250, pathHeight = 50,
               topLeftPathParams = prof, topRightPathParams = prof,
               bottomLeftPathParams = prof, bottomRightPathParams = prof\<rparr>"
  let ?cachesF = "storeCachedPath (cacheKeyOf decimalString ?F) ?pathF ?c1"
  have rad: "patch_cornerRadius prof = 25001 / 2500"
    using body_cornerRadius [OF body] by simp
  have p: "patch_p prof = 25001 / 2500"
    using body_footprint [OF body] by simp
  have first: "buildSquirclePath decimalString ?F emptyCaches = Some (?pathF, ?cachesF)"
    using equal_radii_call [of ?F 60 decimalString emptyCaches] comp by simp
  have keys: "cacheKeyOf decimalString ?G \<noteq> cacheKeyOf decimalString ?F"
    by (simp add: cacheKeyOf_def composeCacheKey_def toFixed2_20 toFixed2_20_0008 toFixed2_50)
  have miss: "readCachedPath (cacheKeyOf decimalString ?G) ?cachesF = None"
  proof (cases "readCachedPath (cacheKeyOf decimalString ?G) ?cachesF")
    case None
    then show ?thesis .
  next
    case (Some stored)
    from read_store_other [OF keys Some] show ?thesis
      by (simp add: readCachedPath_def emptyCaches_def)
  qed
  have key: "cornerProfileCacheKey decimalString 10 0 False 10 = ?key"
    by (simp add: cornerProfileCacheKey_def toFixed3_10 toFixed3_10a)
  have hit: "computeCornerProfile decimalString 10 0 False 10 ?cachesF = Some (prof, ?cachesF)"
    by (rule computeCornerProfile_hit) (simp only: key store_keeps_profiles, simp)
  have "\<exists>caches'. buildSquirclePath decimalString ?G ?cachesF =
      Some (joinCornerProfiles decimalString
               \<lparr>pathWidth = 20, pathHeight = 20,
                topLeftPathParams = prof, topRightPathParams = prof,
                bottomLeftPathParams = prof, bottomRightPathParams = prof\<rparr>, caches')"
    using equal_radii_call [of ?G 60 decimalString ?cachesF] miss hit by simp
  with first rad p show ?thesis by blast
qed

lemma stale_footprint:
  "\<exists>prof0 c0 prof2 c2.
     computeCornerProfile decimalString (200009 / 20000) (1 / 2) False 20 emptyCaches =
       Some (prof0, c0) \<and>
     computeCornerProfile decimalString 10 (1 / 2) False 20 c0 = Some (prof0, c0) \<and>
     patch_p prof0 = 600027 / 40000 \<and>
     computeCornerProfile decimalString 10 (25003 / 50000) False 20 c0 = Some (prof2, c2) \<and>
     patch_p prof2 = 75003 / 5000"
proof -
  let ?key = "cornerProfileCacheKey decimalString (200009 / 20000) (1 / 2) False 20"
  obtain prof0 where body0: "computeCornerProfile_body (200009 / 20000) (1 / 2) False 20 = Some prof0"
    and first: "computeCornerProfile decimalString (200009 / 20000) (1 / 2) False 20 emptyCaches =
      Some (prof0, emptyCaches\<lparr>CORNER_PROFILE_CACHE := (CORNER_PROFILE_CACHE emptyCaches)(?key \<mapsto> prof0)\<rparr>)"
    using computeCornerProfile_miss [of emptyCaches decimalString "200009 / 20000" "1 / 2" False 20]
    by auto
  let ?c0 = "emptyCaches\<lparr>CORNER_PROFILE_CACHE := (CORNER_PROFILE_CACHE emptyCaches)(?key \<mapsto> prof0)\<rparr>"
  have p0: "patch_p prof0 = 600027 / 40000"
    using body_footprint [OF body0] by simp
  have key: "cornerProfileCacheKey decimalString 10 (1 / 2) False 20 = ?key"
    by (simp add: cornerProfileCacheKey_def toFixed3_10 toFixed3_10c)
  have hit: "computeCornerProfile decimalString 10 (1 / 2) False 20 ?c0 = Some (prof0, ?c0)"
    by (rule computeCornerProfile_hit) (simp only: key, simp)
  have other: "cornerProfileCacheKey decimalString 10 (25003 / 50000) False 20 \<noteq> ?key"
    by (simp add: cornerProfileCacheKey_def toFixed3_10 toFixed3_10c toFixed4_half toFixed4_50006)
  then have none: "CORNER_PROFILE_CACHE ?c0
      (cornerProfileCacheKey decimalString 10 (25003 / 50000) False 20) = None"
    by simp
  from computeCornerProfile_miss [OF none] obtain prof2 c2 where
    body2: "computeCornerProfile_body 10 (25003 / 50000) False 20 = Some prof2"
    and second: "computeCornerProfile decimalString 10 (25003 / 50000) False 20 ?c0 = Some (prof2, c2)"
    by blast
  have p2: "patch_p prof2 = 75003 / 5000"
    using body_footprint [OF body2] by simp
  from first hit p0 second p2 show ?thesis by blast
qed

section \<open>The claims\<close>

subsection \<open>C10: a second call with the same key returns the stored string\<close>

text \<open>
  C10. When a call of \<^verbatim>\<open>buildSquirclePath\<close> is followed by a call whose input produces
  the same cache key (the same preserve flag; width, height, base radius and the four
  corner radii equal after rounding to 2 decimals; smoothing equal after rounding to 4
  decimals), the second call returns exactly the string the first call returned and left
  in the path cache, and it leaves both caches as they are: nothing is computed again,
  whatever the raw numbers of the second input are.
\<close>

theorem C10_same_key_returns_stored_path:
  assumes "buildSquirclePath toStr options1 caches = Some (path1, caches1)"
    and "preserveOf options2 = preserveOf options1"
    and "toFixed toStr 2 (width options2) = toFixed toStr 2 (width options1)"
    and "toFixed toStr 2 (height options2) = toFixed toStr 2 (height options1)"
    and "toFixed toStr 4 (cornerSmoothing options2) = toFixed toStr 4 (cornerSmoothing options1)"
    and "toFixed toStr 2 (baseRadiusOf options2) = toFixed toStr 2 (baseRadiusOf options1)"
    and "toFixed toStr 2 (radiusTL options2) = toFixed toStr 2 (radiusTL options1)"
    and "toFixed toStr 2 (radiusTR options2) = toFixed toStr 2 (radiusTR options1)"
    and "toFixed toStr 2 (radiusBR options2) = toFixed toStr 2 (radiusBR options1)"
    and "toFixed toStr 2 (radiusBL options2) = toFixed toStr 2 (radiusBL options1)"
  shows "readCachedPath (cacheKeyOf toStr options1) caches1 = Some path1 \<and>
         buildSquirclePath toStr options2 caches1 = Some (path1, caches1)"
proof
  show "readCachedPath (cacheKeyOf toStr options1) caches1 = Some path1"
    by (rule buildSquirclePath_stored [OF assms(1)])
  have "cacheKeyOf toStr options2 = cacheKeyOf toStr options1"
    using assms(2-) by (simp add: cacheKeyOf_def composeCacheKey_def)
  then show "buildSquirclePath toStr options2 caches1 = Some (path1, caches1)"
    by (rule second_call_hits [OF assms(1)])
qed

text \<open>
  Witness: a rectangle of width 100.004 is requested first, then one of width 100; the
  widths differ but both print as \<^verbatim>\<open>100.00\<close> in the key.
\<close>

theorem C10_same_key_witness:
  "width (uniformInput 100 100 0 0) \<noteq> width (uniformInput (100004 / 1000) 100 0 0) \<and>
   buildSquirclePath decimalString (uniformInput 100 100 0 0)
     (snd (the (buildSquirclePath decimalString (uniformInput (100004 / 1000) 100 0 0) emptyCaches)))
   = buildSquirclePath decimalString (uniformInput (100004 / 1000) 100 0 0) emptyCaches"
proof -
  let ?first = "uniformInput (100004 / 1000) 100 0 0"
  obtain path1 caches1 where
    first: "buildSquirclePath decimalString ?first emptyCaches = Some (path1, caches1)"
    using zero_radii_call [of ?first decimalString emptyCaches] by simp
  have "buildSquirclePath decimalString (uniformInput 100 100 0 0) caches1 = Some (path1, caches1)"
    using C10_same_key_returns_stored_path [OF first, of "uniformInput 100 100 0 0"]
    by (simp add: toFixed2_100 toFixed2_100_004)
  with first show ?thesis by simp
qed

subsection \<open>C5: the rectangle\<close>

text \<open>
  C5 as stated: whenever the four resolved radii are 0, the call returns the rectangle
  string of its own width and height. It fails on a hit of the path cache: after a call
  with radius 0.004 on the 100 by 100 box, whose key prints the radius as \<^verbatim>\<open>0.00\<close>,
  the call with radius 0 returns the curved path stored by that call.
\<close>

theorem C5_rectangle_counterexample:
  "radiusTL (uniformInput 100 100 0 0) = 0 \<and> radiusTR (uniformInput 100 100 0 0) = 0 \<and>
   radiusBR (uniformInput 100 100 0 0) = 0 \<and> radiusBL (uniformInput 100 100 0 0) = 0 \<and>
   map_option fst
     (buildSquirclePath decimalString (uniformInput 100 100 0 0)
        (snd (the (buildSquirclePath decimalString (uniformInput 100 100 0 (4 / 1000)) emptyCaches))))
   \<noteq> Some (''M '' @ decimalString 100 @ '' 0 L '' @ decimalString 100 @ '' '' @
              decimalString 100 @ '' L 0 '' @ decimalString 100 @ '' L 0 0 Z'')"
proof -
  obtain pathA cachesA where
    first: "buildSquirclePath decimalString (uniformInput 100 100 0 (4 / 1000)) emptyCaches =
       Some (pathA, cachesA)"
    and c: "CHR ''c'' \<in> set pathA"
    and second: "buildSquirclePath decimalString (uniformInput 100 100 0 0) cachesA =
       Some (pathA, cachesA)"
    using stale_curved_path by blast
  have "CHR ''c'' \<notin> set (''M '' @ decimalString 100 @ '' 0 L '' @ decimalString 100 @ '' '' @
              decimalString 100 @ '' L 0 '' @ decimalString 100 @ '' L 0 0 Z'')"
    by (simp add: decimalString_100)
  with c have "pathA \<noteq> ''M '' @ decimalString 100 @ '' 0 L '' @ decimalString 100 @ '' '' @
              decimalString 100 @ '' L 0 '' @ decimalString 100 @ '' L 0 0 Z''"
    by metis
  with first second show ?thesis by simp
qed

text \<open>
  C5 amended: when the four resolved radii are 0 and the path cache holds no non-empty
  string under the key of the call, \<^verbatim>\<open>buildSquirclePath\<close> returns exactly
  \<^verbatim>\<open>M <width> 0 L <width> <height> L 0 <height> L 0 0 Z\<close> with the width and height of
  the call as the default conversion prints them, and stores it under the key; when the
  cache holds a non-empty string under the key, the call returns that string.
\<close>

theorem C5_rectangle_unless_cached:
  fixes toStr :: "real \<Rightarrow> string" and options :: SquirclePathInput
  defines "rectangle \<equiv>
     ''M '' @ toStr (width options) @ '' 0 L '' @ toStr (width options) @ '' '' @
     toStr (height options) @ '' L 0 '' @ toStr (height options) @ '' L 0 0 Z''"
  assumes "radiusTL options = 0" "radiusTR options = 0" "radiusBR options = 0"
    "radiusBL options = 0"
  shows "(readCachedPath (cacheKeyOf toStr options) caches = None \<or>
          readCachedPath (cacheKeyOf toStr options) caches = Some []
          \<longrightarrow> buildSquirclePath toStr options caches =
                Some (rectangle, storeCachedPath (cacheKeyOf toStr options) rectangle caches)) \<and>
         (\<forall>stored. readCachedPath (cacheKeyOf toStr options) caches = Some stored \<and> stored \<noteq> []
          \<longrightarrow> buildSquirclePath toStr options caches = Some (stored, caches))"
proof (intro conjI impI allI)
  assume "readCachedPath (cacheKeyOf toStr options) caches = None \<or>
          readCachedPath (cacheKeyOf toStr options) caches = Some []"
  then show "buildSquirclePath toStr options caches =
     Some (rectangle, storeCachedPath (cacheKeyOf toStr options) rectangle caches)"
    unfolding rectangle_def using assms(2-5) by (rule zero_radii_call [rotated 4])
next
  fix stored
  assume "readCachedPath (cacheKeyOf toStr options) caches = Some stored \<and> stored \<noteq> []"
  then show "buildSquirclePath toStr options caches = Some (stored, caches)"
    by (simp add: buildSquirclePath_hit)
qed

theorem C5_rectangle_witness:
  "buildSquirclePath decimalString (uniformInput 100 100 0 0) emptyCaches =
     Some (''M 100 0 L 100 100 L 0 100 L 0 0 Z'',
           storeCachedPath (cacheKeyOf decimalString (uniformInput 100 100 0 0))
             ''M 100 0 L 100 100 L 0 100 L 0 0 Z'' emptyCaches)"
  using C5_rectangle_unless_cached [of "uniformInput 100 100 0 0" decimalString emptyCaches]
  by (simp add: decimalString_100)

subsection \<open>C6: two adjacent corners without radius\<close>

text \<open>
  C6 as stated: when a corner and its neighbour on an edge both request radius 0, that
  edge contributes its own length to the minimum. The code returns 0 instead (line
  275): on the 100 by 100 box with only the bottom-right radius set, the top edge
  contributes 0 to the top-left corner, not 100.
\<close>

theorem C6_edge_term_counterexample:
  "adjacentTerm 100 100 (initialRadiusMap 0 0 40 0) (\<lambda>corner. - 1) 0 (topRight, top_edge)
   \<noteq> Some 100"
  by (simp add: adjacentTerm_def initialRadiusMap_def)

text \<open>
  C6 amended: when a corner and its neighbour on an edge both have radius 0 (the
  neighbour's as the radius map holds it at that moment), that edge contributes the
  constant 0 to the minimum, so the budget the corner receives is at most 0.
\<close>

theorem C6_both_zero_contributes_zero:
  assumes "radiusMap adjacentCorner = 0"
  shows "adjacentTerm w h radiusMap budgetMap 0 (adjacentCorner, side) = Some 0 \<and>
         ((adjacentCorner, side) \<in> set (ADJACENT_RELATIONS corner) \<longrightarrow>
          resolveCorner w h (corner, 0) (radiusMap, budgetMap) = Some (radiusMap', budgetMap') \<longrightarrow>
          budgetMap' corner \<le> 0)"
proof (intro conjI impI)
  show zero: "adjacentTerm w h radiusMap budgetMap 0 (adjacentCorner, side) = Some 0"
    using assms by (simp add: adjacentTerm_def)
  assume adj: "(adjacentCorner, side) \<in> set (ADJACENT_RELATIONS corner)"
    and res: "resolveCorner w h (corner, 0) (radiusMap, budgetMap) = Some (radiusMap', budgetMap')"
  obtain x y where two: "ADJACENT_RELATIONS corner = [x, y]"
    by (cases corner) (simp_all add: ADJACENT_RELATIONS_def)
  with adj have which: "x = (adjacentCorner, side) \<or> y = (adjacentCorner, side)" by auto
  from res two obtain tx ty where
    tx: "adjacentTerm w h radiusMap budgetMap 0 x = Some tx"
    and ty: "adjacentTerm w h radiusMap budgetMap 0 y = Some ty"
    and b: "budgetMap' corner = min ty tx"
    by (auto simp: resolveCorner_def split: Option.bind_splits option.splits)
  from which zero tx ty have "tx = 0 \<or> ty = 0" by auto
  with b show "budgetMap' corner \<le> 0" by auto
qed

theorem C6_both_zero_witness:
  "adjacentTerm 100 100 (initialRadiusMap 0 0 40 0) (\<lambda>corner. - 1) 0 (topRight, top_edge) = Some 0 \<and>
   (case resolveCorner 100 100 (topLeft, 0) (initialRadiusMap 0 0 40 0, \<lambda>corner. - 1) of
      None \<Rightarrow> False
    | Some (radiusMap', budgetMap') \<Rightarrow> budgetMap' topLeft \<le> 0)"
proof -
  have r: "initialRadiusMap 0 0 40 0 topRight = 0" by (simp add: initialRadiusMap_def)
  obtain radiusMap' budgetMap' where res:
    "resolveCorner 100 100 (topLeft, 0) (initialRadiusMap 0 0 40 0, \<lambda>corner. - 1) =
       Some (radiusMap', budgetMap')"
    by (simp add: resolveCorner_def ADJACENT_RELATIONS_def adjacentTerm_def initialRadiusMap_def)
  have adj: "(topRight, top_edge) \<in> set (ADJACENT_RELATIONS topLeft)"
    by (simp add: ADJACENT_RELATIONS_def)
  show ?thesis
    using r res adj C6_both_zero_contributes_zero [where radiusMap = "initialRadiusMap 0 0 40 0"
        and adjacentCorner = topRight and w = 100 and h = 100 and budgetMap = "\<lambda>corner. - 1"
        and side = top_edge and corner = topLeft and radiusMap' = radiusMap'
        and budgetMap' = budgetMap']
    by simp
qed

subsection \<open>C4: the fast path for four equal radii\<close>

text \<open>
  C4 as stated: with four equal radii that are not zero, every corner is drawn with
  budget \<open>min(width, height) / 2\<close> and radius \<open>min(requested, budget)\<close>, a larger
  request being clamped before the profile is computed. It fails where a cache answers
  under a rounded key. After the call with radius 60 on the 20.0008 by 50 box, which
  caches the profile of radius 10.0004 and budget 10.0004 under the key
  \<^verbatim>\<open>10.000|0.0000|0|10.000\<close>, the call with radius 60 on the 20 by 20 box misses the
  path cache, requests radius 10 with budget 10 under the same key, and draws all four
  corners with the stored profile: corner radius 10.0004, above the budget 10, and a
  path that starts with \<^verbatim>\<open>M 9.9996 0\<close> where the uncached pipeline gives \<^verbatim>\<open>M 10 0\<close>.
\<close>

theorem C4_clamp_counterexample:
  "case buildSquirclePath decimalString (uniformInput 20 20 0 60)
          (snd (the (buildSquirclePath decimalString (uniformInput (200008 / 10000) 50 0 60)
             emptyCaches))) of
     None \<Rightarrow> False
   | Some (path, caches') \<Rightarrow>
       (\<exists>profile. path = joinCornerProfiles decimalString
                     \<lparr>pathWidth = 20, pathHeight = 20,
                      topLeftPathParams = profile, topRightPathParams = profile,
                      bottomLeftPathParams = profile, bottomRightPathParams = profile\<rparr> \<and>
                   patch_cornerRadius profile = 100004 / 10000 \<and>
                   min 60 (min 20 20 / 2) < patch_cornerRadius profile) \<and>
       take 10 path = ''M 9.9996 0'' \<and>
       Some path \<noteq> buildSquirclePath_uncached decimalString (uniformInput 20 20 0 60)"
proof -
  obtain pathF cachesF prof caches' where
    first: "buildSquirclePath decimalString (uniformInput (25001 / 1250) 50 0 60) emptyCaches =
       Some (pathF, cachesF)"
    and second: "buildSquirclePath decimalString (uniformInput 20 20 0 60) cachesF =
       Some (joinCornerProfiles decimalString
               \<lparr>pathWidth = 20, pathHeight = 20,
                topLeftPathParams = prof, topRightPathParams = prof,
                bottomLeftPathParams = prof, bottomRightPathParams = prof\<rparr>, caches')"
    and rad: "patch_cornerRadius prof = 25001 / 2500"
    and p: "patch_p prof = 25001 / 2500"
    using stale_profile_above_budget by blast
  let ?params = "\<lparr>pathWidth = 20, pathHeight = 20,
                topLeftPathParams = prof, topRightPathParams = prof,
                bottomLeftPathParams = prof, bottomRightPathParams = prof\<rparr>"
  obtain rest where "joinCornerProfiles decimalString ?params =
      ''M '' @ decimalString (pathWidth ?params - patch_p (topRightPathParams ?params)) @
      '' 0 '' @ rest"
    using joinCornerProfiles_move by blast
  then have path: "joinCornerProfiles decimalString ?params = ''M 9.9996 0 '' @ rest"
    by (simp add: p decimalString_9_9996)
  obtain prof10 where body10: "computeCornerProfile_body 10 0 False 10 = Some prof10"
    using body_total by blast
  have p10: "patch_p prof10 = 10"
    using body_footprint [OF body10] by simp
  let ?params10 = "\<lparr>pathWidth = 20, pathHeight = 20,
                topLeftPathParams = prof10, topRightPathParams = prof10,
                bottomLeftPathParams = prof10, bottomRightPathParams = prof10\<rparr>"
  have un: "buildSquirclePath_uncached decimalString (uniformInput 20 20 0 60) =
      Some (joinCornerProfiles decimalString ?params10)"
    by (simp add: buildSquirclePath_uncached_def pathParams_uncached_def Let_def body10)
  obtain rest10 where "joinCornerProfiles decimalString ?params10 =
      ''M '' @ decimalString (pathWidth ?params10 - patch_p (topRightPathParams ?params10)) @
      '' 0 '' @ rest10"
    using joinCornerProfiles_move by blast
  then have path10: "joinCornerProfiles decimalString ?params10 = ''M 10 0 '' @ rest10"
    by (simp add: p10 decimalString_10)
  have differ: "joinCornerProfiles decimalString ?params \<noteq> joinCornerProfiles decimalString ?params10"
    unfolding path path10 by simp
  have tk: "take 10 (joinCornerProfiles decimalString ?params) = ''M 9.9996 0''"
    unfolding path by simp
  have ex: "\<exists>profile. joinCornerProfiles decimalString ?params =
                   joinCornerProfiles decimalString
                     \<lparr>pathWidth = 20, pathHeight = 20,
                      topLeftPathParams = profile, topRightPathParams = profile,
                      bottomLeftPathParams = profile, bottomRightPathParams = profile\<rparr> \<and>
                   patch_cornerRadius profile = 100004 / 10000 \<and>
                   min 60 (min 20 20 / 2) < patch_cornerRadius profile"
    using rad by (intro exI [of _ prof]) simp
  have f: "(200008 / 10000 :: real) = 25001 / 1250" by simp
  show ?thesis
    unfolding f by (simp only: first second un option.sel snd_conv option.case prod.case
        ex tk differ option.inject simp_thms)
qed

text \<open>
  C4 amended: when the four resolved radii are equal and not zero, \<^verbatim>\<open>buildSquirclePath\<close>
  never runs the normalizer. If the path cache holds a non-empty string under the key of
  the call, that string is returned. Otherwise one corner profile is requested, with
  budget \<open>min(width, height) / 2\<close> and radius \<open>min(requested, budget)\<close>, and used for all
  four corners. If the corner-profile cache has no entry under the rounded key of that
  request, the profile is computed from exactly this radius and budget: its corner radius
  is \<open>min(requested, budget)\<close> (0 when radius or budget is not positive), never above the
  budget, and its footprint is \<open>min((1 + smoothing) radius, budget)\<close>. If the cache has an
  entry under the key, the stored profile is used as it is.
\<close>

theorem C4_equal_radii_unless_cached:
  fixes toStr :: "real \<Rightarrow> string" and options :: SquirclePathInput and r :: real
  defines "budget \<equiv> min (width options) (height options) / 2"
    and "pathOf \<equiv> \<lambda>profile. joinCornerProfiles toStr
           \<lparr>pathWidth = width options, pathHeight = height options,
            topLeftPathParams = profile, topRightPathParams = profile,
            bottomLeftPathParams = profile, bottomRightPathParams = profile\<rparr>"
  defines "key \<equiv> cornerProfileCacheKey toStr (min r budget) (cornerSmoothing options)
                   (preserveOf options) budget"
  assumes "radiusTL options = r" "radiusTR options = r" "radiusBR options = r"
    "radiusBL options = r" "r \<noteq> 0"
  shows "(\<forall>stored. readCachedPath (cacheKeyOf toStr options) caches = Some stored \<and> stored \<noteq> []
            \<longrightarrow> buildSquirclePath toStr options caches = Some (stored, caches)) \<and>
         (readCachedPath (cacheKeyOf toStr options) caches = None \<or>
          readCachedPath (cacheKeyOf toStr options) caches = Some []
            \<longrightarrow> (\<forall>cached. CORNER_PROFILE_CACHE caches key = Some cached
                    \<longrightarrow> buildSquirclePath toStr options caches =
                          Some (pathOf cached,
                                storeCachedPath (cacheKeyOf toStr options) (pathOf cached) caches)) \<and>
                (CORNER_PROFILE_CACHE caches key = None
                    \<longrightarrow> (\<exists>profile.
                          computeCornerProfile_body (min r budget) (cornerSmoothing options)
                            (preserveOf options) budget = Some profile \<and>
                          patch_cornerRadius profile =
                            (if r \<le> 0 \<or> budget \<le> 0 then 0 else min r budget) \<and>
                          patch_cornerRadius profile \<le> max 0 budget \<and>
                          patch_p profile =
                            (if r \<le> 0 \<or> budget \<le> 0 then 0
                             else min ((1 + cornerSmoothing options) * min r budget) budget) \<and>
                          buildSquirclePath toStr options caches =
                            Some (pathOf profile,
                                  storeCachedPath (cacheKeyOf toStr options) (pathOf profile)
                                    (caches\<lparr>CORNER_PROFILE_CACHE :=
                                       (CORNER_PROFILE_CACHE caches)(key \<mapsto> profile)\<rparr>)))))"
proof (intro conjI impI allI)
  fix stored
  assume "readCachedPath (cacheKeyOf toStr options) caches = Some stored \<and> stored \<noteq> []"
  then show "buildSquirclePath toStr options caches = Some (stored, caches)"
    by (simp add: buildSquirclePath_hit)
next
  fix cached
  assume miss: "readCachedPath (cacheKeyOf toStr options) caches = None \<or>
                readCachedPath (cacheKeyOf toStr options) caches = Some []"
    and hit: "CORNER_PROFILE_CACHE caches key = Some cached"
  have "computeCornerProfile toStr (min r budget) (cornerSmoothing options)
          (preserveOf options) budget caches = Some (cached, caches)"
    using hit unfolding key_def by (rule computeCornerProfile_hit)
  then show "buildSquirclePath toStr options caches =
      Some (pathOf cached, storeCachedPath (cacheKeyOf toStr options) (pathOf cached) caches)"
    using equal_radii_call [OF assms(4-8) miss] by (simp add: budget_def pathOf_def)
next
  assume miss: "readCachedPath (cacheKeyOf toStr options) caches = None \<or>
                readCachedPath (cacheKeyOf toStr options) caches = Some []"
    and none: "CORNER_PROFILE_CACHE caches key = None"
  from computeCornerProfile_miss [OF none [unfolded key_def]] obtain profile where
    body: "computeCornerProfile_body (min r budget) (cornerSmoothing options)
             (preserveOf options) budget = Some profile"
    and run: "computeCornerProfile toStr (min r budget) (cornerSmoothing options)
             (preserveOf options) budget caches =
           Some (profile, caches\<lparr>CORNER_PROFILE_CACHE :=
                   (CORNER_PROFILE_CACHE caches)(key \<mapsto> profile)\<rparr>)"
    unfolding key_def by blast
  have rad: "patch_cornerRadius profile = (if r \<le> 0 \<or> budget \<le> 0 then 0 else min r budget)"
    using body_cornerRadius [OF body] by (auto simp: min_def)
  then have le: "patch_cornerRadius profile \<le> max 0 budget"
    by (auto simp: min_def max_def)
  have p: "patch_p profile =
      (if r \<le> 0 \<or> budget \<le> 0 then 0
       else min ((1 + cornerSmoothing options) * min r budget) budget)"
    using body_footprint [OF body] by (auto simp: min_def)
  have call: "buildSquirclePath toStr options caches =
      Some (pathOf profile,
            storeCachedPath (cacheKeyOf toStr options) (pathOf profile)
              (caches\<lparr>CORNER_PROFILE_CACHE := (CORNER_PROFILE_CACHE caches)(key \<mapsto> profile)\<rparr>))"
    using equal_radii_call [OF assms(4-8) miss] run by (simp add: budget_def pathOf_def)
  from body rad le p call
  show "\<exists>profile.
          computeCornerProfile_body (min r budget) (cornerSmoothing options)
            (preserveOf options) budget = Some profile \<and>
          patch_cornerRadius profile = (if r \<le> 0 \<or> budget \<le> 0 then 0 else min r budget) \<and>
          patch_cornerRadius profile \<le> max 0 budget \<and>
          patch_p profile =
            (if r \<le> 0 \<or> budget \<le> 0 then 0
             else min ((1 + cornerSmoothing options) * min r budget) budget) \<and>
          buildSquirclePath toStr options caches =
            Some (pathOf profile,
                  storeCachedPath (cacheKeyOf toStr options) (pathOf profile)
                    (caches\<lparr>CORNER_PROFILE_CACHE :=
                       (CORNER_PROFILE_CACHE caches)(key \<mapsto> profile)\<rparr>))"
    by blast
qed

text \<open>Witness: radius 60 on the 100 by 100 box is computed as radius 50 with budget 50.\<close>

theorem C4_equal_radii_witness:
  "\<exists>profile.
     computeCornerProfile_body 50 (3 / 5) False 50 = Some profile \<and>
     patch_cornerRadius profile = 50 \<and>
     patch_cornerRadius profile \<le> 50 \<and>
     patch_p profile = 50 \<and>
     buildSquirclePath decimalString (uniformInput 100 100 (3 / 5) 60) emptyCaches =
       Some (joinCornerProfiles decimalString
               \<lparr>pathWidth = 100, pathHeight = 100,
                topLeftPathParams = profile, topRightPathParams = profile,
                bottomLeftPathParams = profile, bottomRightPathParams = profile\<rparr>,
             storeCachedPath (cacheKeyOf decimalString (uniformInput 100 100 (3 / 5) 60))
               (joinCornerProfiles decimalString
                  \<lparr>pathWidth = 100, pathHeight = 100,
                   topLeftPathParams = profile, topRightPathParams = profile,
                   bottomLeftPathParams = profile, bottomRightPathParams = profile\<rparr>)
               (emptyCaches\<lparr>CORNER_PROFILE_CACHE :=
                  (CORNER_PROFILE_CACHE emptyCaches)
                    (cornerProfileCacheKey decimalString 50 (3 / 5) False 50 \<mapsto> profile)\<rparr>))"
  using C4_equal_radii_unless_cached [where options = "uniformInput 100 100 (3 / 5) 60"
      and r = 60 and toStr = decimalString and caches = emptyCaches]
  by simp

subsection \<open>C8: degenerate corners\<close>

text \<open>
  C8 as stated: for every input with radius \<open>\<le> 0\<close> or budget \<open>\<le> 0\<close>,
  \<^verbatim>\<open>computeCornerProfile\<close> returns the all-zero profile. It fails on a hit of the
  corner-profile cache, whose key rounds radius and budget to 3 decimals: once the
  profile of radius 0.0004 and budget 10 is cached, the call with radius 0 and budget 10
  has the same key and returns that profile, whose corner radius is 0.0004.
\<close>

theorem C8_degenerate_counterexample:
  "map_option fst
     (computeCornerProfile decimalString 0 0 False 10
        (snd (the (computeCornerProfile decimalString (4 / 10000) 0 False 10 emptyCaches))))
   \<noteq> Some \<lparr>patch_a = 0, patch_b = 0, patch_c = 0, patch_d = 0, patch_p = 0,
             patch_cornerRadius = 0, patch_arcSectionLength = 0\<rparr>"
proof -
  let ?key = "cornerProfileCacheKey decimalString (4 / 10000) 0 False 10"
  obtain prof where body: "computeCornerProfile_body (4 / 10000) 0 False 10 = Some prof"
    and first: "computeCornerProfile decimalString (4 / 10000) 0 False 10 emptyCaches =
      Some (prof, emptyCaches\<lparr>CORNER_PROFILE_CACHE := (CORNER_PROFILE_CACHE emptyCaches)(?key \<mapsto> prof)\<rparr>)"
    using computeCornerProfile_miss [of emptyCaches decimalString "4 / 10000" 0 False 10] by auto
  have rad: "patch_cornerRadius prof = 4 / 10000"
    using body_cornerRadius [OF body] by simp
  have key: "cornerProfileCacheKey decimalString 0 0 False 10 = ?key"
    by (simp add: cornerProfileCacheKey_def toFixed3_0 toFixed3_tiny)
  have "computeCornerProfile decimalString 0 0 False 10
          (emptyCaches\<lparr>CORNER_PROFILE_CACHE := (CORNER_PROFILE_CACHE emptyCaches)(?key \<mapsto> prof)\<rparr>)
        = Some (prof, emptyCaches\<lparr>CORNER_PROFILE_CACHE := (CORNER_PROFILE_CACHE emptyCaches)(?key \<mapsto> prof)\<rparr>)"
    by (rule computeCornerProfile_hit) (simp add: key)
  moreover have "prof \<noteq> \<lparr>patch_a = 0, patch_b = 0, patch_c = 0, patch_d = 0, patch_p = 0,
             patch_cornerRadius = 0, patch_arcSectionLength = 0\<rparr>"
    using rad by auto
  ultimately show ?thesis using first by simp
qed

text \<open>
  C8 amended: for every input with radius \<open>\<le> 0\<close> or budget \<open>\<le> 0\<close> for whose key the
  corner-profile cache has no entry, \<^verbatim>\<open>computeCornerProfile\<close> returns the all-zero
  profile (and caches it) without any error; each of the four tracers draws the all-zero
  profile as a straight line of length 0, printed as \<^verbatim>\<open>0.0000\<close>.
\<close>

theorem C8_degenerate_profile_on_miss:
  fixes toStr :: "real \<Rightarrow> string"
  defines "zero \<equiv> \<lparr>patch_a = 0, patch_b = 0, patch_c = 0, patch_d = 0, patch_p = 0,
                     patch_cornerRadius = 0, patch_arcSectionLength = 0\<rparr>"
  assumes "r \<le> 0 \<or> budget \<le> 0"
    and "CORNER_PROFILE_CACHE caches (cornerProfileCacheKey toStr r s pr budget) = None"
  shows "computeCornerProfile toStr r s pr budget caches =
           Some (zero, caches\<lparr>CORNER_PROFILE_CACHE :=
                   (CORNER_PROFILE_CACHE caches)(cornerProfileCacheKey toStr r s pr budget \<mapsto> zero)\<rparr>) \<and>
         traceTopRight toStr zero = ''l 0.0000 0'' \<and>
         traceBottomRight toStr zero = ''l 0 0.0000'' \<and>
         traceBottomLeft toStr zero = ''l 0.0000 0'' \<and>
         traceTopLeft toStr zero = ''l 0 0.0000''"
proof -
  have z: "zero = zeroProfile" by (simp add: zero_def zeroProfile_def)
  have "computeCornerProfile toStr r s pr budget caches =
           Some (zero, caches\<lparr>CORNER_PROFILE_CACHE :=
                   (CORNER_PROFILE_CACHE caches)(cornerProfileCacheKey toStr r s pr budget \<mapsto> zero)\<rparr>)"
    using assms(2,3) by (simp add: computeCornerProfile_def Let_def body_degenerate z)
  moreover have "traceTopRight toStr zero = ''l 0.0000 0''"
    by (simp add: traceTopRight_def zero_def toFixed4_0)
  moreover have "traceBottomRight toStr zero = ''l 0 0.0000''"
    by (simp add: traceBottomRight_def zero_def toFixed4_0)
  moreover have "traceBottomLeft toStr zero = ''l 0.0000 0''"
    by (simp add: traceBottomLeft_def zero_def toFixed4_0)
  moreover have "traceTopLeft toStr zero = ''l 0 0.0000''"
    by (simp add: traceTopLeft_def zero_def toFixed4_0)
  ultimately show ?thesis by simp
qed

theorem C8_degenerate_witness:
  "computeCornerProfile decimalString 0 (3 / 5) False 0 emptyCaches =
     Some (\<lparr>patch_a = 0, patch_b = 0, patch_c = 0, patch_d = 0, patch_p = 0,
            patch_cornerRadius = 0, patch_arcSectionLength = 0\<rparr>,
           emptyCaches\<lparr>CORNER_PROFILE_CACHE :=
             (CORNER_PROFILE_CACHE emptyCaches)
               (cornerProfileCacheKey decimalString 0 (3 / 5) False 0 \<mapsto>
                  \<lparr>patch_a = 0, patch_b = 0, patch_c = 0, patch_d = 0, patch_p = 0,
                   patch_cornerRadius = 0, patch_arcSectionLength = 0\<rparr>)\<rparr>)"
  using C8_degenerate_profile_on_miss [of 0 0 emptyCaches decimalString "3 / 5" False]
  by simp

subsection \<open>C9: monotonicity in the smoothing factor\<close>

text \<open>
  C9 as stated: at a fixed radius and budget, with the preserve flag off, the footprint
  \<open>p\<close> that \<^verbatim>\<open>computeCornerProfile\<close> gives does not fall when the smoothing factor grows.
  It fails on a hit of the corner-profile cache. Once the profile of radius 10.00045,
  smoothing 0.5 and budget 20 is cached (\<open>p = 15.000675\<close>), the call with radius 10 and
  smoothing 0.5 has the same key \<^verbatim>\<open>10.000|0.5000|0|20.000\<close> and returns it, while the
  call with radius 10 and the larger smoothing 0.50006 has another key and computes
  \<open>p = 15.0006\<close>.
\<close>

theorem C9_footprint_counterexample:
  "case computeCornerProfile decimalString 10 (50000 / 100000) False 20
          (snd (the (computeCornerProfile decimalString (1000045 / 100000) (50000 / 100000) False 20
             emptyCaches))) of
     None \<Rightarrow> False
   | Some (prof1, caches1) \<Rightarrow>
       (case computeCornerProfile decimalString 10 (50006 / 100000) False 20 caches1 of
          None \<Rightarrow> False
        | Some (prof2, caches2) \<Rightarrow>
            (50000 / 100000 :: real) < 50006 / 100000 \<and>
            patch_p prof1 = 15000675 / 1000000 \<and>
            patch_p prof2 = 150006 / 10000 \<and>
            patch_p prof2 < patch_p prof1)"
proof -
  obtain prof0 c0 prof2 c2 where
    first: "computeCornerProfile decimalString (200009 / 20000) (1 / 2) False 20 emptyCaches =
       Some (prof0, c0)"
    and hit: "computeCornerProfile decimalString 10 (1 / 2) False 20 c0 = Some (prof0, c0)"
    and p0: "patch_p prof0 = 600027 / 40000"
    and second: "computeCornerProfile decimalString 10 (25003 / 50000) False 20 c0 = Some (prof2, c2)"
    and p2: "patch_p prof2 = 75003 / 5000"
    using stale_footprint by blast
  have f: "(1000045 / 100000 :: real) = 200009 / 20000" "(50000 / 100000 :: real) = 1 / 2"
    "(50006 / 100000 :: real) = 25003 / 50000" by simp_all
  show ?thesis
    unfolding f by (simp only: first option.sel snd_conv hit option.case prod.case second)
      (simp add: p0 p2)
qed

text \<open>
  C9 amended: for a corner radius \<open>r > 0\<close> and a budget with \<open>r \<le> budget\<close>, with the
  preserve flag off, whenever \<^verbatim>\<open>computeCornerProfile\<close> finds no entry under the keys of
  the two requests, a larger smoothing factor in \<open>[0, 1]\<close> gives an arc measure that is
  not larger (the arc section of the returned profile is computed from it) and a
  footprint \<open>p\<close> that is not smaller; the footprint is \<open>min((1 + smoothing) r, budget)\<close>,
  so it is capped at the budget. On a hit the stored profile is returned as it is.
\<close>

theorem C9_smoothing_monotone_on_miss:
  assumes "0 < r" "r \<le> budget" "0 \<le> s1" "s1 \<le> s2" "s2 \<le> 1"
    and "CORNER_PROFILE_CACHE caches1 (cornerProfileCacheKey toStr r s1 False budget) = None"
    and "CORNER_PROFILE_CACHE caches2 (cornerProfileCacheKey toStr r s2 False budget) = None"
  shows "(\<exists>s1' p1 s2' p2 prof1 prof2 caches1' caches2'.
           clampSmoothing r s1 False budget = Some (s1', p1) \<and>
           clampSmoothing r s2 False budget = Some (s2', p2) \<and>
           computeCornerProfile toStr r s1 False budget caches1 = Some (prof1, caches1') \<and>
           computeCornerProfile toStr r s2 False budget caches2 = Some (prof2, caches2') \<and>
           patch_arcSectionLength prof1 = sin (degToRad (arcMeasureOf s1' / 2)) * r * sqrt 2 \<and>
           patch_arcSectionLength prof2 = sin (degToRad (arcMeasureOf s2' / 2)) * r * sqrt 2 \<and>
           arcMeasureOf s1' = 90 * (1 - min s1 (budget / r - 1)) \<and>
           arcMeasureOf s2' = 90 * (1 - min s2 (budget / r - 1)) \<and>
           arcMeasureOf s2' \<le> arcMeasureOf s1' \<and>
           patch_p prof1 = p1 \<and> patch_p prof2 = p2 \<and>
           p1 \<le> p2 \<and> p2 \<le> budget \<and> p2 = min ((1 + s2) * r) budget) \<and>
         (\<forall>s cached caches.
            CORNER_PROFILE_CACHE caches (cornerProfileCacheKey toStr r s False budget) = Some cached
            \<longrightarrow> computeCornerProfile toStr r s False budget caches = Some (cached, caches))"
proof -
  from assms have b: "0 < budget" by simp
  from computeCornerProfile_miss [OF assms(6)] obtain prof1 caches1' where
    body1: "computeCornerProfile_body r s1 False budget = Some prof1"
    and run1: "computeCornerProfile toStr r s1 False budget caches1 = Some (prof1, caches1')"
    by blast
  from computeCornerProfile_miss [OF assms(7)] obtain prof2 caches2' where
    body2: "computeCornerProfile_body r s2 False budget = Some prof2"
    and run2: "computeCornerProfile toStr r s2 False budget caches2 = Some (prof2, caches2')"
    by blast
  have c1: "clampSmoothing r s1 False budget =
              Some (min s1 (budget / r - 1), min ((1 + s1) * r) budget)"
    using assms(1) by (simp add: clampSmoothing_def numDiv_def Let_def)
  have c2: "clampSmoothing r s2 False budget =
              Some (min s2 (budget / r - 1), min ((1 + s2) * r) budget)"
    using assms(1) by (simp add: clampSmoothing_def numDiv_def Let_def)
  have a1: "patch_arcSectionLength prof1 =
      sin (degToRad (arcMeasureOf (min s1 (budget / r - 1)) / 2)) * r * sqrt 2"
    by (rule body_arcSection [OF body1 assms(1) b c1])
  have a2: "patch_arcSectionLength prof2 =
      sin (degToRad (arcMeasureOf (min s2 (budget / r - 1)) / 2)) * r * sqrt 2"
    by (rule body_arcSection [OF body2 assms(1) b c2])
  have p1: "patch_p prof1 = min ((1 + s1) * r) budget"
    using body_footprint [OF body1] assms(1) b by simp
  have p2: "patch_p prof2 = min ((1 + s2) * r) budget"
    using body_footprint [OF body2] assms(1) b by simp
  have "(1 + s1) * r \<le> (1 + s2) * r"
    using assms(1,4) by (simp add: mult_right_mono)
  then have mono: "min ((1 + s1) * r) budget \<le> min ((1 + s2) * r) budget"
    by (simp add: min_def)
  have arc: "arcMeasureOf (min s2 (budget / r - 1)) \<le> arcMeasureOf (min s1 (budget / r - 1))"
    using assms(4) by (simp add: arcMeasureOf_def min_def)
  have miss: "\<exists>s1' p1 s2' p2 prof1 prof2 caches1' caches2'.
           clampSmoothing r s1 False budget = Some (s1', p1) \<and>
           clampSmoothing r s2 False budget = Some (s2', p2) \<and>
           computeCornerProfile toStr r s1 False budget caches1 = Some (prof1, caches1') \<and>
           computeCornerProfile toStr r s2 False budget caches2 = Some (prof2, caches2') \<and>
           patch_arcSectionLength prof1 = sin (degToRad (arcMeasureOf s1' / 2)) * r * sqrt 2 \<and>
           patch_arcSectionLength prof2 = sin (degToRad (arcMeasureOf s2' / 2)) * r * sqrt 2 \<and>
           arcMeasureOf s1' = 90 * (1 - min s1 (budget / r - 1)) \<and>
           arcMeasureOf s2' = 90 * (1 - min s2 (budget / r - 1)) \<and>
           arcMeasureOf s2' \<le> arcMeasureOf s1' \<and>
           patch_p prof1 = p1 \<and> patch_p prof2 = p2 \<and>
           p1 \<le> p2 \<and> p2 \<le> budget \<and> p2 = min ((1 + s2) * r) budget"
    using c1 c2 run1 run2 a1 a2 arc p1 p2 mono by (simp add: arcMeasureOf_def)
  have hit: "\<forall>s cached caches.
            CORNER_PROFILE_CACHE caches (cornerProfileCacheKey toStr r s False budget) = Some cached
            \<longrightarrow> computeCornerProfile toStr r s False budget caches = Some (cached, caches)"
    by (simp add: computeCornerProfile_hit)
  from miss hit show ?thesis by (rule conjI)
qed

theorem C9_smoothing_witness:
  "\<exists>s1' p1 s2' p2 prof1 prof2 caches1' caches2'.
           clampSmoothing 40 (1 / 5) False 50 = Some (s1', p1) \<and>
           clampSmoothing 40 (3 / 5) False 50 = Some (s2', p2) \<and>
           computeCornerProfile decimalString 40 (1 / 5) False 50 emptyCaches = Some (prof1, caches1') \<and>
           computeCornerProfile decimalString 40 (3 / 5) False 50 emptyCaches = Some (prof2, caches2') \<and>
           patch_arcSectionLength prof1 = sin (degToRad (arcMeasureOf s1' / 2)) * 40 * sqrt 2 \<and>
           patch_arcSectionLength prof2 = sin (degToRad (arcMeasureOf s2' / 2)) * 40 * sqrt 2 \<and>
           arcMeasureOf s1' = 90 * (1 - min (1 / 5) (50 / 40 - 1)) \<and>
           arcMeasureOf s2' = 90 * (1 - min (3 / 5) (50 / 40 - 1)) \<and>
           arcMeasureOf s2' \<le> arcMeasureOf s1' \<and>
           patch_p prof1 = p1 \<and> patch_p prof2 = p2 \<and>
           p1 \<le> p2 \<and> p2 \<le> 50 \<and> p2 = min ((1 + 3 / 5) * 40) 50"
  using C9_smoothing_monotone_on_miss [of 40 50 "1 / 5" "3 / 5" emptyCaches decimalString emptyCaches]
  by simp

subsection \<open>C1: adjacent corners do not overlap\<close>

text \<open>
  C1 as stated: on every edge the footprints of the two corner profiles used to assemble
  the path sum to at most the edge's length. It fails where the corner-profile cache
  answers for a neighbour. On the 20 by 100 box with radii 10.0004 (top left) and 9.9996
  (top right) and smoothing 0, the normalizer gives the budgets 10.0004 and 9.9996; both
  corners have the key \<^verbatim>\<open>10.000|0.0000|0|10.000\<close>, so the top-right corner, computed
  second, receives the profile just cached for the top-left one. The two footprints on the
  top edge are 10.0004 each: 20.0008 on an edge of length 20, already on the first call
  from empty caches.
\<close>

theorem C1_footprints_counterexample:
  "(case normalizedPathParams decimalString 20 100 (100004 / 10000) (99996 / 10000) 0 0 0 False
           emptyCaches of
      None \<Rightarrow> False
    | Some (params, caches') \<Rightarrow>
        pathWidth params = 20 \<and>
        patch_p (topLeftPathParams params) + patch_p (topRightPathParams params) = 200008 / 10000 \<and>
        \<not> footprintsFit params) \<and>
   buildSquirclePath decimalString
     (cornersInput 20 100 0 (100004 / 10000) (99996 / 10000) 0 0) emptyCaches =
     do {
       (params, caches') \<leftarrow>
         normalizedPathParams decimalString 20 100 (100004 / 10000) (99996 / 10000) 0 0 0 False
           emptyCaches;
       Some (joinCornerProfiles decimalString params,
             storeCachedPath
               (cacheKeyOf decimalString (cornersInput 20 100 0 (100004 / 10000) (99996 / 10000) 0 0))
               (joinCornerProfiles decimalString params) caches')
     }"
proof
  obtain prof pBR pBL caches' where
    run: "normalizedPathParams decimalString 20 100 (100004 / 10000) (99996 / 10000) 0 0 0 False
       emptyCaches =
       Some (\<lparr>pathWidth = 20, pathHeight = 100,
              topLeftPathParams = prof, topRightPathParams = prof,
              bottomLeftPathParams = pBL, bottomRightPathParams = pBR\<rparr>, caches')"
    and p: "patch_p prof = 100004 / 10000"
    using aliased_corner_profiles by blast
  show "case normalizedPathParams decimalString 20 100 (100004 / 10000) (99996 / 10000) 0 0 0 False
           emptyCaches of
      None \<Rightarrow> False
    | Some (params, caches') \<Rightarrow>
        pathWidth params = 20 \<and>
        patch_p (topLeftPathParams params) + patch_p (topRightPathParams params) = 200008 / 10000 \<and>
        \<not> footprintsFit params"
    by (simp only: run) (simp add: p footprintsFit_def)
  show "buildSquirclePath decimalString
     (cornersInput 20 100 0 (100004 / 10000) (99996 / 10000) 0 0) emptyCaches =
     do {
       (params, caches') \<leftarrow>
         normalizedPathParams decimalString 20 100 (100004 / 10000) (99996 / 10000) 0 0 0 False
           emptyCaches;
       Some (joinCornerProfiles decimalString params,
             storeCachedPath
               (cacheKeyOf decimalString (cornersInput 20 100 0 (100004 / 10000) (99996 / 10000) 0 0))
               (joinCornerProfiles decimalString params) caches')
     }"
    using normalized_call [of "cornersInput 20 100 0 (100004 / 10000) (99996 / 10000) 0 0"
        decimalString emptyCaches]
    by simp
qed

text \<open>
  C1 amended: for every box with sides \<open>\<ge> 0\<close>, every four requested radii \<open>\<ge> 0\<close>, every
  smoothing factor and either value of the preserve flag, the four corner profiles that
  the geometry computes (the equal-radii budget or \<^verbatim>\<open>normalizeCorners\<close>, then the
  computation of \<^verbatim>\<open>computeCornerProfile\<close> for each corner, no profile taken from the
  corner-profile cache) have footprints whose sum is at most the edge's length on each
  of the four edges, exactly. A profile served by the corner-profile cache belongs to
  inputs that agree with the request only to the 3 decimals of the key.
\<close>

theorem C1_footprints_fit_uncached:
  assumes "0 \<le> w" "0 \<le> h" "0 \<le> rTL" "0 \<le> rTR" "0 \<le> rBR" "0 \<le> rBL"
  shows "\<exists>params. pathParams_uncached w h rTL rTR rBR rBL smoothing preserve = Some params \<and>
           pathWidth params = w \<and> pathHeight params = h \<and> footprintsFit params"
proof -
  from uncached_footprints [OF assms] obtain params where
    "pathParams_uncached w h rTL rTR rBR rBL smoothing preserve = Some params"
    "footprintsFit params"
    by blast
  with pathParams_uncached_size show ?thesis by blast
qed

theorem C1_footprints_witness:
  "\<exists>params. pathParams_uncached 100 100 0 0 40 0 (3 / 5) False = Some params \<and>
           pathWidth params = 100 \<and> pathHeight params = 100 \<and> footprintsFit params"
  using C1_footprints_fit_uncached [of 100 100 0 0 40 0 "3 / 5" False] by simp

subsection \<open>C2: no NaN in the returned string\<close>

text \<open>
  C2. For every input that satisfies the preconditions (sides of the box \<open>\<ge> 0\<close>, resolved
  radii \<open>\<ge> 0\<close>, smoothing factor in \<open>[0, 1]\<close>) and every cache state the module can
  reach, \<^verbatim>\<open>buildSquirclePath\<close> returns a string, no division by zero occurs on the way,
  and the string does not contain \<^verbatim>\<open>NaN\<close>. The default number conversion is assumed
  never to print the letter \<open>N\<close> for a finite number. The inputs with exactly one radius
  that is not zero are among them.
\<close>

theorem C2_no_NaN:
  assumes "validInput options" and "reachable toStr caches"
    and "\<And>x. CHR ''N'' \<notin> set (toStr x)"
  shows "\<exists>path caches'. buildSquirclePath toStr options caches = Some (path, caches') \<and>
           \<not> sublist ''NaN'' path"
proof -
  from buildSquirclePath_total [OF assms(1)] obtain path caches' where
    call: "buildSquirclePath toStr options caches = Some (path, caches')"
    by blast
  have "cleanPaths caches" by (rule reachable_clean [OF assms(3) assms(2)])
  from buildSquirclePath_clean [OF assms(3) this call] have "CHR ''N'' \<notin> set path" by simp
  then have "\<not> sublist ''NaN'' path" using sublist_NaN_has_N by blast
  with call show ?thesis by blast
qed

text \<open>
  Witness: the regression test of the repository, a 100 by 100 box with smoothing 0.6 and
  only the bottom-right radius set, on the empty caches.
\<close>

theorem C2_no_NaN_witness:
  "\<exists>path caches'.
     buildSquirclePath decimalString (cornersInput 100 100 (3 / 5) 0 0 40 0) emptyCaches =
       Some (path, caches') \<and>
     \<not> sublist ''NaN'' path"
proof -
  have v: "validInput (cornersInput 100 100 (3 / 5) 0 0 40 0)"
    by (simp add: validInput_def)
  show ?thesis
    by (rule C2_no_NaN [OF v reachable_start decimalString_no_N])
qed

subsection \<open>C3: transparency of the caches\<close>

text \<open>
  C3 as stated: whatever was called before, \<^verbatim>\<open>buildSquirclePath\<close> returns the string that
  the geometry pipeline computes with both caches bypassed. It fails because the keys are
  rounded: after the call with radius 0.004 on the 100 by 100 box, the call with radius 0
  has the same key (radii print as \<^verbatim>\<open>0.00\<close>) and returns the stored curved path,
  while the uncached pipeline returns the rectangle.
\<close>

theorem C3_cache_transparency_counterexample:
  "map_option fst
     (buildSquirclePath decimalString (uniformInput 100 100 0 0)
        (snd (the (buildSquirclePath decimalString (uniformInput 100 100 0 (4 / 1000)) emptyCaches))))
   \<noteq> buildSquirclePath_uncached decimalString (uniformInput 100 100 0 0)"
proof -
  obtain pathA cachesA where
    first: "buildSquirclePath decimalString (uniformInput 100 100 0 (4 / 1000)) emptyCaches =
       Some (pathA, cachesA)"
    and c: "CHR ''c'' \<in> set pathA"
    and second: "buildSquirclePath decimalString (uniformInput 100 100 0 0) cachesA =
       Some (pathA, cachesA)"
    using stale_curved_path by blast
  have un: "buildSquirclePath_uncached decimalString (uniformInput 100 100 0 0) =
      Some ''M 100 0 L 100 100 L 0 100 L 0 0 Z''"
    by (simp add: buildSquirclePath_uncached_def decimalString_100)
  have "CHR ''c'' \<notin> set ''M 100 0 L 100 100 L 0 100 L 0 0 Z''" by simp
  with c have "pathA \<noteq> ''M 100 0 L 100 100 L 0 100 L 0 0 Z''" by metis
  with first second un show ?thesis by simp
qed

text \<open>
  C3 amended: for every history of calls with valid inputs and every valid input of the
  next call, \<^verbatim>\<open>buildSquirclePath\<close> returns the string that the uncached pipeline computes
  for that input, whatever the two caches answer on the way, provided that the inputs
  involved are free of collisions: no two of them have the same rounded key of the path
  cache and different uncached paths, and no two of their corner requests have the same
  rounded key of the corner-profile cache and different computed profiles. Repeated
  calls with the same input and calls that share corner profiles are covered; what is
  excluded is exactly an entry stored under the same rounded key by an input with
  another result, which the call would return as it is.
\<close>

theorem C3_cache_transparent_without_collisions:
  assumes "collisionFree toStr (options # history)"
    and "\<forall>inp \<in> set (options # history). validInput inp"
  shows "\<exists>caches path caches'.
           runCalls toStr history emptyCaches = Some caches \<and>
           buildSquirclePath toStr options caches = Some (path, caches') \<and>
           buildSquirclePath_uncached toStr options = Some path"
proof -
  from assms(2) have "\<forall>inp \<in> set history. validInput inp" and v: "validInput options"
    by simp_all
  from runCalls_total [OF this(1)] obtain caches where
    run: "runCalls toStr history emptyCaches = Some caches" by blast
  have exact: "cachesExact toStr (options # history) caches"
    by (rule runCalls_exact [OF assms(1) _ cachesExact_empty run]) auto
  from buildSquirclePath_total [OF v] obtain path caches' where
    call: "buildSquirclePath toStr options caches = Some (path, caches')" by blast
  from exact_call_result [OF assms(1) exact _ call]
  have "buildSquirclePath_uncached toStr options = Some path" by simp
  with run call show ?thesis by blast
qed

text \<open>
  Witness: radius 60 and smoothing 0.6 on the 100 by 200 box, then twice on the 100 by 100
  box. The second call finds the corner profile of the first (radius 50, budget 50) in the
  corner-profile cache, the third finds its path in the path cache.
\<close>

theorem C3_cache_transparent_witness:
  "\<exists>caches path.
     runCalls decimalString [uniformInput 100 200 (3 / 5) 60, uniformInput 100 100 (3 / 5) 60]
       emptyCaches = Some caches \<and>
     readCachedPath (cacheKeyOf decimalString (uniformInput 100 100 (3 / 5) 60)) caches = Some path \<and>
     buildSquirclePath decimalString (uniformInput 100 100 (3 / 5) 60) caches = Some (path, caches) \<and>
     buildSquirclePath_uncached decimalString (uniformInput 100 100 (3 / 5) 60) = Some path"
proof -
  let ?A = "uniformInput 100 100 (3 / 5) 60" and ?B = "uniformInput 100 200 (3 / 5) 60"
  have v: "\<forall>inp \<in> set [?A, ?B, ?A]. validInput inp"
    by (simp add: validInput_def)
  from C3_cache_transparent_without_collisions [OF two_boxes_collisionFree v]
  obtain caches path caches' where
    run: "runCalls decimalString [?B, ?A] emptyCaches = Some caches"
    and call: "buildSquirclePath decimalString ?A caches = Some (path, caches')"
    and un: "buildSquirclePath_uncached decimalString ?A = Some path"
    by blast
  from run obtain p1 c1 pathA where
    "buildSquirclePath decimalString ?A c1 = Some (pathA, caches)"
    by (auto split: option.splits)
  from buildSquirclePath_stored [OF this] buildSquirclePath_not_empty [OF this]
  have stored: "readCachedPath (cacheKeyOf decimalString ?A) caches = Some pathA"
    and ne: "pathA \<noteq> []" by simp_all
  from buildSquirclePath_hit [OF stored ne] call have "pathA = path" "caches' = caches"
    by simp_all
  with run stored call un show ?thesis by blast
qed

subsection \<open>C7: rounding of the emitted numbers\<close>




end
